theory Spec2Isabelle
  imports Complex_Main "HOL-Library.Word" "HOL-Library.Signed_Division"
begin

unbundle bit_operations_syntax

section \<open>Pixel types, C types and byte-addressed buffers\<close>

text \<open>
  The embedding follows \<open>rasterio.cpp\<close> (GDAL core, as shipped in this repository).
  C \<open>int\<close>, \<open>GSpacing\<close> and \<open>GPtrDiff_t\<close> values are modelled as unbounded
  integers: the development is about runs in which no signed overflow occurs.
  A buffer is a byte-addressed region, a function from byte offsets (relative to
  some base pointer) to bytes; a C pointer into a buffer is the region together
  with an offset.  Source and destination of a copy are distinct regions
  (\<open>CPL_RESTRICT\<close>).
\<close>

datatype GDALDataType =
    GDT_Unknown | GDT_Byte | GDT_UInt16 | GDT_Int16 | GDT_UInt32 | GDT_Int32
  | GDT_Float32 | GDT_Float64 | GDT_CInt16 | GDT_CInt32 | GDT_CFloat32 | GDT_CFloat64

datatype ctype = C_uchar | C_ushort | C_short | C_uint | C_int | C_float | C_double

fun sizeof :: "ctype \<Rightarrow> nat" where
  "sizeof C_uchar = 1"
| "sizeof C_ushort = 2"
| "sizeof C_short = 2"
| "sizeof C_uint = 4"
| "sizeof C_int = 4"
| "sizeof C_float = 4"
| "sizeof C_double = 8"

text \<open>
  Modelled from the spec: \<open>GDALGetDataTypeSizeBytes\<close> is declared in \<open>gdal.h\<close>
  and defined outside this file.  The sizes are those of the C types to which
  the dispatch of \<open>GDALCopyWords\<close> casts a buffer of each pixel type (a complex
  type is a pair of its component type); the unknown type has size 0.
\<close>

fun GDALGetDataTypeSizeBytes :: "GDALDataType \<Rightarrow> int" where
  "GDALGetDataTypeSizeBytes GDT_Unknown = 0"
| "GDALGetDataTypeSizeBytes GDT_Byte = 1"
| "GDALGetDataTypeSizeBytes GDT_UInt16 = 2"
| "GDALGetDataTypeSizeBytes GDT_Int16 = 2"
| "GDALGetDataTypeSizeBytes GDT_UInt32 = 4"
| "GDALGetDataTypeSizeBytes GDT_Int32 = 4"
| "GDALGetDataTypeSizeBytes GDT_Float32 = 4"
| "GDALGetDataTypeSizeBytes GDT_Float64 = 8"
| "GDALGetDataTypeSizeBytes GDT_CInt16 = 4"
| "GDALGetDataTypeSizeBytes GDT_CInt32 = 8"
| "GDALGetDataTypeSizeBytes GDT_CFloat32 = 8"
| "GDALGetDataTypeSizeBytes GDT_CFloat64 = 16"

type_synonym byte = "8 word"
type_synonym mem = "int \<Rightarrow> byte"

definition load :: "mem \<Rightarrow> int \<Rightarrow> nat \<Rightarrow> byte list" where
  "load m a n = map (\<lambda>i. m (a + int i)) [0..<n]"

fun store :: "mem \<Rightarrow> int \<Rightarrow> byte list \<Rightarrow> mem" where
  "store m a [] = m"
| "store m a (b # bs) = store (m(a := b)) (a + 1) bs"

text \<open>\<open>memcpy(dst + d, src + s, n)\<close> and \<open>memset(dst + d, c, n)\<close>.\<close>

definition memcpy :: "mem \<Rightarrow> int \<Rightarrow> mem \<Rightarrow> int \<Rightarrow> nat \<Rightarrow> mem" where
  "memcpy dst d src s n = store dst d (load src s n)"

definition memset :: "mem \<Rightarrow> int \<Rightarrow> byte \<Rightarrow> nat \<Rightarrow> mem" where
  "memset dst d c n = store dst d (replicate n c)"

text \<open>An object of \<open>n\<close> bytes holding the value \<open>bs\<close> (little-endian, zero-extended).\<close>

definition fit :: "nat \<Rightarrow> byte list \<Rightarrow> byte list" where
  "fit n bs = take n bs @ replicate (n - length bs) 0"

text \<open>Little-endian reading and writing of machine words.\<close>

fun le_word :: "byte list \<Rightarrow> 'a::len word" where
  "le_word [] = 0"
| "le_word (b # bs) = ucast b OR push_bit 8 (le_word bs)"

fun word_le :: "nat \<Rightarrow> 'a::len word \<Rightarrow> byte list" where
  "word_le 0 w = []"
| "word_le (Suc n) w = ucast w # word_le n (drop_bit 8 w)"

section \<open>C loops\<close>

text \<open>
  \<open>for (; n < hi; n++) body\<close>, and the strided loops of the vectorised kernels,
  \<open>for (; n < hi; n += 8)\<close> and \<open>for (; n < hi; n += 16)\<close>, which also return the
  counter for the scalar loop that finishes the work.
\<close>

function for_loop :: "int \<Rightarrow> int \<Rightarrow> (int \<Rightarrow> 's \<Rightarrow> 's) \<Rightarrow> 's \<Rightarrow> 's" where
  "for_loop n hi body s = (if n < hi then for_loop (n + 1) hi body (body n s) else s)"
  by pat_completeness auto
termination
  by (relation "measure (\<lambda>(n, hi, body, s). nat (hi - n))") auto

function for_by8 :: "int \<Rightarrow> int \<Rightarrow> (int \<Rightarrow> 's \<Rightarrow> 's) \<Rightarrow> 's \<Rightarrow> int \<times> 's" where
  "for_by8 n hi body s = (if n < hi then for_by8 (n + 8) hi body (body n s) else (n, s))"
  by pat_completeness auto
termination
  by (relation "measure (\<lambda>(n, hi, body, s). nat (hi - n))") auto

function for_by16 :: "int \<Rightarrow> int \<Rightarrow> (int \<Rightarrow> 's \<Rightarrow> 's) \<Rightarrow> 's \<Rightarrow> int \<times> 's" where
  "for_by16 n hi body s = (if n < hi then for_by16 (n + 16) hi body (body n s) else (n, s))"
  by pat_completeness auto
termination
  by (relation "measure (\<lambda>(n, hi, body, s). nat (hi - n))") auto

text \<open>\<open>while (nWordCount > 0) { --nWordCount; body }\<close> on an unsigned counter.\<close>

primrec repeat :: "nat \<Rightarrow> ('s \<Rightarrow> 's) \<Rightarrow> 's \<Rightarrow> 's" where
  "repeat 0 body s = s"
| "repeat (Suc n) body s = repeat n body (body s)"

declare for_loop.simps [simp del] for_by8.simps [simp del] for_by16.simps [simp del]

section \<open>The Word Converter and the generic per-word loops\<close>

text \<open>
  \<open>GDALCopyWord\<close> and \<open>GDALCopy8Words\<close> live in \<open>gdal_priv_templates.hpp\<close>, outside
  this file, and the conversion of an integer to a floating-point number is done by
  the hardware.  They are parameters of the model: \<open>copy_word Tin Tout v\<close> is the
  value \<open>GDALCopyWord\<close> assigns for the input object \<open>v\<close>, \<open>copy_8words\<close> the eight
  values of \<open>GDALCopy8Words\<close>, \<open>int_to_float\<close> and \<open>int_to_double\<close> the IEEE
  encodings of an integer (the C conversion and the lanes of \<open>_mm_cvtepi32_ps\<close> and
  \<open>_mm_cvtepi32_pd\<close>).  A value assigned to an object of type \<open>T\<close> occupies
  \<open>sizeof T\<close> bytes.
\<close>

record conv_env =
  copy_word :: "ctype \<Rightarrow> ctype \<Rightarrow> byte list \<Rightarrow> byte list"
  copy_8words :: "ctype \<Rightarrow> ctype \<Rightarrow> byte list \<Rightarrow> byte list"
  int_to_float :: "int \<Rightarrow> byte list"
  int_to_double :: "int \<Rightarrow> byte list"

definition GDALCopyWord :: "conv_env \<Rightarrow> ctype \<Rightarrow> ctype \<Rightarrow> byte list \<Rightarrow> byte list" where
  "GDALCopyWord E Tin Tout v = fit (sizeof Tout) (copy_word E Tin Tout v)"

definition GDALCopy8Words :: "conv_env \<Rightarrow> ctype \<Rightarrow> ctype \<Rightarrow> byte list \<Rightarrow> byte list" where
  "GDALCopy8Words E Tin Tout v = fit (8 * sizeof Tout) (copy_8words E Tin Tout v)"

definition GDALCopyWordsGenericT ::
  "conv_env \<Rightarrow> ctype \<Rightarrow> ctype \<Rightarrow> mem \<Rightarrow> int \<Rightarrow> int \<Rightarrow> mem \<Rightarrow> int \<Rightarrow> int \<Rightarrow> int \<Rightarrow> mem" where
  "GDALCopyWordsGenericT E Tin Tout src pSrcData nSrcPixelStride dst pDstData nDstPixelStride nWordCount =
     snd (for_loop 0 nWordCount
       (\<lambda>n (nDstOffset, dst).
          let tValue = load src (pSrcData + n * nSrcPixelStride) (sizeof Tin)
          in (nDstOffset + nDstPixelStride,
              store dst (pDstData + nDstOffset) (GDALCopyWord E Tin Tout tValue)))
       (0, dst))"

definition GDALCopyWordsT_8atatime ::
  "conv_env \<Rightarrow> ctype \<Rightarrow> ctype \<Rightarrow> mem \<Rightarrow> int \<Rightarrow> int \<Rightarrow> mem \<Rightarrow> int \<Rightarrow> int \<Rightarrow> int \<Rightarrow> mem" where
  "GDALCopyWordsT_8atatime E Tin Tout src pSrcData nSrcPixelStride dst pDstData nDstPixelStride nWordCount =
     (let (n, nDstOffset, dst) =
        (if nSrcPixelStride = int (sizeof Tin) \<and> nDstPixelStride = int (sizeof Tout) then
           for_by8 0 (nWordCount - 7)
             (\<lambda>n (nDstOffset, dst).
                let pInValues = load src (pSrcData + n * nSrcPixelStride) (8 * sizeof Tin)
                in (nDstOffset + 8 * nDstPixelStride,
                    store dst (pDstData + nDstOffset) (GDALCopy8Words E Tin Tout pInValues)))
             (0, dst)
         else (0, 0, dst))
      in snd (for_loop n nWordCount
        (\<lambda>n (nDstOffset, dst).
           let tValue = load src (pSrcData + n * nSrcPixelStride) (sizeof Tin)
           in (nDstOffset + nDstPixelStride,
               store dst (pDstData + nDstOffset) (GDALCopyWord E Tin Tout tValue)))
        (nDstOffset, dst)))"

definition GDALCopyWordsComplexT ::
  "conv_env \<Rightarrow> ctype \<Rightarrow> ctype \<Rightarrow> mem \<Rightarrow> int \<Rightarrow> int \<Rightarrow> mem \<Rightarrow> int \<Rightarrow> int \<Rightarrow> int \<Rightarrow> mem" where
  "GDALCopyWordsComplexT E Tin Tout src pSrcData nSrcPixelStride dst pDstData nDstPixelStride nWordCount =
     snd (for_loop 0 nWordCount
       (\<lambda>n (nDstOffset, dst).
          let pPixelIn = pSrcData + n * nSrcPixelStride;
              pPixelOut = pDstData + nDstOffset;
              dst = store dst pPixelOut
                      (GDALCopyWord E Tin Tout (load src pPixelIn (sizeof Tin)));
              dst = store dst (pPixelOut + int (sizeof Tout))
                      (GDALCopyWord E Tin Tout (load src (pPixelIn + int (sizeof Tin)) (sizeof Tin)))
          in (nDstOffset + nDstPixelStride, dst))
       (0, dst))"

text \<open>\<open>static_cast<Tout>(0)\<close>: the zero of every integer and floating-point type is all-zero bytes.\<close>

definition tOutZero :: "ctype \<Rightarrow> byte list" where
  "tOutZero Tout = replicate (sizeof Tout) 0"

definition GDALCopyWordsComplexOutT ::
  "conv_env \<Rightarrow> ctype \<Rightarrow> ctype \<Rightarrow> mem \<Rightarrow> int \<Rightarrow> int \<Rightarrow> mem \<Rightarrow> int \<Rightarrow> int \<Rightarrow> int \<Rightarrow> mem" where
  "GDALCopyWordsComplexOutT E Tin Tout src pSrcData nSrcPixelStride dst pDstData nDstPixelStride nWordCount =
     snd (for_loop 0 nWordCount
       (\<lambda>n (nDstOffset, dst).
          let tValue = load src (pSrcData + n * nSrcPixelStride) (sizeof Tin);
              pPixelOut = pDstData + nDstOffset;
              dst = store dst pPixelOut (GDALCopyWord E Tin Tout tValue);
              dst = store dst (pPixelOut + int (sizeof Tout)) (tOutZero Tout)
          in (nDstOffset + nDstPixelStride, dst))
       (0, dst))"

section \<open>SSE2 intrinsics\<close>

text \<open>
  A 128-bit register is the list of its 16 bytes, lowest first.  Each definition
  follows Intel's description of the instruction of the same name.
\<close>

fun lanes16 :: "byte list \<Rightarrow> 16 word list" where
  "lanes16 (a # b # bs) = le_word [a, b] # lanes16 bs"
| "lanes16 _ = []"

fun lanes32 :: "byte list \<Rightarrow> 32 word list" where
  "lanes32 (a # b # c # d # bs) = le_word [a, b, c, d] # lanes32 bs"
| "lanes32 _ = []"

definition unlanes16 :: "16 word list \<Rightarrow> byte list" where
  "unlanes16 ws = concat (map (word_le 2) ws)"

fun interleave :: "'a list \<Rightarrow> 'a list \<Rightarrow> 'a list" where
  "interleave (x # xs) (y # ys) = x # y # interleave xs ys"
| "interleave _ _ = []"

fun interleave2 :: "'a list \<Rightarrow> 'a list \<Rightarrow> 'a list" where
  "interleave2 (x1 # x2 # xs) (y1 # y2 # ys) = x1 # x2 # y1 # y2 # interleave2 xs ys"
| "interleave2 _ _ = []"

definition mm_setzero_si128 :: "byte list" where
  "mm_setzero_si128 = replicate 16 0"

definition mm_set1_epi16 :: "16 word \<Rightarrow> byte list" where
  "mm_set1_epi16 w = concat (replicate 8 (word_le 2 w))"

definition mm_set1_epi32 :: "32 word \<Rightarrow> byte list" where
  "mm_set1_epi32 w = concat (replicate 4 (word_le 4 w))"

definition mm_loadu_si128 :: "mem \<Rightarrow> int \<Rightarrow> byte list" where
  "mm_loadu_si128 m a = load m a 16"

definition mm_storeu_si128 :: "mem \<Rightarrow> int \<Rightarrow> byte list \<Rightarrow> mem" where
  "mm_storeu_si128 m a x = store m a (fit 16 x)"

definition mm_unpacklo_epi8 :: "byte list \<Rightarrow> byte list \<Rightarrow> byte list" where
  "mm_unpacklo_epi8 a b = interleave (take 8 a) (take 8 b)"

definition mm_unpackhi_epi8 :: "byte list \<Rightarrow> byte list \<Rightarrow> byte list" where
  "mm_unpackhi_epi8 a b = interleave (drop 8 a) (drop 8 b)"

definition mm_unpacklo_epi16 :: "byte list \<Rightarrow> byte list \<Rightarrow> byte list" where
  "mm_unpacklo_epi16 a b = interleave2 (take 8 a) (take 8 b)"

definition mm_unpackhi_epi16 :: "byte list \<Rightarrow> byte list \<Rightarrow> byte list" where
  "mm_unpackhi_epi16 a b = interleave2 (drop 8 a) (drop 8 b)"

definition mm_add_epi16 :: "byte list \<Rightarrow> byte list \<Rightarrow> byte list" where
  "mm_add_epi16 a b = unlanes16 (map2 (+) (lanes16 a) (lanes16 b))"

definition mm_sub_epi16 :: "byte list \<Rightarrow> byte list \<Rightarrow> byte list" where
  "mm_sub_epi16 a b = unlanes16 (map2 (-) (lanes16 a) (lanes16 b))"

definition mm_min_epi16 :: "byte list \<Rightarrow> byte list \<Rightarrow> byte list" where
  "mm_min_epi16 a b =
     unlanes16 (map2 (\<lambda>x y. if sint x < sint y then x else y) (lanes16 a) (lanes16 b))"

text \<open>Saturation of a signed 16-bit lane to an unsigned byte, of a signed 32-bit lane to a signed 16-bit one.\<close>

definition sat_epu8 :: "16 word \<Rightarrow> byte" where
  "sat_epu8 w = (if sint w < 0 then 0 else if 255 < sint w then 255 else ucast w)"

definition sat_epi16 :: "32 word \<Rightarrow> 16 word" where
  "sat_epi16 w =
     (if sint w < - 32768 then word_of_int (- 32768)
      else if 32767 < sint w then 32767 else ucast w)"

definition mm_packus_epi16 :: "byte list \<Rightarrow> byte list \<Rightarrow> byte list" where
  "mm_packus_epi16 a b = map sat_epu8 (lanes16 a @ lanes16 b)"

definition mm_packs_epi32 :: "byte list \<Rightarrow> byte list \<Rightarrow> byte list" where
  "mm_packs_epi32 a b = unlanes16 (map sat_epi16 (lanes32 a @ lanes32 b))"

definition mm_and_si128 :: "byte list \<Rightarrow> byte list \<Rightarrow> byte list" where
  "mm_and_si128 a b = map2 (AND) a b"

definition mm_or_si128 :: "byte list \<Rightarrow> byte list \<Rightarrow> byte list" where
  "mm_or_si128 a b = map2 (OR) a b"

definition mm_slli_si128 :: "byte list \<Rightarrow> nat \<Rightarrow> byte list" where
  "mm_slli_si128 a n = take 16 (replicate n 0 @ a)"

definition mm_srli_si128 :: "byte list \<Rightarrow> nat \<Rightarrow> byte list" where
  "mm_srli_si128 a n = drop n a @ replicate n 0"

definition c_int_to_float :: "conv_env \<Rightarrow> int \<Rightarrow> byte list" where
  "c_int_to_float E v = fit 4 (int_to_float E v)"

definition c_int_to_double :: "conv_env \<Rightarrow> int \<Rightarrow> byte list" where
  "c_int_to_double E v = fit 8 (int_to_double E v)"

definition mm_cvtepi32_ps :: "conv_env \<Rightarrow> byte list \<Rightarrow> byte list" where
  "mm_cvtepi32_ps E a = concat (map (\<lambda>w. c_int_to_float E (sint w)) (lanes32 a))"

definition mm_cvtepi32_pd :: "conv_env \<Rightarrow> byte list \<Rightarrow> byte list" where
  "mm_cvtepi32_pd E a = concat (map (\<lambda>w. c_int_to_double E (sint w)) (take 2 (lanes32 a)))"

text \<open>
  \<open>_mm_storeu_ps\<close> and \<open>_mm_storeu_pd\<close> store the 16 bytes of a register;
  \<open>GDALCopyXMMToInt64\<close> and \<open>GDALCopyXMMToInt32\<close> (\<open>gdalsse_priv.h\<close>) store its
  low 8 and low 4 bytes.
\<close>

definition GDALCopyXMMToInt64 :: "byte list \<Rightarrow> mem \<Rightarrow> int \<Rightarrow> mem" where
  "GDALCopyXMMToInt64 xmm m a = store m a (fit 8 xmm)"

definition GDALCopyXMMToInt32 :: "byte list \<Rightarrow> mem \<Rightarrow> int \<Rightarrow> mem" where
  "GDALCopyXMMToInt32 xmm m a = store m a (fit 4 xmm)"

section \<open>The vectorised specialisations of GDALCopyWordsT (x86-64)\<close>

definition GDALCopyWordsByteTo16Bit ::
  "conv_env \<Rightarrow> ctype \<Rightarrow> mem \<Rightarrow> int \<Rightarrow> int \<Rightarrow> mem \<Rightarrow> int \<Rightarrow> int \<Rightarrow> int \<Rightarrow> mem" where
  "GDALCopyWordsByteTo16Bit E Tout src pSrcData nSrcPixelStride dst pDstData nDstPixelStride nWordCount =
     (if nSrcPixelStride = 1 \<and> nDstPixelStride = 2 then
        (let xmm_zero = mm_setzero_si128;
             (n, dst) = for_by16 0 (nWordCount - 15)
               (\<lambda>n dst.
                  let xmm = mm_loadu_si128 src (pSrcData + n);
                      xmm0 = mm_unpacklo_epi8 xmm xmm_zero;
                      xmm1 = mm_unpackhi_epi8 xmm xmm_zero;
                      dst = mm_storeu_si128 dst (pDstData + n * 2) xmm0
                  in mm_storeu_si128 dst (pDstData + n * 2 + 16) xmm1)
               dst
         in for_loop n nWordCount
              (\<lambda>n dst. store dst (pDstData + n * 2) (fit 2 (load src (pSrcData + n) 1)))
              dst)
      else GDALCopyWordsGenericT E C_uchar Tout src pSrcData nSrcPixelStride
             dst pDstData nDstPixelStride nWordCount)"

definition GDALCopyWordsByteTo32Bit ::
  "conv_env \<Rightarrow> ctype \<Rightarrow> mem \<Rightarrow> int \<Rightarrow> int \<Rightarrow> mem \<Rightarrow> int \<Rightarrow> int \<Rightarrow> int \<Rightarrow> mem" where
  "GDALCopyWordsByteTo32Bit E Tout src pSrcData nSrcPixelStride dst pDstData nDstPixelStride nWordCount =
     (if nSrcPixelStride = 1 \<and> nDstPixelStride = 4 then
        (let xmm_zero = mm_setzero_si128;
             (n, dst) = for_by16 0 (nWordCount - 15)
               (\<lambda>n dst.
                  let xmm = mm_loadu_si128 src (pSrcData + n);
                      xmm_low = mm_unpacklo_epi8 xmm xmm_zero;
                      xmm_high = mm_unpackhi_epi8 xmm xmm_zero;
                      xmm0 = mm_unpacklo_epi16 xmm_low xmm_zero;
                      xmm1 = mm_unpackhi_epi16 xmm_low xmm_zero;
                      xmm2 = mm_unpacklo_epi16 xmm_high xmm_zero;
                      xmm3 = mm_unpackhi_epi16 xmm_high xmm_zero;
                      dst = mm_storeu_si128 dst (pDstData + n * 4) xmm0;
                      dst = mm_storeu_si128 dst (pDstData + n * 4 + 16) xmm1;
                      dst = mm_storeu_si128 dst (pDstData + n * 4 + 32) xmm2
                  in mm_storeu_si128 dst (pDstData + n * 4 + 48) xmm3)
               dst
         in for_loop n nWordCount
              (\<lambda>n dst. store dst (pDstData + n * 4) (fit 4 (load src (pSrcData + n) 1)))
              dst)
      else GDALCopyWordsGenericT E C_uchar Tout src pSrcData nSrcPixelStride
             dst pDstData nDstPixelStride nWordCount)"

definition GDALCopyWordsT_Byte_float ::
  "conv_env \<Rightarrow> mem \<Rightarrow> int \<Rightarrow> int \<Rightarrow> mem \<Rightarrow> int \<Rightarrow> int \<Rightarrow> int \<Rightarrow> mem" where
  "GDALCopyWordsT_Byte_float E src pSrcData nSrcPixelStride dst pDstData nDstPixelStride nWordCount =
     (if nSrcPixelStride = 1 \<and> nDstPixelStride = 4 then
        (let xmm_zero = mm_setzero_si128;
             (n, dst) = for_by16 0 (nWordCount - 15)
               (\<lambda>n dst.
                  let xmm = mm_loadu_si128 src (pSrcData + n);
                      xmm_low = mm_unpacklo_epi8 xmm xmm_zero;
                      xmm_high = mm_unpackhi_epi8 xmm xmm_zero;
                      xmm0 = mm_unpacklo_epi16 xmm_low xmm_zero;
                      xmm1 = mm_unpackhi_epi16 xmm_low xmm_zero;
                      xmm2 = mm_unpacklo_epi16 xmm_high xmm_zero;
                      xmm3 = mm_unpackhi_epi16 xmm_high xmm_zero;
                      xmm0_f = mm_cvtepi32_ps E xmm0;
                      xmm1_f = mm_cvtepi32_ps E xmm1;
                      xmm2_f = mm_cvtepi32_ps E xmm2;
                      xmm3_f = mm_cvtepi32_ps E xmm3;
                      dst = mm_storeu_si128 dst (pDstData + n * 4) xmm0_f;
                      dst = mm_storeu_si128 dst (pDstData + n * 4 + 16) xmm1_f;
                      dst = mm_storeu_si128 dst (pDstData + n * 4 + 32) xmm2_f
                  in mm_storeu_si128 dst (pDstData + n * 4 + 48) xmm3_f)
               dst
         in for_loop n nWordCount
              (\<lambda>n dst. store dst (pDstData + n * 4)
                           (c_int_to_float E (uint (src (pSrcData + n)))))
              dst)
      else GDALCopyWordsGenericT E C_uchar C_float src pSrcData nSrcPixelStride
             dst pDstData nDstPixelStride nWordCount)"

definition GDALCopyWordsT_Byte_double ::
  "conv_env \<Rightarrow> mem \<Rightarrow> int \<Rightarrow> int \<Rightarrow> mem \<Rightarrow> int \<Rightarrow> int \<Rightarrow> int \<Rightarrow> mem" where
  "GDALCopyWordsT_Byte_double E src pSrcData nSrcPixelStride dst pDstData nDstPixelStride nWordCount =
     (if nSrcPixelStride = 1 \<and> nDstPixelStride = 8 then
        (let xmm_zero = mm_setzero_si128;
             (n, dst) = for_by16 0 (nWordCount - 15)
               (\<lambda>n dst.
                  let xmm = mm_loadu_si128 src (pSrcData + n);
                      xmm_low = mm_unpacklo_epi8 xmm xmm_zero;
                      xmm_high = mm_unpackhi_epi8 xmm xmm_zero;
                      xmm0 = mm_unpacklo_epi16 xmm_low xmm_zero;
                      xmm1 = mm_unpackhi_epi16 xmm_low xmm_zero;
                      xmm2 = mm_unpacklo_epi16 xmm_high xmm_zero;
                      xmm3 = mm_unpackhi_epi16 xmm_high xmm_zero;
                      xmm0_low_d = mm_cvtepi32_pd E xmm0;
                      xmm1_low_d = mm_cvtepi32_pd E xmm1;
                      xmm2_low_d = mm_cvtepi32_pd E xmm2;
                      xmm3_low_d = mm_cvtepi32_pd E xmm3;
                      xmm0 = mm_srli_si128 xmm0 8;
                      xmm1 = mm_srli_si128 xmm1 8;
                      xmm2 = mm_srli_si128 xmm2 8;
                      xmm3 = mm_srli_si128 xmm3 8;
                      xmm0_high_d = mm_cvtepi32_pd E xmm0;
                      xmm1_high_d = mm_cvtepi32_pd E xmm1;
                      xmm2_high_d = mm_cvtepi32_pd E xmm2;
                      xmm3_high_d = mm_cvtepi32_pd E xmm3;
                      dst = mm_storeu_si128 dst (pDstData + n * 8) xmm0_low_d;
                      dst = mm_storeu_si128 dst (pDstData + n * 8 + 16) xmm0_high_d;
                      dst = mm_storeu_si128 dst (pDstData + n * 8 + 32) xmm1_low_d;
                      dst = mm_storeu_si128 dst (pDstData + n * 8 + 48) xmm1_high_d;
                      dst = mm_storeu_si128 dst (pDstData + n * 8 + 64) xmm2_low_d;
                      dst = mm_storeu_si128 dst (pDstData + n * 8 + 80) xmm2_high_d;
                      dst = mm_storeu_si128 dst (pDstData + n * 8 + 96) xmm3_low_d
                  in mm_storeu_si128 dst (pDstData + n * 8 + 112) xmm3_high_d)
               dst
         in for_loop n nWordCount
              (\<lambda>n dst. store dst (pDstData + n * 8)
                           (c_int_to_double E (uint (src (pSrcData + n)))))
              dst)
      else GDALCopyWordsGenericT E C_uchar C_double src pSrcData nSrcPixelStride
             dst pDstData nDstPixelStride nWordCount)"

definition GDALCopyWordsT_UInt16_Byte ::
  "conv_env \<Rightarrow> mem \<Rightarrow> int \<Rightarrow> int \<Rightarrow> mem \<Rightarrow> int \<Rightarrow> int \<Rightarrow> int \<Rightarrow> mem" where
  "GDALCopyWordsT_UInt16_Byte E src pSrcData nSrcPixelStride dst pDstData nDstPixelStride nWordCount =
     (if nSrcPixelStride = 2 \<and> nDstPixelStride = 1 then
        (let xmm_UINT16_to_INT16 = mm_set1_epi16 (word_of_int (- 32768));
             xmm_m255_shifted = mm_set1_epi16 (word_of_int (255 - 32768));
             (n, dst) = for_by8 0 (nWordCount - 7)
               (\<lambda>n dst.
                  let xmm = mm_loadu_si128 src (pSrcData + n * 2);
                      xmm = mm_add_epi16 xmm xmm_UINT16_to_INT16;
                      xmm = mm_min_epi16 xmm xmm_m255_shifted;
                      xmm = mm_sub_epi16 xmm xmm_UINT16_to_INT16;
                      xmm = mm_packus_epi16 xmm xmm
                  in GDALCopyXMMToInt64 xmm dst (pDstData + n))
               dst
         in for_loop n nWordCount
              (\<lambda>n dst.
                 let v = (le_word (load src (pSrcData + n * 2) 2) :: 16 word)
                 in store dst (pDstData + n) [if 255 \<le> uint v then 255 else ucast v])
              dst)
      else GDALCopyWordsGenericT E C_ushort C_uchar src pSrcData nSrcPixelStride
             dst pDstData nDstPixelStride nWordCount)"

definition GDALCopyWordsT_UInt16_Int16 ::
  "conv_env \<Rightarrow> mem \<Rightarrow> int \<Rightarrow> int \<Rightarrow> mem \<Rightarrow> int \<Rightarrow> int \<Rightarrow> int \<Rightarrow> mem" where
  "GDALCopyWordsT_UInt16_Int16 E src pSrcData nSrcPixelStride dst pDstData nDstPixelStride nWordCount =
     (if nSrcPixelStride = 2 \<and> nDstPixelStride = 2 then
        (let xmm_UINT16_to_INT16 = mm_set1_epi16 (word_of_int (- 32768));
             xmm_32767_shifted = mm_set1_epi16 (word_of_int (32767 - 32768));
             (n, dst) = for_by8 0 (nWordCount - 7)
               (\<lambda>n dst.
                  let xmm = mm_loadu_si128 src (pSrcData + n * 2);
                      xmm = mm_add_epi16 xmm xmm_UINT16_to_INT16;
                      xmm = mm_min_epi16 xmm xmm_32767_shifted;
                      xmm = mm_sub_epi16 xmm xmm_UINT16_to_INT16
                  in mm_storeu_si128 dst (pDstData + n * 2) xmm)
               dst
         in for_loop n nWordCount
              (\<lambda>n dst.
                 let v = (le_word (load src (pSrcData + n * 2) 2) :: 16 word)
                 in store dst (pDstData + n * 2)
                      (word_le 2 (if 32767 \<le> uint v then 32767 else v)))
              dst)
      else GDALCopyWordsGenericT E C_ushort C_short src pSrcData nSrcPixelStride
             dst pDstData nDstPixelStride nWordCount)"

definition GDALCopyWordsT_UInt16_float ::
  "conv_env \<Rightarrow> mem \<Rightarrow> int \<Rightarrow> int \<Rightarrow> mem \<Rightarrow> int \<Rightarrow> int \<Rightarrow> int \<Rightarrow> mem" where
  "GDALCopyWordsT_UInt16_float E src pSrcData nSrcPixelStride dst pDstData nDstPixelStride nWordCount =
     (if nSrcPixelStride = 2 \<and> nDstPixelStride = 4 then
        (let xmm_zero = mm_setzero_si128;
             (n, dst) = for_by8 0 (nWordCount - 7)
               (\<lambda>n dst.
                  let xmm = mm_loadu_si128 src (pSrcData + n * 2);
                      xmm0 = mm_unpacklo_epi16 xmm xmm_zero;
                      xmm1 = mm_unpackhi_epi16 xmm xmm_zero;
                      xmm0_f = mm_cvtepi32_ps E xmm0;
                      xmm1_f = mm_cvtepi32_ps E xmm1;
                      dst = mm_storeu_si128 dst (pDstData + n * 4) xmm0_f
                  in mm_storeu_si128 dst (pDstData + n * 4 + 16) xmm1_f)
               dst
         in for_loop n nWordCount
              (\<lambda>n dst. store dst (pDstData + n * 4)
                 (c_int_to_float E (uint (le_word (load src (pSrcData + n * 2) 2) :: 16 word))))
              dst)
      else GDALCopyWordsGenericT E C_ushort C_float src pSrcData nSrcPixelStride
             dst pDstData nDstPixelStride nWordCount)"

definition GDALCopyWordsT_UInt16_double ::
  "conv_env \<Rightarrow> mem \<Rightarrow> int \<Rightarrow> int \<Rightarrow> mem \<Rightarrow> int \<Rightarrow> int \<Rightarrow> int \<Rightarrow> mem" where
  "GDALCopyWordsT_UInt16_double E src pSrcData nSrcPixelStride dst pDstData nDstPixelStride nWordCount =
     (if nSrcPixelStride = 2 \<and> nDstPixelStride = 8 then
        (let xmm_zero = mm_setzero_si128;
             (n, dst) = for_by8 0 (nWordCount - 7)
               (\<lambda>n dst.
                  let xmm = mm_loadu_si128 src (pSrcData + n * 2);
                      xmm0 = mm_unpacklo_epi16 xmm xmm_zero;
                      xmm1 = mm_unpackhi_epi16 xmm xmm_zero;
                      xmm0_low_d = mm_cvtepi32_pd E xmm0;
                      xmm1_low_d = mm_cvtepi32_pd E xmm1;
                      xmm0 = mm_srli_si128 xmm0 8;
                      xmm1 = mm_srli_si128 xmm1 8;
                      xmm0_high_d = mm_cvtepi32_pd E xmm0;
                      xmm1_high_d = mm_cvtepi32_pd E xmm1;
                      dst = mm_storeu_si128 dst (pDstData + n * 8) xmm0_low_d;
                      dst = mm_storeu_si128 dst (pDstData + n * 8 + 16) xmm0_high_d;
                      dst = mm_storeu_si128 dst (pDstData + n * 8 + 32) xmm1_low_d
                  in mm_storeu_si128 dst (pDstData + n * 8 + 48) xmm1_high_d)
               dst
         in for_loop n nWordCount
              (\<lambda>n dst. store dst (pDstData + n * 8)
                 (c_int_to_double E (uint (le_word (load src (pSrcData + n * 2) 2) :: 16 word))))
              dst)
      else GDALCopyWordsGenericT E C_ushort C_double src pSrcData nSrcPixelStride
             dst pDstData nDstPixelStride nWordCount)"

text \<open>
  The template \<open>GDALCopyWordsT<Tin, Tout>\<close> with its explicit specialisations, in the
  order of the file; every other pair of types is the generic loop.
\<close>

definition GDALCopyWordsT ::
  "conv_env \<Rightarrow> ctype \<Rightarrow> ctype \<Rightarrow> mem \<Rightarrow> int \<Rightarrow> int \<Rightarrow> mem \<Rightarrow> int \<Rightarrow> int \<Rightarrow> int \<Rightarrow> mem" where
  "GDALCopyWordsT E Tin Tout src p ss dst q ds n =
     (case (Tin, Tout) of
        (C_uchar, C_ushort) \<Rightarrow> GDALCopyWordsByteTo16Bit E C_ushort src p ss dst q ds n
      | (C_uchar, C_short) \<Rightarrow> GDALCopyWordsByteTo16Bit E C_short src p ss dst q ds n
      | (C_uchar, C_uint) \<Rightarrow> GDALCopyWordsByteTo32Bit E C_uint src p ss dst q ds n
      | (C_uchar, C_int) \<Rightarrow> GDALCopyWordsByteTo32Bit E C_int src p ss dst q ds n
      | (C_uchar, C_float) \<Rightarrow> GDALCopyWordsT_Byte_float E src p ss dst q ds n
      | (C_uchar, C_double) \<Rightarrow> GDALCopyWordsT_Byte_double E src p ss dst q ds n
      | (C_ushort, C_uchar) \<Rightarrow> GDALCopyWordsT_UInt16_Byte E src p ss dst q ds n
      | (C_ushort, C_short) \<Rightarrow> GDALCopyWordsT_UInt16_Int16 E src p ss dst q ds n
      | (C_ushort, C_float) \<Rightarrow> GDALCopyWordsT_UInt16_float E src p ss dst q ds n
      | (C_ushort, C_double) \<Rightarrow> GDALCopyWordsT_UInt16_double E src p ss dst q ds n
      | (C_double, C_ushort) \<Rightarrow> GDALCopyWordsT_8atatime E C_double C_ushort src p ss dst q ds n
      | (C_float, C_uchar) \<Rightarrow> GDALCopyWordsT_8atatime E C_float C_uchar src p ss dst q ds n
      | (C_float, C_short) \<Rightarrow> GDALCopyWordsT_8atatime E C_float C_short src p ss dst q ds n
      | (C_float, C_ushort) \<Rightarrow> GDALCopyWordsT_8atatime E C_float C_ushort src p ss dst q ds n
      | _ \<Rightarrow> GDALCopyWordsGenericT E Tin Tout src p ss dst q ds n)"

text \<open>
  \<open>GDALCopyWordsFromT<T>\<close>: the switch on the destination type.  The default
  branch is \<open>CPLAssert(false)\<close>, which does nothing in a release build.
\<close>

fun GDALCopyWordsFromT ::
  "conv_env \<Rightarrow> ctype \<Rightarrow> mem \<Rightarrow> int \<Rightarrow> int \<Rightarrow> bool \<Rightarrow> mem \<Rightarrow> int \<Rightarrow> GDALDataType \<Rightarrow> int \<Rightarrow> int \<Rightarrow> mem" where
  "GDALCopyWordsFromT E T src p ss bInComplex dst q GDT_Byte ds n =
     GDALCopyWordsT E T C_uchar src p ss dst q ds n"
| "GDALCopyWordsFromT E T src p ss bInComplex dst q GDT_UInt16 ds n =
     GDALCopyWordsT E T C_ushort src p ss dst q ds n"
| "GDALCopyWordsFromT E T src p ss bInComplex dst q GDT_Int16 ds n =
     GDALCopyWordsT E T C_short src p ss dst q ds n"
| "GDALCopyWordsFromT E T src p ss bInComplex dst q GDT_UInt32 ds n =
     GDALCopyWordsT E T C_uint src p ss dst q ds n"
| "GDALCopyWordsFromT E T src p ss bInComplex dst q GDT_Int32 ds n =
     GDALCopyWordsT E T C_int src p ss dst q ds n"
| "GDALCopyWordsFromT E T src p ss bInComplex dst q GDT_Float32 ds n =
     GDALCopyWordsT E T C_float src p ss dst q ds n"
| "GDALCopyWordsFromT E T src p ss bInComplex dst q GDT_Float64 ds n =
     GDALCopyWordsT E T C_double src p ss dst q ds n"
| "GDALCopyWordsFromT E T src p ss bInComplex dst q GDT_CInt16 ds n =
     (if bInComplex then GDALCopyWordsComplexT E T C_short src p ss dst q ds n
      else GDALCopyWordsComplexOutT E T C_short src p ss dst q ds n)"
| "GDALCopyWordsFromT E T src p ss bInComplex dst q GDT_CInt32 ds n =
     (if bInComplex then GDALCopyWordsComplexT E T C_int src p ss dst q ds n
      else GDALCopyWordsComplexOutT E T C_int src p ss dst q ds n)"
| "GDALCopyWordsFromT E T src p ss bInComplex dst q GDT_CFloat32 ds n =
     (if bInComplex then GDALCopyWordsComplexT E T C_float src p ss dst q ds n
      else GDALCopyWordsComplexOutT E T C_float src p ss dst q ds n)"
| "GDALCopyWordsFromT E T src p ss bInComplex dst q GDT_CFloat64 ds n =
     (if bInComplex then GDALCopyWordsComplexT E T C_double src p ss dst q ds n
      else GDALCopyWordsComplexOutT E T C_double src p ss dst q ds n)"
| "GDALCopyWordsFromT E T src p ss bInComplex dst q GDT_Unknown ds n = dst"

section \<open>Replication, unrolled copies and GDALFastCopy\<close>

text \<open>
  \<open>GDALReplicateWordT<T>\<close>.  The destination pointer walks in bytes; the counter is
  unsigned.  The state of each loop is the counter, the pointer and the buffer.
\<close>

function replicate_by4 :: "byte list \<Rightarrow> int \<Rightarrow> nat \<times> int \<times> mem \<Rightarrow> nat \<times> int \<times> mem" where
  "replicate_by4 valSet sz (nWordCount, pDstPtr, dst) =
     (if 4 \<le> nWordCount then
        (let dst = store dst pDstPtr valSet;
             dst = store dst (pDstPtr + sz) valSet;
             dst = store dst (pDstPtr + 2 * sz) valSet;
             dst = store dst (pDstPtr + 3 * sz) valSet
         in replicate_by4 valSet sz (nWordCount - 4, pDstPtr + 4 * sz, dst))
      else (nWordCount, pDstPtr, dst))"
  by pat_completeness auto
termination
  by (relation "measure (\<lambda>(valSet, sz, n, p, dst). n)") auto

declare replicate_by4.simps [simp del]

definition GDALReplicateWordT :: "ctype \<Rightarrow> mem \<Rightarrow> int \<Rightarrow> int \<Rightarrow> nat \<Rightarrow> mem" where
  "GDALReplicateWordT T dst pDstData nDstPixelStride nWordCount =
     (let valSet = load dst pDstData (sizeof T) in
      if nDstPixelStride = int (sizeof T) then
        (let pDstPtr = pDstData + int (sizeof T);
             (nWordCount, pDstPtr, dst) =
                replicate_by4 valSet (int (sizeof T)) (nWordCount, pDstPtr, dst)
         in snd (repeat nWordCount
                   (\<lambda>(pDstPtr, dst). (pDstPtr + int (sizeof T), store dst pDstPtr valSet))
                   (pDstPtr, dst)))
      else
        (let pabyDstPtr = pDstData + nDstPixelStride
         in snd (repeat nWordCount
                   (\<lambda>(pabyDstPtr, dst).
                      (pabyDstPtr + nDstPixelStride, store dst pabyDstPtr valSet))
                   (pabyDstPtr, dst))))"

text \<open>The macro \<open>CASE_DUPLICATE_COMPLEX\<close> of \<open>GDALReplicateWord\<close>.\<close>

definition CASE_DUPLICATE_COMPLEX :: "ctype \<Rightarrow> mem \<Rightarrow> int \<Rightarrow> int \<Rightarrow> nat \<Rightarrow> mem" where
  "CASE_DUPLICATE_COMPLEX T dst pDstData nDstPixelStride nWordCount =
     (let valSet1 = load dst pDstData (sizeof T);
          valSet2 = load dst (pDstData + int (sizeof T)) (sizeof T);
          pabyDstWord = pDstData + nDstPixelStride
      in snd (repeat nWordCount
                (\<lambda>(pabyDstWord, dst).
                   let dst = store dst pabyDstWord valSet1;
                       dst = store dst (pabyDstWord + int (sizeof T)) valSet2
                   in (pabyDstWord + nDstPixelStride, dst))
                (pabyDstWord, dst)))"

text \<open>
  \<open>GDALUnrolledCopyGeneric<T, srcStride, dstStride>\<close>, strides counted in elements
  of \<open>T\<close>.  The sixteen assignments of the unrolled body are the sixteen rounds
  of the inner \<open>for_loop\<close>.
\<close>

definition GDALUnrolledCopyGeneric ::
  "ctype \<Rightarrow> int \<Rightarrow> int \<Rightarrow> mem \<Rightarrow> int \<Rightarrow> mem \<Rightarrow> int \<Rightarrow> int \<Rightarrow> mem" where
  "GDALUnrolledCopyGeneric T srcStride dstStride dst pDest src pSrc nIters =
     (let sz = int (sizeof T);
          (nIters, pDest, pSrc, dst) =
            (if 16 \<le> nIters then
               (let (pDest, pSrc, dst) =
                      repeat (nat (nIters sdiv 16))
                        (\<lambda>(pDest, pSrc, dst).
                           (pDest + 16 * dstStride * sz, pSrc + 16 * srcStride * sz,
                            for_loop 0 16
                              (\<lambda>k dst. store dst (pDest + k * dstStride * sz)
                                          (load src (pSrc + k * srcStride * sz) (sizeof T)))
                              dst))
                        (pDest, pSrc, dst)
                in (nIters smod 16, pDest, pSrc, dst))
             else (nIters, pDest, pSrc, dst))
      in snd (for_loop 0 nIters
                (\<lambda>i (pSrc, dst).
                   (pSrc + srcStride * sz,
                    store dst (pDest + i * dstStride * sz) (load src pSrc (sizeof T))))
                (pSrc, dst)))"

text \<open>
  The SSE2 specialisations \<open>GDALUnrolledCopy<GByte,2,1>\<close> and
  \<open>GDALUnrolledCopy<GByte,4,1>\<close>.  The SSSE3 routines are only declared in this file
  (\<open>HAVE_SSSE3_AT_COMPILE_TIME\<close>); the model is the build without them, in which
  \<open>GDALUnrolledCopy<GByte,3,1>\<close> is the generic template.
\<close>

definition GDALUnrolledCopy_GByte_2_1 :: "mem \<Rightarrow> int \<Rightarrow> mem \<Rightarrow> int \<Rightarrow> int \<Rightarrow> mem" where
  "GDALUnrolledCopy_GByte_2_1 dst pDest src pSrc nIters =
     (let (i, pSrc, dst) =
        (if 16 < nIters then
           (let xmm_zero = mm_setzero_si128;
                xmm_mask = mm_set1_epi16 255;
                (i, pSrc, dst) = for_by16 0 (nIters - 16)
                  (\<lambda>i (pSrc, dst).
                     let xmm0 = mm_loadu_si128 src (pSrc + 0);
                         xmm1 = mm_loadu_si128 src (pSrc + 16);
                         xmm0 = mm_and_si128 xmm0 xmm_mask;
                         xmm1 = mm_and_si128 xmm1 xmm_mask;
                         xmm0 = mm_packus_epi16 xmm0 xmm_zero;
                         xmm1 = mm_packus_epi16 xmm1 xmm_zero;
                         xmm1 = mm_slli_si128 xmm1 8;
                         xmm0 = mm_or_si128 xmm0 xmm1
                     in (pSrc + 2 * 16, mm_storeu_si128 dst (pDest + i) xmm0))
                  (pSrc, dst)
            in (i, pSrc, dst))
         else (0, pSrc, dst))
      in snd (for_loop i nIters
                (\<lambda>i (pSrc, dst). (pSrc + 2, store dst (pDest + i) (load src pSrc 1)))
                (pSrc, dst)))"

definition GDALUnrolledCopy_GByte_4_1 :: "mem \<Rightarrow> int \<Rightarrow> mem \<Rightarrow> int \<Rightarrow> int \<Rightarrow> mem" where
  "GDALUnrolledCopy_GByte_4_1 dst pDest src pSrc nIters =
     (let (i, pSrc, dst) =
        (if 16 < nIters then
           (let xmm_mask = mm_set1_epi32 255;
                (i, pSrc, dst) = for_by16 0 (nIters - 16)
                  (\<lambda>i (pSrc, dst).
                     let xmm0 = mm_loadu_si128 src (pSrc + 0);
                         xmm1 = mm_loadu_si128 src (pSrc + 16);
                         xmm2 = mm_loadu_si128 src (pSrc + 32);
                         xmm3 = mm_loadu_si128 src (pSrc + 48);
                         xmm0 = mm_and_si128 xmm0 xmm_mask;
                         xmm1 = mm_and_si128 xmm1 xmm_mask;
                         xmm2 = mm_and_si128 xmm2 xmm_mask;
                         xmm3 = mm_and_si128 xmm3 xmm_mask;
                         xmm0 = mm_packs_epi32 xmm0 xmm0;
                         xmm1 = mm_packs_epi32 xmm1 xmm1;
                         xmm2 = mm_packs_epi32 xmm2 xmm2;
                         xmm3 = mm_packs_epi32 xmm3 xmm3;
                         xmm0 = mm_packus_epi16 xmm0 xmm0;
                         xmm1 = mm_packus_epi16 xmm1 xmm1;
                         xmm2 = mm_packus_epi16 xmm2 xmm2;
                         xmm3 = mm_packus_epi16 xmm3 xmm3;
                         dst = GDALCopyXMMToInt32 xmm0 dst (pDest + i + 0);
                         dst = GDALCopyXMMToInt32 xmm1 dst (pDest + i + 4);
                         dst = GDALCopyXMMToInt32 xmm2 dst (pDest + i + 8);
                         dst = GDALCopyXMMToInt32 xmm3 dst (pDest + i + 12)
                     in (pSrc + 4 * 16, dst))
                  (pSrc, dst)
            in (i, pSrc, dst))
         else (0, pSrc, dst))
      in snd (for_loop i nIters
                (\<lambda>i (pSrc, dst). (pSrc + 4, store dst (pDest + i) (load src pSrc 1)))
                (pSrc, dst)))"

definition GDALUnrolledCopy ::
  "ctype \<Rightarrow> int \<Rightarrow> int \<Rightarrow> mem \<Rightarrow> int \<Rightarrow> mem \<Rightarrow> int \<Rightarrow> int \<Rightarrow> mem" where
  "GDALUnrolledCopy T srcStride dstStride dst pDest src pSrc nIters =
     (if T = C_uchar \<and> srcStride = 2 \<and> dstStride = 1 then
        GDALUnrolledCopy_GByte_2_1 dst pDest src pSrc nIters
      else if T = C_uchar \<and> srcStride = 4 \<and> dstStride = 1 then
        GDALUnrolledCopy_GByte_4_1 dst pDest src pSrc nIters
      else GDALUnrolledCopyGeneric T srcStride dstStride dst pDest src pSrc nIters)"

text \<open>
  \<open>GDALFastCopy<T>\<close>, strides in bytes.  \<open>while (nIters-- > 0)\<close> runs \<open>nIters\<close>
  times when \<open>nIters\<close> is positive and not at all otherwise; a pointer to \<open>T\<close>
  advances by \<open>nStride / sizeof(T)\<close> elements, the division truncating.
\<close>

definition GDALFastCopy ::
  "ctype \<Rightarrow> mem \<Rightarrow> int \<Rightarrow> int \<Rightarrow> mem \<Rightarrow> int \<Rightarrow> int \<Rightarrow> int \<Rightarrow> mem" where
  "GDALFastCopy T dst pDest nDestStride src pSrc nSrcStride nIters =
     (let sz = int (sizeof T);
          strided = (\<lambda>srcStep dstStep.
            snd (repeat (nat nIters)
                   (\<lambda>(pDest, pSrc, dst).
                      (pDest + dstStep * sz, pSrc + srcStep * sz,
                       store dst pDest (load src pSrc (sizeof T))))
                   (pDest, pSrc, dst)))
      in
      if nIters = 1 then store dst pDest (load src pSrc (sizeof T))
      else if nDestStride = sz then
        (if nSrcStride = sz then memcpy dst pDest src pSrc (nat (nIters * sz))
         else if nSrcStride = 2 * sz then GDALUnrolledCopy T 2 1 dst pDest src pSrc nIters
         else if nSrcStride = 3 * sz then GDALUnrolledCopy T 3 1 dst pDest src pSrc nIters
         else if nSrcStride = 4 * sz then GDALUnrolledCopy T 4 1 dst pDest src pSrc nIters
         else snd (strided (nSrcStride sdiv sz) 1))
      else if nSrcStride = sz then
        (if nDestStride = 2 * sz then GDALUnrolledCopy T 1 2 dst pDest src pSrc nIters
         else if nDestStride = 3 * sz then GDALUnrolledCopy T 1 3 dst pDest src pSrc nIters
         else if nDestStride = 4 * sz then GDALUnrolledCopy T 1 4 dst pDest src pSrc nIters
         else snd (strided 1 (nDestStride sdiv sz)))
      else snd (strided (nSrcStride sdiv sz) (nDestStride sdiv sz)))"

section \<open>GDALCopyWords and GDALReplicateWord\<close>

text \<open>
  The model is the x86-64 build, where \<open>CPL_CPU_REQUIRES_ALIGNED_ACCESS\<close> is not
  defined.  \<open>GDALReplicateWord\<close> converts the first word by calling \<open>GDALCopyWords\<close>
  with both strides 0 and one word; \<open>GDALCopyWords\<close> calls \<open>GDALReplicateWord\<close> when
  the source stride is 0 and more than one word is asked for.  The counter of
  \<open>GDALReplicateWord\<close> is unsigned and at least 2 at its only call.
\<close>

function GDALCopyWords ::
    "conv_env \<Rightarrow> mem \<Rightarrow> int \<Rightarrow> GDALDataType \<Rightarrow> int \<Rightarrow> mem \<Rightarrow> int \<Rightarrow> GDALDataType \<Rightarrow> int \<Rightarrow> int \<Rightarrow> mem"
  and GDALReplicateWord ::
    "conv_env \<Rightarrow> mem \<Rightarrow> int \<Rightarrow> GDALDataType \<Rightarrow> mem \<Rightarrow> int \<Rightarrow> GDALDataType \<Rightarrow> int \<Rightarrow> nat \<Rightarrow> mem"
where
  "GDALCopyWords E src pSrcData eSrcType nSrcPixelStride dst pDstData eDstType nDstPixelStride nWordCount =
     (let nSrcDataTypeSize = GDALGetDataTypeSizeBytes eSrcType in
      if nSrcPixelStride = 0 \<and> 1 < nWordCount then
        GDALReplicateWord E src pSrcData eSrcType dst pDstData eDstType nDstPixelStride
          (nat nWordCount)
      else if eSrcType = eDstType \<and> eSrcType = GDT_Byte then
        GDALFastCopy C_uchar dst pDstData nDstPixelStride src pSrcData nSrcPixelStride nWordCount
      else if eSrcType = eDstType \<and> nSrcDataTypeSize = 2 \<and> nSrcPixelStride smod 2 = 0
              \<and> nDstPixelStride smod 2 = 0 then
        GDALFastCopy C_short dst pDstData nDstPixelStride src pSrcData nSrcPixelStride nWordCount
      else if eSrcType = eDstType \<and> nWordCount = 1 then
        (if nSrcDataTypeSize = 2 then memcpy dst pDstData src pSrcData 2
         else if nSrcDataTypeSize = 4 then memcpy dst pDstData src pSrcData 4
         else if nSrcDataTypeSize = 8 then memcpy dst pDstData src pSrcData 8
         else memcpy dst pDstData src pSrcData 16)
      else if eSrcType = eDstType \<and> nSrcPixelStride = nDstPixelStride
              \<and> nSrcPixelStride = nSrcDataTypeSize then
        memcpy dst pDstData src pSrcData (nat (nWordCount * nSrcDataTypeSize))
      else
        (case eSrcType of
           GDT_Byte \<Rightarrow> GDALCopyWordsFromT E C_uchar src pSrcData nSrcPixelStride False
                         dst pDstData eDstType nDstPixelStride nWordCount
         | GDT_UInt16 \<Rightarrow> GDALCopyWordsFromT E C_ushort src pSrcData nSrcPixelStride False
                         dst pDstData eDstType nDstPixelStride nWordCount
         | GDT_Int16 \<Rightarrow> GDALCopyWordsFromT E C_short src pSrcData nSrcPixelStride False
                         dst pDstData eDstType nDstPixelStride nWordCount
         | GDT_UInt32 \<Rightarrow> GDALCopyWordsFromT E C_uint src pSrcData nSrcPixelStride False
                         dst pDstData eDstType nDstPixelStride nWordCount
         | GDT_Int32 \<Rightarrow> GDALCopyWordsFromT E C_int src pSrcData nSrcPixelStride False
                         dst pDstData eDstType nDstPixelStride nWordCount
         | GDT_Float32 \<Rightarrow> GDALCopyWordsFromT E C_float src pSrcData nSrcPixelStride False
                         dst pDstData eDstType nDstPixelStride nWordCount
         | GDT_Float64 \<Rightarrow> GDALCopyWordsFromT E C_double src pSrcData nSrcPixelStride False
                         dst pDstData eDstType nDstPixelStride nWordCount
         | GDT_CInt16 \<Rightarrow> GDALCopyWordsFromT E C_short src pSrcData nSrcPixelStride True
                         dst pDstData eDstType nDstPixelStride nWordCount
         | GDT_CInt32 \<Rightarrow> GDALCopyWordsFromT E C_int src pSrcData nSrcPixelStride True
                         dst pDstData eDstType nDstPixelStride nWordCount
         | GDT_CFloat32 \<Rightarrow> GDALCopyWordsFromT E C_float src pSrcData nSrcPixelStride True
                         dst pDstData eDstType nDstPixelStride nWordCount
         | GDT_CFloat64 \<Rightarrow> GDALCopyWordsFromT E C_double src pSrcData nSrcPixelStride True
                         dst pDstData eDstType nDstPixelStride nWordCount
         | GDT_Unknown \<Rightarrow> dst))"
| "GDALReplicateWord E src pSrcData eSrcType dst pDstData eDstType nDstPixelStride nWordCount =
     (let dst = GDALCopyWords E src pSrcData eSrcType 0 dst pDstData eDstType 0 1;
          nWordCount = nWordCount - 1;
          pabyDstWord = pDstData + nDstPixelStride
      in case eDstType of
           GDT_Byte \<Rightarrow>
             (if nDstPixelStride = 1 then
                (if 0 < nWordCount then memset dst pabyDstWord (dst pDstData) nWordCount
                 else dst)
              else
                (let valSet = dst pDstData
                 in snd (repeat nWordCount
                           (\<lambda>(pabyDstWord, dst).
                              (pabyDstWord + nDstPixelStride, dst(pabyDstWord := valSet)))
                           (pabyDstWord, dst))))
         | GDT_UInt16 \<Rightarrow> GDALReplicateWordT C_ushort dst pDstData nDstPixelStride nWordCount
         | GDT_Int16 \<Rightarrow> GDALReplicateWordT C_short dst pDstData nDstPixelStride nWordCount
         | GDT_UInt32 \<Rightarrow> GDALReplicateWordT C_uint dst pDstData nDstPixelStride nWordCount
         | GDT_Int32 \<Rightarrow> GDALReplicateWordT C_int dst pDstData nDstPixelStride nWordCount
         | GDT_Float32 \<Rightarrow> GDALReplicateWordT C_float dst pDstData nDstPixelStride nWordCount
         | GDT_Float64 \<Rightarrow> GDALReplicateWordT C_double dst pDstData nDstPixelStride nWordCount
         | GDT_CInt16 \<Rightarrow> CASE_DUPLICATE_COMPLEX C_short dst pDstData nDstPixelStride nWordCount
         | GDT_CInt32 \<Rightarrow> CASE_DUPLICATE_COMPLEX C_int dst pDstData nDstPixelStride nWordCount
         | GDT_CFloat32 \<Rightarrow> CASE_DUPLICATE_COMPLEX C_float dst pDstData nDstPixelStride nWordCount
         | GDT_CFloat64 \<Rightarrow> CASE_DUPLICATE_COMPLEX C_double dst pDstData nDstPixelStride nWordCount
         | GDT_Unknown \<Rightarrow> dst)"
  by pat_completeness auto
termination
  by (relation "measure (\<lambda>x. case x of
        Inl (E, src, pSrcData, eSrcType, nSrcPixelStride, dst, pDstData, eDstType, nDstPixelStride, nWordCount) \<Rightarrow>
          (if nSrcPixelStride = 0 \<and> 1 < nWordCount then 2 else 0)
      | Inr _ \<Rightarrow> 1)") auto

declare GDALCopyWords.simps [simp del] GDALReplicateWord.simps [simp del]

section \<open>Components of the pixel types\<close>

text \<open>
  The C type of the components of a pixel type and whether the type is complex, as the
  two switches of \<open>GDALCopyWords\<close> and \<open>GDALCopyWordsFromT\<close> have them.
\<close>

fun component_type :: "GDALDataType \<Rightarrow> ctype option" where
  "component_type GDT_Unknown = None"
| "component_type GDT_Byte = Some C_uchar"
| "component_type GDT_UInt16 = Some C_ushort"
| "component_type GDT_Int16 = Some C_short"
| "component_type GDT_UInt32 = Some C_uint"
| "component_type GDT_Int32 = Some C_int"
| "component_type GDT_Float32 = Some C_float"
| "component_type GDT_Float64 = Some C_double"
| "component_type GDT_CInt16 = Some C_short"
| "component_type GDT_CInt32 = Some C_int"
| "component_type GDT_CFloat32 = Some C_float"
| "component_type GDT_CFloat64 = Some C_double"

fun is_complex :: "GDALDataType \<Rightarrow> bool" where
  "is_complex GDT_CInt16 = True"
| "is_complex GDT_CInt32 = True"
| "is_complex GDT_CFloat32 = True"
| "is_complex GDT_CFloat64 = True"
| "is_complex _ = False"


section \<open>C doubles\<close>

text \<open>
  A finite C \<open>double\<close> is modelled by the rational number it stands for, and an
  arithmetic operation by its exact result rounded to the nearest \<open>double\<close>
  (binary64: 53 significant bits, ties to the even significand), which is what the
  SSE2 instructions of the x86-64 build compute.  \<open>to_double\<close> is that rounding.
  The values formed in this file are quotients, products and sums of 32-bit integers
  and of the constants 1.2, 0.5 and 1e-10, far from the overflow and underflow
  thresholds, so the exponent range is not limited here.  The sign of zero,
  infinities and NaN are not modelled: a division by zero, which yields an infinity
  or a NaN in C, has no counterpart (its value here is 0).
\<close>

text \<open>The number of binary digits of a positive integer.\<close>

function bitlen :: "int \<Rightarrow> int" where
  "bitlen n = (if n \<le> 0 then 0 else 1 + bitlen (n div 2))"
  by pat_completeness auto
termination
  by (relation "measure nat") auto

declare bitlen.simps [simp del]

definition pow2 :: "int \<Rightarrow> rat" where
  "pow2 e = 2 powi e"

text \<open>\<open>\<lfloor>log\<^sub>2 x\<rfloor>\<close> for a positive \<open>x\<close>, from the lengths of numerator and denominator.\<close>

definition ilog2 :: "rat \<Rightarrow> int" where
  "ilog2 x =
     (case quotient_of x of (p, q) \<Rightarrow>
        let e = bitlen p - bitlen q
        in if pow2 e \<le> x then e else e - 1)"

definition round_half_even :: "rat \<Rightarrow> int" where
  "round_half_even x =
     (let f = \<lfloor>x\<rfloor>; d = x - of_int f
      in if d < 1 / 2 then f else if 1 / 2 < d then f + 1 else if even f then f else f + 1)"

definition to_double :: "rat \<Rightarrow> rat" where
  "to_double x =
     (if x = 0 then 0
      else let e = ilog2 \<bar>x\<bar> - 52
           in sgn x * of_int (round_half_even (\<bar>x\<bar> / pow2 e)) * pow2 e)"

text \<open>The literal \<open>1.2\<close> and the quotient of two integers converted to \<open>double\<close>.\<close>

definition double_1_2 :: rat where
  "double_1_2 = to_double (6 / 5)"

definition int_div_double :: "int \<Rightarrow> int \<Rightarrow> rat" where
  "int_div_double a b = to_double (of_int a / of_int b)"

section \<open>Best-overview selection\<close>

text \<open>
  The quotients, the product with 1.2 and the sums of \<open>GDALBandGetBestOverviewLevel2\<close>
  are \<open>double\<close> operations and are rounded.  A conversion \<open>static_cast<int>(d)\<close>
  truncates towards zero.
\<close>

definition double_to_int :: "rat \<Rightarrow> int" where
  "double_to_int d = (if 0 \<le> d then \<lfloor>d\<rfloor> else \<lceil>d\<rceil>)"

datatype GDALRIOResampleAlg =
    GRIORA_NearestNeighbour | GRIORA_Bilinear | GRIORA_Cubic | GRIORA_CubicSpline
  | GRIORA_Lanczos | GRIORA_Average | GRIORA_Mode | GRIORA_Gauss

text \<open>
  \<open>GDALRasterIOExtraArg\<close>.  The progress callback, with its user data, is a function
  from the fraction done to the answer ``continue''; \<open>None\<close> is the null pointer.
\<close>

record GDALRasterIOExtraArg =
  eResampleAlg :: GDALRIOResampleAlg
  pfnProgress :: "(rat \<Rightarrow> bool) option"
  bFloatingPointWindowValidity :: bool
  dfXOff :: rat
  dfYOff :: rat
  dfXSize :: rat
  dfYSize :: rat

text \<open>
  What the selection reads of a band and of its overviews: the raster size, and for
  an overview the metadata item \<open>RESAMPLING\<close> (\<open>None\<close> when it is not set).
  \<open>GetOverview\<close> may return a null pointer, the \<open>None\<close> entries of the list.
\<close>

record overview_band =
  ovXSize :: int
  ovYSize :: int
  ovResampling :: "string option"

text \<open>
  Modelled from the spec: \<open>STARTS_WITH_CI\<close> is a macro of \<open>cpl_port.h\<close>, a
  comparison of the prefix that ignores the case of ASCII letters.
\<close>

definition toupper :: "char \<Rightarrow> char" where
  "toupper c = (let n = (of_char c :: nat) in if 97 \<le> n \<and> n \<le> 122 then char_of (n - 32) else c)"

definition STARTS_WITH_CI :: "string \<Rightarrow> string \<Rightarrow> bool" where
  "STARTS_WITH_CI a b = (map toupper (take (length b) a) = map toupper b)"

text \<open>The resolution of an overview: the smaller of the two ratios of raster sizes.\<close>

definition overview_resolution :: "int \<Rightarrow> int \<Rightarrow> overview_band \<Rightarrow> rat" where
  "overview_resolution nRasterXSize nRasterYSize poOverview =
     (if int_div_double nRasterXSize (ovXSize poOverview)
           < int_div_double nRasterYSize (ovYSize poOverview)
      then int_div_double nRasterXSize (ovXSize poOverview)
      else int_div_double nRasterYSize (ovYSize poOverview))"

definition desired_resolution :: "int \<Rightarrow> int \<Rightarrow> int \<Rightarrow> int \<Rightarrow> rat" where
  "desired_resolution nXSize nYSize nBufXSize nBufYSize =
     (if int_div_double nXSize nBufXSize < int_div_double nYSize nBufYSize
         \<or> nBufYSize = 1
      then int_div_double nXSize nBufXSize
      else int_div_double nYSize nBufYSize)"

text \<open>
  The loop over the overviews.  The state is the best overview found so far, its
  level and its resolution; the list is the remaining overviews, \<open>iOverview\<close> the
  index of its head.
\<close>

fun scan_overviews ::
  "int \<Rightarrow> int \<Rightarrow> rat \<Rightarrow> overview_band option list \<Rightarrow> int \<Rightarrow>
   overview_band option \<times> int \<times> rat \<Rightarrow> overview_band option \<times> int \<times> rat" where
  "scan_overviews nRasterXSize nRasterYSize dfDesiredResolution [] iOverview st = st"
| "scan_overviews nRasterXSize nRasterYSize dfDesiredResolution (ov # ovs) iOverview
       (poBestOverview, nBestOverviewLevel, dfBestResolution) =
     (case ov of
        None \<Rightarrow>
          scan_overviews nRasterXSize nRasterYSize dfDesiredResolution ovs (iOverview + 1)
            (poBestOverview, nBestOverviewLevel, dfBestResolution)
      | Some poOverview \<Rightarrow>
          (let dfResolution = overview_resolution nRasterXSize nRasterYSize poOverview in
           if dfResolution \<ge> to_double (dfDesiredResolution * double_1_2)
              \<or> dfResolution \<le> dfBestResolution then
             scan_overviews nRasterXSize nRasterYSize dfDesiredResolution ovs (iOverview + 1)
               (poBestOverview, nBestOverviewLevel, dfBestResolution)
           else if (case ovResampling poOverview of
                      None \<Rightarrow> False
                    | Some pszResampling \<Rightarrow> STARTS_WITH_CI pszResampling ''AVERAGE_BIT2'') then
             scan_overviews nRasterXSize nRasterYSize dfDesiredResolution ovs (iOverview + 1)
               (poBestOverview, nBestOverviewLevel, dfBestResolution)
           else
             scan_overviews nRasterXSize nRasterYSize dfDesiredResolution ovs (iOverview + 1)
               (Some poOverview, iOverview, dfResolution)))"

text \<open>
  \<open>GDALBandGetBestOverviewLevel2\<close>: the level (or -1), the window, rewritten in the
  coordinates of the selected overview, and the extra arguments.  The best overview
  is set whenever the best level is, so the branch for a null best overview with a
  level of 0 or more is never taken.
\<close>

definition GDALBandGetBestOverviewLevel2 ::
  "int \<Rightarrow> int \<Rightarrow> overview_band option list \<Rightarrow> int \<times> int \<times> int \<times> int \<Rightarrow> int \<Rightarrow> int \<Rightarrow>
   GDALRasterIOExtraArg option \<Rightarrow> int \<times> (int \<times> int \<times> int \<times> int) \<times> GDALRasterIOExtraArg option" where
  "GDALBandGetBestOverviewLevel2 nRasterXSize nRasterYSize overviews window nBufXSize nBufYSize psExtraArg =
     (case window of (nXOff, nYOff, nXSize, nYSize) \<Rightarrow>
      let dfDesiredResolution = desired_resolution nXSize nYSize nBufXSize nBufYSize;
          (poBestOverview, nBestOverviewLevel, dfBestResolution) =
             scan_overviews nRasterXSize nRasterYSize dfDesiredResolution overviews 0 (None, - 1, 0)
      in
      if nBestOverviewLevel < 0 then (- 1, window, psExtraArg)
      else
        (case poBestOverview of
           None \<Rightarrow> (- 1, window, psExtraArg)
         | Some poBestOverview \<Rightarrow>
            (let dfXRes = int_div_double nRasterXSize (ovXSize poBestOverview);
                 dfYRes = int_div_double nRasterYSize (ovYSize poBestOverview);
                 nOXOff = min (ovXSize poBestOverview - 1)
                              (double_to_int (to_double (to_double (of_int nXOff / dfXRes) + 1 / 2)));
                 nOYOff = min (ovYSize poBestOverview - 1)
                              (double_to_int (to_double (to_double (of_int nYOff / dfYRes) + 1 / 2)));
                 nOXSize = max 1 (double_to_int (to_double (to_double (of_int nXSize / dfXRes) + 1 / 2)));
                 nOYSize = max 1 (double_to_int (to_double (to_double (of_int nYSize / dfYRes) + 1 / 2)));
                 nOXSize = (if nOXOff + nOXSize > ovXSize poBestOverview
                            then ovXSize poBestOverview - nOXOff else nOXSize);
                 nOYSize = (if nOYOff + nOYSize > ovYSize poBestOverview
                            then ovYSize poBestOverview - nOYOff else nOYSize);
                 psExtraArg =
                   (case psExtraArg of
                      None \<Rightarrow> None
                    | Some a \<Rightarrow>
                        if bFloatingPointWindowValidity a then
                          Some (a\<lparr> dfXOff := to_double (dfXOff a / dfXRes),
                                   dfXSize := to_double (dfXSize a / dfXRes),
                                   dfYOff := to_double (dfYOff a / dfYRes),
                                   dfYSize := to_double (dfYSize a / dfYRes) \<rparr>)
                        else Some a)
             in (nBestOverviewLevel, (nOXOff, nOYOff, nOXSize, nOYSize), psExtraArg))))"


section \<open>The band, its block cache and the collaborators of IRasterIO\<close>

datatype GDALRWFlag = GF_Read | GF_Write

text \<open>
  \<open>CPLErr\<close> (\<open>cpl_error.h\<close>), with the status \<open>CE_Interrupted\<close> that this
  repository's GDAL adds for an interrupted dataset.
\<close>

datatype CPLErr = CE_None | CE_Debug | CE_Warning | CE_Failure | CE_Fatal | CE_Interrupted

text \<open>The arguments of one call of \<open>IRasterIO\<close>, but for the buffer \<open>pData\<close>.\<close>

record rio_request =
  eRWFlag :: GDALRWFlag
  nXOff :: int
  nYOff :: int
  nXSize :: int
  nYSize :: int
  nBufXSize :: int
  nBufYSize :: int
  eBufType :: GDALDataType
  nPixelSpace :: int
  nLineSpace :: int
  psExtraArg :: GDALRasterIOExtraArg

text \<open>
  The members of \<open>GDALRasterBand\<close> that \<open>IRasterIO\<close> uses, and what its
  collaborators do, as far as the function can observe it:
  \<^item> \<open>poDS\<close>: the owning dataset (\<open>None\<close> is the null pointer), given by the answers
    of its successive \<open>Interrupted()\<close> polls; \<open>nPolls\<close> counts the polls made;
  \<^item> \<open>blocks\<close>: the data of the blocks that are in the block cache;
  \<open>storage\<close>: what \<open>IReadBlock\<close> delivers for a block (\<open>None\<close> when reading
    fails); \<open>fresh\<close>: the contents of the memory of a newly allocated block;
  \<^item> \<open>nLocks\<close>: the block locks the running call holds, \<open>nMaxLocks\<close> the most it
    held at once, \<open>readLog\<close> the blocks read from storage, \<open>dirty\<close> the blocks
    marked dirty;
  \<^item> \<open>ovrRasterIO\<close>: \<open>RasterIO\<close> on the overview of a level, as a function of the
    window, the extra arguments and the buffer; \<open>resampledIO\<close>: the function
    \<open>RasterIOResampled\<close> as a function of the request and the buffer (its
    convolutions are outside this model);
  \<^item> \<open>bNoCostlyOverview\<close>: the configuration option \<open>GDAL_NO_COSTLY_OVERVIEW\<close>.
\<close>

record GDALRasterBand =
  nBlockXSize :: int
  nBlockYSize :: int
  nRasterXSize :: int
  nRasterYSize :: int
  eDataType :: GDALDataType
  eFlushBlockErr :: CPLErr
  poDS :: "(nat \<Rightarrow> bool) option"
  nPolls :: nat
  overviews :: "overview_band option list"
  bHasColorTable :: bool
  blocks :: "int \<times> int \<Rightarrow> mem option"
  storage :: "int \<times> int \<Rightarrow> mem option"
  fresh :: "int \<times> int \<Rightarrow> mem"
  dirty :: "(int \<times> int) set"
  nLocks :: nat
  nMaxLocks :: nat
  readLog :: "(int \<times> int) list"
  bNoCostlyOverview :: bool
  ovrRasterIO ::
    "int \<Rightarrow> int \<times> int \<times> int \<times> int \<Rightarrow> GDALRasterIOExtraArg \<Rightarrow> mem \<Rightarrow> CPLErr \<times> mem"
  resampledIO :: "rio_request \<Rightarrow> mem \<Rightarrow> CPLErr \<times> mem"

definition INT_MAX :: int where
  "INT_MAX = 2147483647"

text \<open>\<open>poDS && poDS->Interrupted()\<close>.\<close>

definition Interrupted :: "GDALRasterBand \<Rightarrow> bool \<times> GDALRasterBand" where
  "Interrupted b =
     (case poDS b of
        None \<Rightarrow> (False, b)
      | Some answers \<Rightarrow> (answers (nPolls b), b\<lparr> nPolls := nPolls b + 1 \<rparr>))"

text \<open>
  Modelled from the spec: \<open>GetLockedBlockRef\<close>, \<open>DropLock\<close> and \<open>MarkDirty\<close> belong
  to the block cache, outside this file.  \<open>getLockedBlock(blockCol, blockRow,
  justInitialize)\<close> yields a locked block or fails; \<open>justInitialize\<close> means that the
  caller will overwrite the whole block, so its prior contents are not loaded.  A
  block already in the cache is returned as it is.  The result says whether a block
  was obtained; its data is \<open>block_data\<close>.
\<close>

definition lock_block :: "GDALRasterBand \<Rightarrow> GDALRasterBand" where
  "lock_block b = b\<lparr> nLocks := nLocks b + 1, nMaxLocks := max (nMaxLocks b) (nLocks b + 1) \<rparr>"

definition GetLockedBlockRef :: "GDALRasterBand \<Rightarrow> int \<Rightarrow> int \<Rightarrow> bool \<Rightarrow> bool \<times> GDALRasterBand" where
  "GetLockedBlockRef b nXBlockOff nYBlockOff bJustInitialize =
     (case blocks b (nXBlockOff, nYBlockOff) of
        Some d \<Rightarrow> (True, lock_block b)
      | None \<Rightarrow>
          if bJustInitialize then
            (True, lock_block (b\<lparr> blocks := (blocks b)((nXBlockOff, nYBlockOff) \<mapsto>
                                                      fresh b (nXBlockOff, nYBlockOff)) \<rparr>))
          else
            (case storage b (nXBlockOff, nYBlockOff) of
               None \<Rightarrow> (False, b\<lparr> readLog := readLog b @ [(nXBlockOff, nYBlockOff)] \<rparr>)
             | Some d \<Rightarrow>
                 (True, lock_block (b\<lparr> blocks := (blocks b)((nXBlockOff, nYBlockOff) \<mapsto> d),
                                       readLog := readLog b @ [(nXBlockOff, nYBlockOff)] \<rparr>))))"

definition DropLock :: "GDALRasterBand \<Rightarrow> GDALRasterBand" where
  "DropLock b = b\<lparr> nLocks := nLocks b - 1 \<rparr>"

definition MarkDirty :: "GDALRasterBand \<Rightarrow> int \<times> int \<Rightarrow> GDALRasterBand" where
  "MarkDirty b blk = b\<lparr> dirty := insert blk (dirty b) \<rparr>"

definition block_data :: "GDALRasterBand \<Rightarrow> int \<times> int \<Rightarrow> mem" where
  "block_data b blk = (case blocks b blk of Some d \<Rightarrow> d | None \<Rightarrow> (\<lambda>a. 0))"

definition set_block_data :: "GDALRasterBand \<Rightarrow> int \<times> int \<Rightarrow> mem \<Rightarrow> GDALRasterBand" where
  "set_block_data b blk d = b\<lparr> blocks := (blocks b)(blk \<mapsto> d) \<rparr>"

text \<open>\<open>if( poBlock ) poBlock->DropLock()\<close>, for a block pointer that may be null.\<close>

definition DropLock_if :: "(int \<times> int) option \<Rightarrow> GDALRasterBand \<Rightarrow> GDALRasterBand" where
  "DropLock_if poBlock b = (case poBlock of None \<Rightarrow> b | Some blk \<Rightarrow> DropLock b)"

text \<open>The progress callback: \<open>pfnProgress != nullptr && !pfnProgress(fraction, ...)\<close>.\<close>

definition progress_stops :: "rio_request \<Rightarrow> rat \<Rightarrow> bool" where
  "progress_stops r fraction =
     (case pfnProgress (psExtraArg r) of None \<Rightarrow> False | Some f \<Rightarrow> \<not> f fraction)"

text \<open>
  The transfer of one span of \<open>nWords\<close> pixels between a block and the buffer, as the
  two 1:1 paths do it: \<open>memcpy\<close> of \<open>nBytes\<close> bytes when \<open>plain\<close> holds, and
  \<open>GDALCopyWords\<close> otherwise, from the block when reading and into it when writing.
\<close>

definition transfer_span ::
  "conv_env \<Rightarrow> GDALRasterBand \<Rightarrow> rio_request \<Rightarrow> bool \<Rightarrow> int \<times> int \<Rightarrow> int \<Rightarrow> int \<Rightarrow> int \<Rightarrow> nat \<Rightarrow>
   mem \<Rightarrow> GDALRasterBand \<times> mem" where
  "transfer_span E b r plain blk nSrcByteOffset nBufByteOffset nWords nBytes pData =
     (let nBandDataSize = GDALGetDataTypeSizeBytes (eDataType b);
          pabySrcBlock = block_data b blk
      in
      if plain then
        (if eRWFlag r = GF_Read then
           (b, memcpy pData nBufByteOffset pabySrcBlock nSrcByteOffset nBytes)
         else
           (set_block_data b blk (memcpy pabySrcBlock nSrcByteOffset pData nBufByteOffset nBytes),
            pData))
      else
        (if eRWFlag r = GF_Read then
           (b, GDALCopyWords E pabySrcBlock nSrcByteOffset (eDataType b) nBandDataSize
                 pData nBufByteOffset (eBufType r) (nPixelSpace r) nWords)
         else
           (set_block_data b blk
              (GDALCopyWords E pData nBufByteOffset (eBufType r) (nPixelSpace r)
                 pabySrcBlock nSrcByteOffset (eDataType b) nBandDataSize nWords),
            pData)))"

section \<open>IRasterIO: the packed full-width case\<close>

text \<open>
  One round of the loop over the buffer lines has two parts.  \<open>packed_fetch\<close> makes
  sure the block of the line is loaded; it yields \<open>Inl\<close> with the status when the
  function returns or leaves the loop there (the lock of the previous block is
  dropped before, and no lock is held after a failed fetch), and \<open>Inr\<close> with the
  block row and the band otherwise.
\<close>

definition packed_fetch ::
  "rio_request \<Rightarrow> int \<Rightarrow> int \<Rightarrow> (int \<times> int) option \<Rightarrow> GDALRasterBand \<Rightarrow>
   (CPLErr \<times> GDALRasterBand) + (int \<times> (int \<times> int) option \<times> GDALRasterBand)" where
  "packed_fetch r iSrcY nLBlockY poBlock b =
     (if iSrcY < nLBlockY * nBlockYSize b \<or> iSrcY - nBlockYSize b \<ge> nLBlockY * nBlockYSize b then
        (let nLBlockY = iSrcY sdiv nBlockYSize b;
             bJustInitialize =
               (eRWFlag r = GF_Write
                \<and> nXOff r = 0 \<and> nXSize r = nBlockXSize b
                \<and> nYOff r \<le> nLBlockY * nBlockYSize b
                \<and> nYOff r + nYSize r - nBlockYSize b \<ge> nLBlockY * nBlockYSize b);
             bMemZeroBuffer =
               (eRWFlag r = GF_Write \<and> \<not> bJustInitialize \<and>
                nXOff r = 0 \<and> nXSize r = nBlockXSize b \<and>
                nYOff r \<le> nLBlockY * nBlockYSize b \<and>
                nYOff r + nYSize r = nRasterYSize b \<and>
                nLBlockY * nBlockYSize b > nRasterYSize b - nBlockYSize b);
             bJustInitialize = (bJustInitialize \<or> bMemZeroBuffer);
             b = DropLock_if poBlock b;
             (bInterrupted, b) = Interrupted b
         in
         if bInterrupted then Inl (CE_Interrupted, b)
         else
           (case GetLockedBlockRef b 0 nLBlockY bJustInitialize of
              (False, b) \<Rightarrow> Inl (CE_Failure, b)
            | (True, b) \<Rightarrow>
                (let b = (if eRWFlag r = GF_Write then MarkDirty b (0, nLBlockY) else b);
                     b = (if bMemZeroBuffer then
                            set_block_data b (0, nLBlockY)
                              (memset (block_data b (0, nLBlockY)) 0 0
                                 (nat (GDALGetDataTypeSizeBytes (eDataType b)
                                       * nBlockXSize b * nBlockYSize b)))
                          else b)
                 in Inr (nLBlockY, Some (0, nLBlockY), b))))
      else Inr (nLBlockY, poBlock, b))"

function packed_rows ::
  "conv_env \<Rightarrow> rio_request \<Rightarrow> int \<Rightarrow> int \<Rightarrow> (int \<times> int) option \<Rightarrow> GDALRasterBand \<Rightarrow> mem \<Rightarrow>
   CPLErr \<times> GDALRasterBand \<times> mem" where
  "packed_rows E r iBufYOff nLBlockY poBlock b pData =
     (if iBufYOff < nBufYSize r then
        (let iSrcY = iBufYOff + nYOff r in
         case packed_fetch r iSrcY nLBlockY poBlock b of
           Inl (eErr, b) \<Rightarrow> (eErr, b, pData)
         | Inr (nLBlockY, poBlock, b) \<Rightarrow>
             (case poBlock of
                None \<Rightarrow> (CE_Failure, b, pData)
              | Some blk \<Rightarrow>
                 (let nBandDataSize = GDALGetDataTypeSizeBytes (eDataType b);
                      nSrcByteOffset =
                        ((iSrcY - nLBlockY * nBlockYSize b) * nBlockXSize b + nXOff r) * nBandDataSize;
                      (b, pData) =
                        transfer_span E b r (eDataType b = eBufType r) blk nSrcByteOffset
                          (iBufYOff * nLineSpace r) (nBufXSize r) (nat (nLineSpace r)) pData
                  in
                  if progress_stops r (of_int (iBufYOff + 1) / of_int (nBufYSize r)) then
                    (CE_Failure, DropLock b, pData)
                  else packed_rows E r (iBufYOff + 1) nLBlockY poBlock b pData)))
      else (CE_None, DropLock_if poBlock b, pData))"
  by pat_completeness auto
termination
  by (relation "measure (\<lambda>(E, r, iBufYOff, nLBlockY, poBlock, b, pData). nat (nBufYSize r - iBufYOff))")
     auto

declare packed_rows.simps [simp del]

section \<open>IRasterIO: the 1:1 case for an arbitrary window\<close>

text \<open>
  The rows of one block that the window covers from \<open>iSrcY\<close> on are copied by the
  loop over \<open>k\<close>; \<open>iSrcOffset\<close> advances by one block line per round.
\<close>

definition case2_copy_rows ::
  "conv_env \<Rightarrow> rio_request \<Rightarrow> int \<times> int \<Rightarrow> int \<Rightarrow> int \<Rightarrow> int \<Rightarrow> int \<Rightarrow> nat \<Rightarrow>
   GDALRasterBand \<Rightarrow> mem \<Rightarrow> GDALRasterBand \<times> mem" where
  "case2_copy_rows E r blk kmax iSrcOffset iBufOffset nXSpan nXSpanSize b pData =
     (let nBandDataSize = GDALGetDataTypeSizeBytes (eDataType b);
          nBufDataSize = GDALGetDataTypeSizeBytes (eBufType r)
      in snd (for_loop 0 kmax
                (\<lambda>k (iSrcOffset, b, pData).
                   (iSrcOffset + nBlockXSize b * nBandDataSize,
                    transfer_span E b r
                      (eDataType b = eBufType r \<and> nPixelSpace r = nBufDataSize)
                      blk iSrcOffset (iBufOffset + k * nLineSpace r) nXSpan nXSpanSize pData))
                (iSrcOffset, b, pData)))"

text \<open>
  The loop over the blocks of one block row, \<open>while( iSrcX < nXSpanEnd )\<close>.  It
  returns from the function on an interruption and on a failed fetch; the status
  \<open>CE_None\<close> says that the loop ran to its end.  Each block is fetched, used and
  unlocked within one round.
\<close>

partial_function (option) case2_blocks ::
  "conv_env \<Rightarrow> rio_request \<Rightarrow> int \<Rightarrow> int \<Rightarrow> int \<Rightarrow> int \<Rightarrow> int \<Rightarrow> int \<Rightarrow> GDALRasterBand \<Rightarrow> mem \<Rightarrow>
   (CPLErr \<times> GDALRasterBand \<times> mem) option" where
  "case2_blocks E r iBufYOff iSrcY nLBlockY iSrcX nLBlockX iBufOffset b pData =
     (let nXSpanEnd = nBufXSize r + nXOff r in
      if iSrcX < nXSpanEnd then
        (let nXSpan = nLBlockX * nBlockXSize b;
             nXSpan = (if nXSpan < INT_MAX - nBlockXSize b then nXSpan + nBlockXSize b else INT_MAX);
             nXRight = nXSpan;
             nXSpan = (if nXSpan < nXSpanEnd then nXSpan else nXSpanEnd) - iSrcX;
             nXSpanSize = nXSpan * nPixelSpace r;
             bJustInitialize =
               (eRWFlag r = GF_Write
                \<and> nYOff r \<le> nLBlockY * nBlockYSize b
                \<and> nYOff r + nYSize r - nBlockYSize b \<ge> nLBlockY * nBlockYSize b
                \<and> nXOff r \<le> nLBlockX * nBlockXSize b
                \<and> nXOff r + nXSize r \<ge> nXRight);
             bMemZeroBuffer =
               (eRWFlag r = GF_Write \<and> \<not> bJustInitialize \<and>
                nXOff r \<le> nLBlockX * nBlockXSize b \<and>
                nYOff r \<le> nLBlockY * nBlockYSize b \<and>
                (nXOff r + nXSize r \<ge> nXRight \<or>
                 (nXOff r + nXSize r = nRasterXSize b \<and> nXRight > nRasterXSize b)) \<and>
                (nYOff r + nYSize r - nBlockYSize b \<ge> nLBlockY * nBlockYSize b \<or>
                 (nYOff r + nYSize r = nRasterYSize b \<and>
                  nLBlockY * nBlockYSize b > nRasterYSize b - nBlockYSize b)));
             bJustInitialize = (bJustInitialize \<or> bMemZeroBuffer)
         in
         let ib = Interrupted b in
         if fst ib then Some (CE_Interrupted, snd ib, pData)
         else
           (let gb = GetLockedBlockRef (snd ib) nLBlockX nLBlockY bJustInitialize in
            if \<not> fst gb then Some (CE_Failure, snd gb, pData)
            else
              (let b = snd gb;
                   blk = (nLBlockX, nLBlockY);
                   nBandDataSize = GDALGetDataTypeSizeBytes (eDataType b);
                   b = (if eRWFlag r = GF_Write then MarkDirty b blk else b);
                   b = (if bMemZeroBuffer then
                          set_block_data b blk
                            (memset (block_data b blk) 0 0
                               (nat (nBandDataSize * nBlockXSize b * nBlockYSize b)))
                        else b);
                   iSrcOffset =
                     (iSrcX - nLBlockX * nBlockXSize b
                      + (iSrcY - nLBlockY * nBlockYSize b) * nBlockXSize b) * nBandDataSize;
                   kmax = min (nBlockYSize b - (iSrcY smod nBlockYSize b)) (nBufYSize r - iBufYOff);
                   bp = case2_copy_rows E r blk kmax iSrcOffset iBufOffset nXSpan
                          (nat nXSpanSize) b pData;
                   b = DropLock (fst bp)
               in case2_blocks E r iBufYOff iSrcY nLBlockY (iSrcX + nXSpan) (nLBlockX + 1)
                    (iBufOffset + nXSpanSize) b (snd bp))))
      else Some (CE_None, b, pData))"

text \<open>The loop over the block rows, \<open>iBufYOff\<close> advancing to the next block boundary.\<close>

partial_function (option) case2_rows ::
  "conv_env \<Rightarrow> rio_request \<Rightarrow> int \<Rightarrow> int \<Rightarrow> GDALRasterBand \<Rightarrow> mem \<Rightarrow>
   (CPLErr \<times> GDALRasterBand \<times> mem) option" where
  "case2_rows E r iBufYOff iSrcY b pData =
     (if iBufYOff < nBufYSize r then
        (let nLBlockXStart = nXOff r sdiv nBlockXSize b;
             iBufOffset = iBufYOff * nLineSpace r;
             nLBlockY = iSrcY sdiv nBlockYSize b
         in
         case case2_blocks E r iBufYOff iSrcY nLBlockY (nXOff r) nLBlockXStart iBufOffset b pData of
           None \<Rightarrow> None
         | Some (eErr, b, pData) \<Rightarrow>
             if eErr \<noteq> CE_None then Some (eErr, b, pData)
             else
               (let nYInc = nBlockYSize b - (iSrcY smod nBlockYSize b) in
                if progress_stops r
                     (of_int (min (nBufYSize r) (iBufYOff + nYInc)) / of_int (nBufYSize r))
                then Some (CE_Failure, b, pData)
                else case2_rows E r (iBufYOff + nYInc) (iSrcY + nYInc) b pData))
      else Some (CE_None, b, pData))"

declare case2_blocks.simps [code] case2_rows.simps [code]

section \<open>IRasterIO: the general case, writing\<close>

text \<open>
  In the two general paths the stepping increments and the coordinates derived from
  them are modelled without rounding, as exact rationals, and the buffer offsets as
  unbounded integers.
\<close>

text \<open>
  The state that the two loops share is the block position \<open>nLBlockX\<close>, \<open>nLBlockY\<close>
  together with the block pointer (\<open>poBlock\<close> and \<open>pabyDstBlock\<close> are set together),
  and the status \<open>eErr\<close>.  \<open>Inl\<close> is a return from inside the loops.
\<close>

definition general_write_fetch ::
  "rio_request \<Rightarrow> int \<Rightarrow> int \<Rightarrow> int \<times> int \<times> (int \<times> int) option \<Rightarrow> GDALRasterBand \<Rightarrow>
   (CPLErr \<times> GDALRasterBand) + ((int \<times> int \<times> (int \<times> int) option) \<times> GDALRasterBand)" where
  "general_write_fetch r iDstX iDstY blockState b =
     (case blockState of (nLBlockX, nLBlockY, poBlock) \<Rightarrow>
      if iDstX < nLBlockX * nBlockXSize b
         \<or> iDstX - nBlockXSize b \<ge> nLBlockX * nBlockXSize b
         \<or> iDstY < nLBlockY * nBlockYSize b
         \<or> iDstY - nBlockYSize b \<ge> nLBlockY * nBlockYSize b then
        (let nLBlockX = iDstX sdiv nBlockXSize b;
             nLBlockY = iDstY sdiv nBlockYSize b;
             bJustInitialize =
               (nYOff r \<le> nLBlockY * nBlockYSize b
                \<and> nYOff r + nYSize r - nBlockYSize b \<ge> nLBlockY * nBlockYSize b
                \<and> nXOff r \<le> nLBlockX * nBlockXSize b
                \<and> nXOff r + nXSize r - nBlockXSize b \<ge> nLBlockX * nBlockXSize b);
             b = DropLock_if poBlock b
         in
         case GetLockedBlockRef b nLBlockX nLBlockY bJustInitialize of
           (False, b) \<Rightarrow> Inl (CE_Failure, b)
         | (True, b) \<Rightarrow>
             Inr ((nLBlockX, nLBlockY, Some (nLBlockX, nLBlockY)),
                  MarkDirty b (nLBlockX, nLBlockY)))
      else Inr (blockState, b))"

definition general_write_pixel ::
  "conv_env \<Rightarrow> rio_request \<Rightarrow> int \<Rightarrow> int \<Rightarrow> int \<Rightarrow> int \<times> int \<Rightarrow> GDALRasterBand \<Rightarrow> mem \<Rightarrow>
   GDALRasterBand" where
  "general_write_pixel E r iDstX iDstY iBufOffset blk b pData =
     (let nBandDataSize = GDALGetDataTypeSizeBytes (eDataType b);
          pabyDstBlock = block_data b blk;
          iDstOffset =
            (iDstX - fst blk * nBlockXSize b
             + (iDstY - snd blk * nBlockYSize b) * nBlockXSize b) * nBandDataSize
      in
      if eDataType b = eBufType r then
        set_block_data b blk (memcpy pabyDstBlock iDstOffset pData iBufOffset (nat nBandDataSize))
      else
        set_block_data b blk
          (GDALCopyWords E pData iBufOffset (eBufType r) 0 pabyDstBlock iDstOffset (eDataType b) 0 1))"

function general_write_x ::
  "conv_env \<Rightarrow> rio_request \<Rightarrow> rat \<Rightarrow> int \<Rightarrow> int \<Rightarrow> int \<Rightarrow> CPLErr \<Rightarrow>
   int \<times> int \<times> (int \<times> int) option \<Rightarrow> GDALRasterBand \<Rightarrow> mem \<Rightarrow>
   (CPLErr \<times> GDALRasterBand) + (CPLErr \<times> (int \<times> int \<times> (int \<times> int) option) \<times> GDALRasterBand)" where
  "general_write_x E r dfSrcXInc iDstY iBufYOff iDstX eErr blockState b pData =
     (if iDstX < nXOff r + nXSize r then
        (let iBufXOff = double_to_int (of_int (iDstX - nXOff r) / dfSrcXInc);
             iBufOffset = iBufYOff * nLineSpace r + iBufXOff * nPixelSpace r
         in
         case general_write_fetch r iDstX iDstY blockState b of
           Inl ret \<Rightarrow> Inl ret
         | Inr (blockState, b) \<Rightarrow>
             (case snd (snd blockState) of
                None \<Rightarrow> Inr (CE_Failure, blockState, b)
              | Some blk \<Rightarrow>
                  general_write_x E r dfSrcXInc iDstY iBufYOff (iDstX + 1) eErr blockState
                    (general_write_pixel E r iDstX iDstY iBufOffset blk b pData) pData))
      else Inr (eErr, blockState, b))"
  by pat_completeness auto
termination
  by (relation "measure (\<lambda>(E, r, dfSrcXInc, iDstY, iBufYOff, iDstX, eErr, blockState, b, pData).
                   nat (nXOff r + nXSize r - iDstX))") auto

function general_write_y ::
  "conv_env \<Rightarrow> rio_request \<Rightarrow> rat \<Rightarrow> rat \<Rightarrow> int \<Rightarrow> CPLErr \<Rightarrow>
   int \<times> int \<times> (int \<times> int) option \<Rightarrow> GDALRasterBand \<Rightarrow> mem \<Rightarrow> CPLErr \<times> GDALRasterBand" where
  "general_write_y E r dfSrcXInc dfSrcYInc iDstY eErr blockState b pData =
     (if iDstY < nYOff r + nYSize r then
        (let iBufYOff = double_to_int (of_int (iDstY - nYOff r) / dfSrcYInc) in
         case general_write_x E r dfSrcXInc iDstY iBufYOff (nXOff r) eErr blockState b pData of
           Inl ret \<Rightarrow> ret
         | Inr (eErr, blockState, b) \<Rightarrow>
             if progress_stops r (of_int (iDstY - nYOff r + 1) / of_int (nYSize r)) then
               (CE_Failure, DropLock_if (snd (snd blockState)) b)
             else general_write_y E r dfSrcXInc dfSrcYInc (iDstY + 1) eErr blockState b pData)
      else (eErr, DropLock_if (snd (snd blockState)) b))"
  by pat_completeness auto
termination
  by (relation "measure (\<lambda>(E, r, dfSrcXInc, dfSrcYInc, iDstY, eErr, blockState, b, pData).
                   nat (nYOff r + nYSize r - iDstY))") auto

declare general_write_x.simps [simp del] general_write_y.simps [simp del]

section \<open>IRasterIO: the general case, reading with nearest-neighbour sampling\<close>

definition EPS :: rat where
  "EPS = 1 / 10000000000"

text \<open>
  The source coordinate of a destination index: \<open>(index + 0.5) * inc + off + EPS\<close>,
  truncated and clamped to the extent of the block.
\<close>

definition nearest_source :: "int \<Rightarrow> rat \<Rightarrow> int \<Rightarrow> int \<Rightarrow> int \<Rightarrow> int" where
  "nearest_source iBufOff dfSrcInc nOff nLBlock nBlockSize =
     (let dfSrc = (of_int iBufOff + 1 / 2) * dfSrcInc + of_int nOff + EPS;
          iSrc = double_to_int dfSrc
      in if iSrc < nLBlock * nBlockSize then nLBlock * nBlockSize
         else if iSrc \<ge> (nLBlock + 1) * nBlockSize then (nLBlock + 1) * nBlockSize - 1
         else iSrc)"

text \<open>The first buffer index of a block and the limit behind its last one.\<close>

definition buf_first :: "int \<Rightarrow> int \<Rightarrow> int \<Rightarrow> rat \<Rightarrow> int" where
  "buf_first nLBlock nBlockSize nOff dfSrcInc =
     (let i = double_to_int (of_int (nLBlock * nBlockSize - nOff) / dfSrcInc)
      in if i < 0 then 0 else i)"

definition buf_limit :: "int \<Rightarrow> int \<Rightarrow> int \<Rightarrow> rat \<Rightarrow> int \<Rightarrow> int" where
  "buf_limit nLBlock nBlockSize nOff dfSrcInc nBufSize =
     (let i = \<lceil>of_int ((nLBlock + 1) * nBlockSize - nOff) / dfSrcInc\<rceil>
      in if i > nBufSize then nBufSize else i)"

definition general_read_pixel ::
  "conv_env \<Rightarrow> rio_request \<Rightarrow> GDALRasterBand \<Rightarrow> int \<times> int \<Rightarrow> int \<Rightarrow> int \<Rightarrow> mem \<Rightarrow> mem" where
  "general_read_pixel E r b blk nSrcPixel iBufOffset pData =
     (let nBandDataSize = GDALGetDataTypeSizeBytes (eDataType b);
          bByteCopy = (eDataType b = eBufType r \<and> nBandDataSize = 1);
          pabySrcBlock = block_data b blk
      in
      if bByteCopy then pData(iBufOffset := pabySrcBlock nSrcPixel)
      else if eDataType b = eBufType r then
        memcpy pData iBufOffset pabySrcBlock (nSrcPixel * nBandDataSize) (nat nBandDataSize)
      else
        GDALCopyWords E pabySrcBlock (nSrcPixel * nBandDataSize) (eDataType b) 0
          pData iBufOffset (eBufType r) 0 1)"

text \<open>
  The buffer lines of one block.  The loop is left when \<open>eErr\<close> is a failure already
  and when the progress callback asks to stop.
\<close>

function general_read_rows ::
  "conv_env \<Rightarrow> rio_request \<Rightarrow> GDALRasterBand \<Rightarrow> rat \<Rightarrow> rat \<Rightarrow> int \<times> int \<Rightarrow> int \<Rightarrow> int \<Rightarrow>
   CPLErr \<Rightarrow> mem \<Rightarrow> CPLErr \<times> mem" where
  "general_read_rows E r b dfSrcXInc dfSrcYInc blk iBufYLim iBufYOff eErr pData =
     (if iBufYOff < iBufYLim then
        (let nLBlockX = fst blk;
             nLBlockY = snd blk;
             iSrcY = nearest_source iBufYOff dfSrcYInc (nYOff r) nLBlockY (nBlockYSize b);
             iBufOffset = iBufYOff * nLineSpace r;
             iBufXOff = buf_first nLBlockX (nBlockXSize b) (nXOff r) dfSrcXInc;
             iBufXLim = buf_limit nLBlockX (nBlockXSize b) (nXOff r) dfSrcXInc (nBufXSize r);
             iBufOffset = iBufOffset + iBufXOff * nPixelSpace r;
             iSrcOffsetCst = (iSrcY - nLBlockY * nBlockYSize b) * nBlockXSize b;
             pData = snd (for_loop iBufXOff iBufXLim
                       (\<lambda>iBufXOff (iBufOffset, pData).
                          let iSrcX = nearest_source iBufXOff dfSrcXInc (nXOff r) nLBlockX (nBlockXSize b);
                              nDiffX = iSrcX - nLBlockX * nBlockXSize b
                          in (iBufOffset + nPixelSpace r,
                              general_read_pixel E r b blk (nDiffX + iSrcOffsetCst) iBufOffset pData))
                       (iBufOffset, pData))
         in
         if eErr = CE_Failure then (eErr, pData)
         else if progress_stops r (of_int (iBufYOff + 1) / of_int (nBufYSize r)) then
           (CE_Failure, pData)
         else general_read_rows E r b dfSrcXInc dfSrcYInc blk iBufYLim (iBufYOff + 1) eErr pData)
      else (eErr, pData))"
  by pat_completeness auto
termination
  by (relation "measure (\<lambda>(E, r, b, dfSrcXInc, dfSrcYInc, blk, iBufYLim, iBufYOff, eErr, pData).
                   nat (iBufYLim - iBufYOff))") auto

text \<open>
  The loop over the blocks of one block row.  An interruption returns from the
  function (\<open>Inl\<close>); a failed fetch sets \<open>eErr\<close> and leaves this loop only.
\<close>

function general_read_x ::
  "conv_env \<Rightarrow> rio_request \<Rightarrow> rat \<Rightarrow> rat \<Rightarrow> int \<Rightarrow> int \<Rightarrow> int \<Rightarrow> CPLErr \<Rightarrow>
   (int \<times> int) option \<Rightarrow> GDALRasterBand \<Rightarrow> mem \<Rightarrow>
   (CPLErr \<times> GDALRasterBand \<times> mem) + (CPLErr \<times> (int \<times> int) option \<times> GDALRasterBand \<times> mem)" where
  "general_read_x E r dfSrcXInc dfSrcYInc nEndBlockX nLBlockY nLBlockX eErr poBlock b pData =
     (if nLBlockX \<le> nEndBlockX then
        (let b = DropLock_if poBlock b;
             (bInterrupted, b) = Interrupted b
         in
         if bInterrupted then Inl (CE_Interrupted, b, pData)
         else
           (case GetLockedBlockRef b nLBlockX nLBlockY False of
              (False, b) \<Rightarrow> Inr (CE_Failure, None, b, pData)
            | (True, b) \<Rightarrow>
                (let iBufYOff = buf_first nLBlockY (nBlockYSize b) (nYOff r) dfSrcYInc;
                     iBufYLim = buf_limit nLBlockY (nBlockYSize b) (nYOff r) dfSrcYInc (nBufYSize r);
                     (eErr, pData) =
                        general_read_rows E r b dfSrcXInc dfSrcYInc (nLBlockX, nLBlockY)
                          iBufYLim iBufYOff eErr pData
                 in general_read_x E r dfSrcXInc dfSrcYInc nEndBlockX nLBlockY (nLBlockX + 1) eErr
                      (Some (nLBlockX, nLBlockY)) b pData)))
      else Inr (eErr, poBlock, b, pData))"
  by pat_completeness auto
termination
  by (relation "measure (\<lambda>(E, r, dfSrcXInc, dfSrcYInc, nEndBlockX, nLBlockY, nLBlockX, eErr, poBlock, b, pData).
                   nat (nEndBlockX + 1 - nLBlockX))") auto

function general_read_y ::
  "conv_env \<Rightarrow> rio_request \<Rightarrow> rat \<Rightarrow> rat \<Rightarrow> int \<Rightarrow> int \<Rightarrow> int \<Rightarrow> int \<Rightarrow> CPLErr \<Rightarrow>
   (int \<times> int) option \<Rightarrow> GDALRasterBand \<Rightarrow> mem \<Rightarrow> CPLErr \<times> GDALRasterBand \<times> mem" where
  "general_read_y E r dfSrcXInc dfSrcYInc nStartBlockX nEndBlockX nEndBlockY nLBlockY eErr poBlock b pData =
     (if nLBlockY \<le> nEndBlockY then
        (case general_read_x E r dfSrcXInc dfSrcYInc nEndBlockX nLBlockY nStartBlockX eErr poBlock b pData of
           Inl ret \<Rightarrow> ret
         | Inr (eErr, poBlock, b, pData) \<Rightarrow>
             general_read_y E r dfSrcXInc dfSrcYInc nStartBlockX nEndBlockX nEndBlockY (nLBlockY + 1)
               eErr poBlock b pData)
      else (eErr, DropLock_if poBlock b, pData))"
  by pat_completeness auto
termination
  by (relation "measure (\<lambda>(E, r, dfSrcXInc, dfSrcYInc, nStartBlockX, nEndBlockX, nEndBlockY, nLBlockY, eErr, poBlock, b, pData).
                   nat (nEndBlockY + 1 - nLBlockY))") auto

declare general_read_rows.simps [simp del] general_read_x.simps [simp del]
  general_read_y.simps [simp del]

section \<open>IRasterIO\<close>

text \<open>
  The result is the status, the band and the buffer after the call; \<open>None\<close> stands
  for a run of the 1:1 loops that does not end.  Error messages (\<open>CPLError\<close>) are
  not part of the state.  \<open>GetDataRef\<close> of a locked block is never null.
\<close>

definition IRasterIO ::
  "conv_env \<Rightarrow> GDALRasterBand \<Rightarrow> rio_request \<Rightarrow> mem \<Rightarrow> (CPLErr \<times> GDALRasterBand \<times> mem) option" where
  "IRasterIO E b r pData =
     (if eRWFlag r = GF_Write \<and> eFlushBlockErr b \<noteq> CE_None then
        Some (eFlushBlockErr b, b\<lparr> eFlushBlockErr := CE_None \<rparr>, pData)
      else if nBlockXSize b \<le> 0 \<or> nBlockYSize b \<le> 0 then Some (CE_Failure, b, pData)
      else
        (let nBandDataSize = GDALGetDataTypeSizeBytes (eDataType b);
             nBufDataSize = GDALGetDataTypeSizeBytes (eBufType r);
             a = psExtraArg r;
             bUseIntegerRequestCoords =
               (\<not> bFloatingPointWindowValidity a \<or>
                (of_int (nXOff r) = dfXOff a \<and> of_int (nYOff r) = dfYOff a \<and>
                 of_int (nXSize r) = dfXSize a \<and> of_int (nYSize r) = dfYSize a))
         in
         if nPixelSpace r = nBufDataSize
            \<and> nLineSpace r = nPixelSpace r * nXSize r
            \<and> nBlockXSize b = nRasterXSize b
            \<and> nBufXSize r = nXSize r
            \<and> nBufYSize r = nYSize r
            \<and> bUseIntegerRequestCoords then
           Some (packed_rows E r 0 (- 1) None b pData)
         else
           (let ov =
              (if (nBufXSize r < nXSize r \<or> nBufYSize r < nYSize r)
                  \<and> length (overviews b) > 0 \<and> eRWFlag r = GF_Read then
                 (case GDALBandGetBestOverviewLevel2 (nRasterXSize b) (nRasterYSize b) (overviews b)
                         (nXOff r, nYOff r, nXSize r, nYSize r) (nBufXSize r) (nBufYSize r) (Some a) of
                    (nOverview, window, sExtraArg) \<Rightarrow>
                      if nOverview \<ge> 0 then
                        (case (overviews b ! nat nOverview, sExtraArg) of
                           (Some poOverviewBand, Some sa) \<Rightarrow>
                             (case ovrRasterIO b nOverview window sa pData of
                                (eErr, pData) \<Rightarrow> Some (eErr, b, pData))
                         | _ \<Rightarrow> Some (CE_Failure, b, pData))
                      else None)
               else None)
            in
            case ov of
              Some ret \<Rightarrow> Some ret
            | None \<Rightarrow>
               if eRWFlag r = GF_Read
                  \<and> nBufXSize r < nXSize r sdiv 100 \<and> nBufYSize r < nYSize r sdiv 100
                  \<and> nPixelSpace r = nBufDataSize
                  \<and> nLineSpace r = nPixelSpace r * nBufXSize r
                  \<and> bNoCostlyOverview b then
                 Some (CE_None, b, memset pData 0 0 (nat (nLineSpace r * nBufYSize r)))
               else if nXSize r = nBufXSize r \<and> nYSize r = nBufYSize r \<and> bUseIntegerRequestCoords then
                 case2_rows E r 0 (nYOff r) b pData
               else
                 (let dfXSize' = (if bFloatingPointWindowValidity a then dfXSize a else of_int (nXSize r));
                      dfYSize' = (if bFloatingPointWindowValidity a then dfYSize a else of_int (nYSize r));
                      dfSrcXInc = dfXSize' / of_int (nBufXSize r);
                      dfSrcYInc = dfYSize' / of_int (nBufYSize r)
                  in
                  if eRWFlag r = GF_Write then
                    (case general_write_y E r dfSrcXInc dfSrcYInc (nYOff r) CE_None (- 1, - 1, None) b pData of
                       (eErr, b) \<Rightarrow> Some (eErr, b, pData))
                  else if eResampleAlg a \<noteq> GRIORA_NearestNeighbour
                          \<and> \<not> ((eResampleAlg a = GRIORA_Cubic \<or> eResampleAlg a = GRIORA_CubicSpline \<or>
                                 eResampleAlg a = GRIORA_Bilinear \<or> eResampleAlg a = GRIORA_Lanczos)
                                \<and> bHasColorTable b)
                          \<and> \<not> (eResampleAlg a = GRIORA_Gauss \<and> is_complex (eDataType b)) then
                    (case resampledIO b r pData of (eErr, pData) \<Rightarrow> Some (eErr, b, pData))
                  else
                    (let nStartBlockX = nXOff r sdiv nBlockXSize b;
                         nStartBlockY = nYOff r sdiv nBlockYSize b;
                         nEndBlockX = (nXOff r + nXSize r - 1) sdiv nBlockXSize b;
                         nEndBlockY = (nYOff r + nYSize r - 1) sdiv nBlockYSize b
                     in Some (general_read_y E r dfSrcXInc dfSrcYInc nStartBlockX nEndBlockX nEndBlockY
                                nStartBlockY CE_None None b pData))))))"


section \<open>Definitions used in the statements about GDALCopyWords\<close>

text \<open>
  Modelled from the spec: a Word Converter for the integer types, used to run the
  model on concrete buffers.  Identical types copy the value unchanged; a
  conversion between integer types saturates to the range of the destination.
  Conversions that involve a floating-point type are not modelled: this converter
  yields zero for them.
\<close>

fun is_int_ctype :: "ctype \<Rightarrow> bool" where
  "is_int_ctype C_float = False"
| "is_int_ctype C_double = False"
| "is_int_ctype _ = True"

fun ctype_min :: "ctype \<Rightarrow> int" where
  "ctype_min C_short = - 32768"
| "ctype_min C_int = - 2147483648"
| "ctype_min _ = 0"

fun ctype_max :: "ctype \<Rightarrow> int" where
  "ctype_max C_uchar = 255"
| "ctype_max C_ushort = 65535"
| "ctype_max C_short = 32767"
| "ctype_max C_uint = 4294967295"
| "ctype_max C_int = 2147483647"
| "ctype_max _ = 0"

fun int_of_bytes :: "ctype \<Rightarrow> byte list \<Rightarrow> int" where
  "int_of_bytes C_uchar v = uint (le_word v :: 8 word)"
| "int_of_bytes C_ushort v = uint (le_word v :: 16 word)"
| "int_of_bytes C_short v = sint (le_word v :: 16 word)"
| "int_of_bytes C_uint v = uint (le_word v :: 32 word)"
| "int_of_bytes C_int v = sint (le_word v :: 32 word)"
| "int_of_bytes _ v = 0"

definition bytes_of_int :: "ctype \<Rightarrow> int \<Rightarrow> byte list" where
  "bytes_of_int T i = word_le (sizeof T) (word_of_int i :: 64 word)"

definition spec_copy_word :: "ctype \<Rightarrow> ctype \<Rightarrow> byte list \<Rightarrow> byte list" where
  "spec_copy_word Tin Tout v =
     (if Tin = Tout then v
      else if is_int_ctype Tin \<and> is_int_ctype Tout then
        bytes_of_int Tout (max (ctype_min Tout) (min (ctype_max Tout) (int_of_bytes Tin v)))
      else replicate (sizeof Tout) 0)"

definition spec_env :: conv_env where
  "spec_env = \<lparr> copy_word = spec_copy_word, copy_8words = (\<lambda>Tin Tout v. []),
                int_to_float = (\<lambda>i. []), int_to_double = (\<lambda>i. []) \<rparr>"

text \<open>A buffer holding the given bytes from offset 0 on, and zero elsewhere.\<close>

definition mem_of :: "byte list \<Rightarrow> mem" where
  "mem_of bs = (\<lambda>a. if 0 \<le> a \<and> a < int (length bs) then bs ! nat a else 0)"

text \<open>Writing the word \<open>W\<close> \<open>k\<close> times, \<open>dS\<close> bytes apart, from a pointer on.\<close>

definition store_seq :: "byte list \<Rightarrow> int \<Rightarrow> nat \<Rightarrow> int \<times> mem \<Rightarrow> int \<times> mem" where
  "store_seq W dS k = repeat k (\<lambda>(p, d). (p + dS, store d p W))"

text \<open>The destination word that the conversion of one source word writes.\<close>

definition converted_word :: "conv_env \<Rightarrow> mem \<Rightarrow> int \<Rightarrow> GDALDataType \<Rightarrow> GDALDataType \<Rightarrow> byte list" where
  "converted_word E src p eSrcType eDstType =
     load (GDALCopyWords E src p eSrcType 0 (\<lambda>a. 0) 0 eDstType 0 1) 0
       (nat (GDALGetDataTypeSizeBytes eDstType))"

text \<open>
  The two readings of replication in the specification: \<open>n\<close> sequential single-word
  conversions of the same source word, each a call of \<open>GDALCopyWords\<close> for one word;
  and one conversion followed by \<open>n - 1\<close> copies of the converted destination word.
\<close>

definition sequential_conversions ::
  "conv_env \<Rightarrow> mem \<Rightarrow> int \<Rightarrow> GDALDataType \<Rightarrow> mem \<Rightarrow> int \<Rightarrow> GDALDataType \<Rightarrow> int \<Rightarrow> int \<Rightarrow> mem" where
  "sequential_conversions E src pSrcData eSrcType dst pDstData eDstType nDstPixelStride nWordCount =
     for_loop 0 nWordCount
       (\<lambda>i dst. GDALCopyWords E src pSrcData eSrcType 0
                   dst (pDstData + i * nDstPixelStride) eDstType 0 1)
       dst"

definition convert_once_and_replicate ::
  "conv_env \<Rightarrow> mem \<Rightarrow> int \<Rightarrow> GDALDataType \<Rightarrow> mem \<Rightarrow> int \<Rightarrow> GDALDataType \<Rightarrow> int \<Rightarrow> int \<Rightarrow> mem" where
  "convert_once_and_replicate E src pSrcData eSrcType dst pDstData eDstType nDstPixelStride nWordCount =
     (let dst = GDALCopyWords E src pSrcData eSrcType 0 dst pDstData eDstType 0 1;
          word = load dst pDstData (nat (GDALGetDataTypeSizeBytes eDstType))
      in for_loop 1 nWordCount (\<lambda>i dst. store dst (pDstData + i * nDstPixelStride) word) dst)"


section \<open>Definitions used in the statements about overview selection\<close>

text \<open>
  An overview is safe for RasterIO unless its \<open>RESAMPLING\<close> metadata starts with
  \<open>AVERAGE_BIT2\<close>.  It qualifies for a desired resolution \<open>r\<close> when it is not null,
  its resolution is strictly below the product of \<open>r\<close> and 1.2 as the code forms it (in
  \<open>double\<close>, rounded) and it is safe.  \<open>ov_res\<close> is the
  resolution of an entry of the overview list.
\<close>

definition rasterio_safe :: "overview_band \<Rightarrow> bool" where
  "rasterio_safe ov =
     (case ovResampling ov of None \<Rightarrow> True | Some s \<Rightarrow> \<not> STARTS_WITH_CI s ''AVERAGE_BIT2'')"

definition qualifies :: "int \<Rightarrow> int \<Rightarrow> rat \<Rightarrow> overview_band option \<Rightarrow> bool" where
  "qualifies X Y r ov =
     (case ov of None \<Rightarrow> False
      | Some v \<Rightarrow> overview_resolution X Y v < to_double (r * double_1_2) \<and> rasterio_safe v)"

definition ov_res :: "int \<Rightarrow> int \<Rightarrow> overview_band option \<Rightarrow> rat" where
  "ov_res X Y ov = (case ov of None \<Rightarrow> 0 | Some v \<Rightarrow> overview_resolution X Y v)"

definition overviews_positive :: "overview_band option list \<Rightarrow> bool" where
  "overviews_positive ovs =
     list_all (\<lambda>ov. case ov of None \<Rightarrow> True | Some v \<Rightarrow> 0 < ovXSize v \<and> 0 < ovYSize v) ovs"

text \<open>The overviews of an 8 by 8 band at the decimation ratios 1, 2, 4 and 8.\<close>

definition ov_1_2_4_8 :: "overview_band option list" where
  "ov_1_2_4_8 =
     [Some \<lparr>ovXSize = 8, ovYSize = 8, ovResampling = None\<rparr>,
      Some \<lparr>ovXSize = 4, ovYSize = 4, ovResampling = None\<rparr>,
      Some \<lparr>ovXSize = 2, ovYSize = 2, ovResampling = None\<rparr>,
      Some \<lparr>ovXSize = 1, ovYSize = 1, ovResampling = None\<rparr>]"


section \<open>Definitions used in the statements about IRasterIO\<close>

text \<open>Extra arguments without a progress callback and without a fractional window.\<close>

definition no_extra :: GDALRasterIOExtraArg where
  "no_extra = \<lparr> eResampleAlg = GRIORA_NearestNeighbour, pfnProgress = None,
      bFloatingPointWindowValidity = False, dfXOff = 0, dfYOff = 0, dfXSize = 0, dfYSize = 0 \<rparr>"

text \<open>
  A byte band of raster size \<open>rx\<close> by \<open>ry\<close> and block size \<open>bw\<close> by \<open>bh\<close> whose
  storage holds the value \<open>px x y\<close> for the pixel \<open>(x, y)\<close>.  The cache is empty, no
  lock is held, there is no owning dataset and no overview; newly allocated block
  memory is filled with the byte 170.
\<close>

definition byte_band :: "int \<Rightarrow> int \<Rightarrow> int \<Rightarrow> int \<Rightarrow> (int \<Rightarrow> int \<Rightarrow> byte) \<Rightarrow> GDALRasterBand" where
  "byte_band rx ry bw bh px =
     \<lparr> nBlockXSize = bw, nBlockYSize = bh, nRasterXSize = rx, nRasterYSize = ry,
       eDataType = GDT_Byte, eFlushBlockErr = CE_None, poDS = None, nPolls = 0,
       overviews = [], bHasColorTable = False,
       blocks = (\<lambda>blk. None),
       storage = (\<lambda>(bx, by). Some (\<lambda>a. px (bx * bw + a mod bw) (by * bh + a div bw))),
       fresh = (\<lambda>blk a. 170),
       dirty = {}, nLocks = 0, nMaxLocks = 0, readLog = [], bNoCostlyOverview = False,
       ovrRasterIO = (\<lambda>lvl w a m. (CE_Failure, m)),
       resampledIO = (\<lambda>r m. (CE_Failure, m)) \<rparr>"

text \<open>
  A request on a window \<open>(xOff, yOff, xSize, ySize)\<close> with a packed byte buffer of
  the given size.
\<close>

definition request :: "GDALRWFlag \<Rightarrow> int \<times> int \<times> int \<times> int \<Rightarrow> int \<times> int \<Rightarrow> rio_request" where
  "request rw w buf = (case w of (x, y, xs, ys) \<Rightarrow> case buf of (bx, by) \<Rightarrow>
     \<lparr> eRWFlag = rw, nXOff = x, nYOff = y, nXSize = xs, nYSize = ys, nBufXSize = bx, nBufYSize = by,
       eBufType = GDT_Byte, nPixelSpace = 1, nLineSpace = bx, psExtraArg = no_extra \<rparr>)"

text \<open>Pixel values that tell the pixels apart: 11, 12, ... in the first line, 21, 22, ... in the second.\<close>

definition px0 :: "int \<Rightarrow> int \<Rightarrow> byte" where
  "px0 x y = word_of_int (10 * (y + 1) + x + 1)"

text \<open>
  What is observed of a call: the status, the first \<open>n\<close> bytes of the buffer, the
  blocks read from storage, the locks held at the end, the most locks held at once, the
  number of interruption polls, and the stored flush error.
\<close>

definition rio_summary ::
  "(CPLErr \<times> GDALRasterBand \<times> mem) option \<Rightarrow> nat \<Rightarrow>
   (CPLErr \<times> byte list \<times> (int \<times> int) list \<times> nat \<times> nat \<times> nat \<times> CPLErr) option" where
  "rio_summary res n =
     (case res of
        None \<Rightarrow> None
      | Some (eErr, b, pData) \<Rightarrow>
          Some (eErr, load pData 0 n, readLog b, nLocks b, nMaxLocks b, nPolls b, eFlushBlockErr b))"


section \<open>Definitions used in the statements about block locks\<close>

text \<open>
  The band counts the locks that are held (\<open>nLocks\<close>) and remembers the most locks
  that were ever held at once (\<open>nMaxLocks\<close>).  No lock is held, or exactly one is, and
  never more than \<open>M\<close> were.
\<close>

definition unlocked :: "nat \<Rightarrow> GDALRasterBand \<Rightarrow> bool" where
  "unlocked M b = (nLocks b = 0 \<and> nMaxLocks b \<le> M)"

definition one_locked :: "nat \<Rightarrow> GDALRasterBand \<Rightarrow> bool" where
  "one_locked M b = (nLocks b = 1 \<and> nMaxLocks b \<le> M)"

text \<open>
  The state of the block pointer of a loop: it is null and no lock is held, or it
  points to a block whose lock is the only one.
\<close>

definition lock_state :: "nat \<Rightarrow> (int \<times> int) option \<Rightarrow> GDALRasterBand \<Rightarrow> bool" where
  "lock_state M poBlock b = (case poBlock of None \<Rightarrow> unlocked M b | Some blk \<Rightarrow> one_locked M b)"

text \<open>The lock counters and the block size of \<open>b'\<close> are those of \<open>b\<close>.\<close>

definition same_blocking :: "GDALRasterBand \<Rightarrow> GDALRasterBand \<Rightarrow> bool" where
  "same_blocking b b' =
     (nLocks b' = nLocks b \<and> nMaxLocks b' = nMaxLocks b \<and>
      nBlockXSize b' = nBlockXSize b \<and> nBlockYSize b' = nBlockYSize b)"

text \<open>
  \<open>b'\<close> holds no lock, never held more than \<open>M\<close>, and has the block size of \<open>b\<close>;
  a call returns with such a band (and does return).
\<close>

definition released :: "nat \<Rightarrow> GDALRasterBand \<Rightarrow> GDALRasterBand \<Rightarrow> bool" where
  "released M b b' =
     (nLocks b' = 0 \<and> nMaxLocks b' \<le> M \<and>
      nBlockXSize b' = nBlockXSize b \<and> nBlockYSize b' = nBlockYSize b)"

definition returns_released ::
  "nat \<Rightarrow> GDALRasterBand \<Rightarrow> (CPLErr \<times> GDALRasterBand \<times> mem) option \<Rightarrow> bool" where
  "returns_released M b res = (case res of None \<Rightarrow> False | Some (eErr, b', pData') \<Rightarrow> released M b b')"

text \<open>
  The request is served by the 1:1 code: the buffer has the size of the window and the
  window has integer coordinates (\<open>bUseIntegerRequestCoords\<close>).
\<close>

definition one_to_one :: "rio_request \<Rightarrow> bool" where
  "one_to_one r =
     (nXSize r = nBufXSize r \<and> nYSize r = nBufYSize r \<and>
      (let a = psExtraArg r in
       \<not> bFloatingPointWindowValidity a \<or>
       (of_int (nXOff r) = dfXOff a \<and> of_int (nYOff r) = dfYOff a \<and>
        of_int (nXSize r) = dfXSize a \<and> of_int (nYSize r) = dfYSize a)))"

section \<open>Facts about the rounding to double\<close>

lemma pow2_pos [simp]: "0 < pow2 e"
  by (simp add: pow2_def zero_less_power_int)

lemma pow2_add: "pow2 (a + b) = pow2 a * pow2 b"
  by (simp add: pow2_def power_int_add)

lemma pow2_diff: "pow2 (a - b) = pow2 a / pow2 b"
  by (simp add: pow2_def power_int_diff)

lemma pow2_nat: "pow2 (int n) = 2 ^ n"
  by (simp add: pow2_def)

lemma bitlen_bounds: "0 < n \<Longrightarrow> 1 \<le> bitlen n \<and> 2 ^ nat (bitlen n - 1) \<le> n \<and> n < 2 ^ nat (bitlen n)"
proof (induction n rule: bitlen.induct)
  case (1 n)
  show ?case
  proof (cases "n div 2 \<le> 0")
    case True
    then have "n = 1" using "1.prems" by linarith
    then show ?thesis by (simp add: bitlen.simps[of 1] bitlen.simps[of 0])
  next
    case False
    then have IH: "1 \<le> bitlen (n div 2)" "2 ^ nat (bitlen (n div 2) - 1) \<le> n div 2"
      "n div 2 < 2 ^ nat (bitlen (n div 2))"
      using "1.IH" "1.prems" by simp_all
    have b: "bitlen n = 1 + bitlen (n div 2)" using "1.prems" by (simp add: bitlen.simps[of n])
    have e: "nat (bitlen n - 1) = Suc (nat (bitlen (n div 2) - 1))" "nat (bitlen n) = Suc (nat (bitlen (n div 2)))"
      using IH(1) b by simp_all
    have "2 * (n div 2) \<le> n" "n < 2 * (n div 2) + 2" by linarith+
    then show ?thesis using IH b unfolding e by simp
  qed
qed

lemma ilog2_le: assumes "0 < x" shows "pow2 (ilog2 x) \<le> x"
proof -
  obtain p q where pq: "quotient_of x = (p, q)" by (cases "quotient_of x")
  have q: "0 < q" using quotient_of_denom_pos[OF pq] .
  have x: "x = of_int p / of_int q" using quotient_of_div[OF pq] .
  have p: "0 < p" using assms q x by (simp add: zero_less_divide_iff)
  let ?e = "bitlen p - bitlen q"
  show ?thesis
  proof (cases "pow2 ?e \<le> x")
    case True
    then show ?thesis by (simp add: ilog2_def pq Let_def)
  next
    case False
    then have il: "ilog2 x = ?e - 1" by (simp add: ilog2_def pq Let_def)
    note bp = bitlen_bounds[OF p] and bq = bitlen_bounds[OF q]
    have "(2::rat) ^ nat (bitlen p - 1) \<le> of_int p"
      using bp by (metis of_int_le_iff of_int_numeral of_int_power)
    moreover have "of_int q \<le> (2::rat) ^ nat (bitlen q)"
      using bq by (metis less_imp_le of_int_le_iff of_int_numeral of_int_power)
    ultimately have "(2::rat) ^ nat (bitlen p - 1) / 2 ^ nat (bitlen q) \<le> of_int p / of_int q"
      using q p by (intro frac_le) simp_all
    moreover have "pow2 (?e - 1) = (2::rat) ^ nat (bitlen p - 1) / 2 ^ nat (bitlen q)"
    proof -
      have "?e - 1 = int (nat (bitlen p - 1)) - int (nat (bitlen q))" using bp bq by simp
      then show ?thesis by (simp only: pow2_diff pow2_nat)
    qed
    ultimately have "pow2 (?e - 1) \<le> of_int p / of_int q" by simp
    then show ?thesis unfolding il x[symmetric] .
  qed
qed

lemma round_half_even_ge: "of_int n \<le> x \<Longrightarrow> n \<le> round_half_even x"
proof -
  assume "of_int n \<le> x"
  then have "n \<le> \<lfloor>x\<rfloor>" by (simp add: le_floor_iff)
  then show ?thesis by (auto simp: round_half_even_def Let_def)
qed

lemma to_double_pos: assumes "0 < x" shows "0 < to_double x"
proof -
  let ?e = "ilog2 x - 52"
  have "pow2 (ilog2 x) \<le> x" using assms by (rule ilog2_le)
  then have "pow2 52 * pow2 ?e \<le> x" by (simp add: pow2_add[symmetric])
  then have "pow2 52 \<le> x / pow2 ?e" by (simp add: pos_le_divide_eq)
  moreover have "pow2 52 = of_int (2 ^ 52)" by (simp add: pow2_def)
  ultimately have "2 ^ 52 \<le> round_half_even (x / pow2 ?e)" by (simp only: round_half_even_ge)
  moreover have "(0::int) < 2 ^ 52" by simp
  ultimately have "0 < round_half_even (x / pow2 ?e)" by linarith
  then show ?thesis using assms by (simp add: to_double_def Let_def)
qed

section \<open>Facts about loops, buffers and single-word conversions\<close>

lemma for_loop_done [simp]: "\<not> n < hi \<Longrightarrow> for_loop n hi body s = s"
  by (simp add: for_loop.simps)

lemma for_by8_done [simp]: "\<not> n < hi \<Longrightarrow> for_by8 n hi body s = (n, s)"
  by (simp add: for_by8.simps)

lemma for_by16_done [simp]: "\<not> n < hi \<Longrightarrow> for_by16 n hi body s = (n, s)"
  by (simp add: for_by16.simps)

lemma load_0 [simp]: "load m a 0 = []" by (simp add: load_def)

lemma memcpy_0 [simp]: "memcpy dst d src s 0 = dst" by (simp add: memcpy_def)

lemma GDALCopyWordsGenericT_0: "GDALCopyWordsGenericT E Tin Tout src p ss dst q ds 0 = dst"
  by (simp add: GDALCopyWordsGenericT_def)

lemma GDALCopyWordsT_0: "GDALCopyWordsT E Tin Tout src p ss dst q ds 0 = dst"
  by (cases Tin; cases Tout)
     (simp_all add: GDALCopyWordsT_def GDALCopyWordsGenericT_0 GDALCopyWordsByteTo16Bit_def
        GDALCopyWordsByteTo32Bit_def GDALCopyWordsT_Byte_float_def GDALCopyWordsT_Byte_double_def
        GDALCopyWordsT_UInt16_Byte_def GDALCopyWordsT_UInt16_Int16_def GDALCopyWordsT_UInt16_float_def
        GDALCopyWordsT_UInt16_double_def GDALCopyWordsT_8atatime_def)

lemma GDALCopyWordsComplexT_0: "GDALCopyWordsComplexT E Tin Tout src p ss dst q ds 0 = dst"
  by (simp add: GDALCopyWordsComplexT_def)

lemma GDALCopyWordsComplexOutT_0: "GDALCopyWordsComplexOutT E Tin Tout src p ss dst q ds 0 = dst"
  by (simp add: GDALCopyWordsComplexOutT_def)

lemma GDALCopyWordsFromT_0: "GDALCopyWordsFromT E T src p ss c dst q dT ds 0 = dst"
  by (cases dT) (simp_all add: GDALCopyWordsT_0 GDALCopyWordsComplexT_0 GDALCopyWordsComplexOutT_0)

lemma GDALUnrolledCopy_0: "GDALUnrolledCopy T a b dst q src p 0 = dst"
  by (simp add: GDALUnrolledCopy_def GDALUnrolledCopy_GByte_2_1_def GDALUnrolledCopy_GByte_4_1_def
      GDALUnrolledCopyGeneric_def)

lemma GDALFastCopy_0: "GDALFastCopy T dst q ds src p ss 0 = dst"
  by (simp add: GDALFastCopy_def GDALUnrolledCopy_0 Let_def)

lemma for_loop_one: "for_loop n (n + 1) body s = body n s"
  by (simp add: for_loop.simps[of n])

lemma for_loop_0_1 [simp]: "for_loop 0 1 body s = body 0 s"
  using for_loop_one[of 0] by simp

lemma GDALCopyWordsGenericT_1:
  "GDALCopyWordsGenericT E Tin Tout src p ss dst q ds 1 =
     store dst q (GDALCopyWord E Tin Tout (load src p (sizeof Tin)))"
  by (simp add: GDALCopyWordsGenericT_def)

lemma GDALCopyWordsT_8atatime_1:
  "GDALCopyWordsT_8atatime E Tin Tout src p ss dst q ds 1 =
     store dst q (GDALCopyWord E Tin Tout (load src p (sizeof Tin)))"
  by (simp add: GDALCopyWordsT_8atatime_def)

lemma GDALCopyWordsT_1:
  "Tin \<noteq> C_uchar \<Longrightarrow> Tin \<noteq> C_ushort \<Longrightarrow>
   GDALCopyWordsT E Tin Tout src p ss dst q ds 1 =
     store dst q (GDALCopyWord E Tin Tout (load src p (sizeof Tin)))"
  by (cases Tin; cases Tout)
     (simp_all add: GDALCopyWordsT_def GDALCopyWordsGenericT_1 GDALCopyWordsT_8atatime_1)

lemma GDALCopyWordsComplexOutT_1:
  "GDALCopyWordsComplexOutT E Tin Tout src p ss dst q ds 1 =
     store (store dst q (GDALCopyWord E Tin Tout (load src p (sizeof Tin))))
       (q + int (sizeof Tout)) (tOutZero Tout)"
  by (simp add: GDALCopyWordsComplexOutT_def Let_def)

lemma GDALCopyWordsComplexT_1:
  "GDALCopyWordsComplexT E Tin Tout src p ss dst q ds 1 =
     store (store dst q (GDALCopyWord E Tin Tout (load src p (sizeof Tin))))
       (q + int (sizeof Tout)) (GDALCopyWord E Tin Tout (load src (p + int (sizeof Tin)) (sizeof Tin)))"
  by (simp add: GDALCopyWordsComplexT_def Let_def)

lemma store_apply:
  "store m a bs x = (if a \<le> x \<and> x < a + int (length bs) then bs ! nat (x - a) else m x)"
proof (induction bs arbitrary: m a)
  case Nil
  then show ?case by auto
next
  case (Cons b bs)
  have step: "store m a (b # bs) x =
      (if a + 1 \<le> x \<and> x < a + 1 + int (length bs) then bs ! nat (x - (a + 1))
       else (m(a := b)) x)"
    unfolding store.simps by (rule Cons.IH)
  consider "x < a" | "x = a" | "a < x" by linarith
  then show ?case
  proof cases
    case 1
    then show ?thesis unfolding step by simp
  next
    case 2
    then show ?thesis unfolding step by simp
  next
    case 3
    then have "nat (x - a) = Suc (nat (x - (a + 1)))" by simp
    with 3 show ?thesis unfolding step by simp
  qed
qed

lemma load_store_same: "load (store m a bs) a (length bs) = bs"
  by (rule nth_equalityI) (simp_all add: load_def store_apply)

lemma load_store_disjoint:
  "a + int n \<le> b \<or> b + int (length bs) \<le> a \<Longrightarrow> load (store m b bs) a n = load m a n"
  by (auto simp: load_def store_apply)

lemma length_fit [simp]: "length (fit n bs) = n"
  by (simp add: fit_def)

lemma length_GDALCopyWord [simp]: "length (GDALCopyWord E Tin Tout v) = sizeof Tout"
  by (simp add: GDALCopyWord_def)

lemma length_tOutZero [simp]: "length (tOutZero T) = sizeof T"
  by (simp add: tOutZero_def)

lemma real_to_complex_1:
  assumes "component_type eSrcType = Some Tin" "component_type eDstType = Some Tout"
    "\<not> is_complex eSrcType" "is_complex eDstType"
  shows "GDALCopyWords E src p eSrcType ss dst q eDstType ds 1
         = store (store dst q (GDALCopyWord E Tin Tout (load src p (sizeof Tin))))
             (q + int (sizeof Tout)) (tOutZero Tout)"
  using assms
  by (cases eSrcType; cases eDstType)
     (simp_all add: GDALCopyWords.simps GDALCopyWordsComplexOutT_1)

lemma complex_to_real_1:
  assumes "component_type eSrcType = Some Tin" "component_type eDstType = Some Tout"
    "is_complex eSrcType" "\<not> is_complex eDstType"
  shows "GDALCopyWords E src p eSrcType ss dst q eDstType ds 1
         = store dst q (GDALCopyWord E Tin Tout (load src p (sizeof Tin)))"
  using assms
  by (cases eSrcType; cases eDstType)
     (simp_all add: GDALCopyWords.simps GDALCopyWordsT_1)

lemma for_loop_step: "n < hi \<Longrightarrow> for_loop n hi body s = for_loop (n + 1) hi body (body n s)"
  by (simp add: for_loop.simps[of n])

lemma store_append: "store m a (xs @ ys) = store (store m a xs) (a + int (length xs)) ys"
  by (induction xs arbitrary: m a) (simp_all add: add.assoc)

lemma store_seq_0 [simp]: "store_seq W dS 0 s = s"
  by (simp add: store_seq_def)

lemma store_seq_Suc: "store_seq W dS (Suc k) (p, d) = store_seq W dS k (p + dS, store d p W)"
  by (simp add: store_seq_def)

lemma for_loop_store_seq:
  "for_loop i (i + int k) (\<lambda>j d. store d (q + j * dS) W) d
     = snd (store_seq W dS k (q + i * dS, d))"
proof (induction k arbitrary: i d)
  case 0
  then show ?case by simp
next
  case (Suc k)
  have "for_loop i (i + int (Suc k)) (\<lambda>j d. store d (q + j * dS) W) d
        = for_loop (i + 1) ((i + 1) + int k) (\<lambda>j d. store d (q + j * dS) W) (store d (q + i * dS) W)"
    by (subst for_loop_step) (simp_all add: add.commute add.left_commute)
  also have "\<dots> = snd (store_seq W dS k (q + (i + 1) * dS, store d (q + i * dS) W))"
    by (rule Suc.IH)
  also have "\<dots> = snd (store_seq W dS (Suc k) (q + i * dS, d))"
    by (simp add: store_seq_Suc algebra_simps)
  finally show ?case .
qed

lemma repeat_add: "repeat (a + b) f s = repeat b f (repeat a f s)"
  by (induction a arbitrary: s) simp_all

lemma store_seq_add: "store_seq W dS (a + b) s = store_seq W dS b (store_seq W dS a s)"
  by (simp add: store_seq_def repeat_add)

lemma fst_store_seq: "fst (store_seq W dS k (p, d)) = p + int k * dS"
  by (induction k arbitrary: p d) (simp_all add: store_seq_Suc algebra_simps)

lemma store_seq_4: "store_seq W sz 4 (p, d) =
        (p + 4 * sz, store (store (store (store d p W) (p + sz) W) (p + 2 * sz) W) (p + 3 * sz) W)"
proof -
  have "store_seq W sz (Suc (Suc (Suc (Suc 0)))) (p, d) =
        (p + 4 * sz, store (store (store (store d p W) (p + sz) W) (p + 2 * sz) W) (p + 3 * sz) W)"
    by (simp add: store_seq_Suc ac_simps)
  moreover have "Suc (Suc (Suc (Suc 0))) = 4" by simp
  ultimately show ?thesis by (simp only:)
qed

lemma replicate_by4_less: "n < 4 \<Longrightarrow> replicate_by4 W sz (n, p, d) = (n, p, d)"
  by (subst replicate_by4.simps) simp

lemma replicate_by4_ge:
  "4 \<le> n \<Longrightarrow> replicate_by4 W sz (n, p, d) =
     replicate_by4 W sz (n - 4, p + 4 * sz,
          store (store (store (store d p W) (p + sz) W) (p + 2 * sz) W) (p + 3 * sz) W)"
  by (subst replicate_by4.simps) (simp add: Let_def)

lemma div4: "4 \<le> (n::nat) \<Longrightarrow> 4 * (n div 4) = 4 + 4 * ((n - 4) div 4)"
  by (simp add: le_div_geq)

lemma mod4: "4 \<le> (n::nat) \<Longrightarrow> n mod 4 = (n - 4) mod 4"
  by (simp add: le_mod_geq)

lemma replicate_by4_store_seq:
  "replicate_by4 W sz (n, p, d) =
     (n mod 4, store_seq W sz (4 * (n div 4)) (p, d))"
proof (induction n arbitrary: p d rule: less_induct)
  case (less n)
  show ?case
  proof (cases "4 \<le> n")
    case False
    then show ?thesis by (simp add: replicate_by4_less)
  next
    case True
    have lt: "n - 4 < n" using True by simp
    have "replicate_by4 W sz (n, p, d) =
       replicate_by4 W sz (n - 4, p + 4 * sz,
          store (store (store (store d p W) (p + sz) W) (p + 2 * sz) W) (p + 3 * sz) W)"
      using True by (rule replicate_by4_ge)
    also have "\<dots> = ((n - 4) mod 4, store_seq W sz (4 * ((n - 4) div 4)) (store_seq W sz 4 (p, d)))"
      unfolding store_seq_4 by (rule less.IH[OF lt])
    also have "\<dots> = (n mod 4, store_seq W sz (4 * (n div 4)) (p, d))"
      unfolding div4[OF True] mod4[OF True] store_seq_add ..
    finally show ?thesis .
  qed
qed

lemma length_load [simp]: "length (load m a n) = n"
  by (simp add: load_def)

lemma load_store_same': "length bs = n \<Longrightarrow> load (store m a bs) a n = bs"
  using load_store_same by blast

lemma GDALFastCopy_1: "GDALFastCopy T dst q ds src p ss 1 = store dst q (load src p (sizeof T))"
  by (simp add: GDALFastCopy_def)

lemma GDALCopyWordsT_strides0:
  "GDALCopyWordsT E Tin Tout src p 0 dst q 0 1 =
     store dst q (GDALCopyWord E Tin Tout (load src p (sizeof Tin)))"
  by (cases Tin; cases Tout)
     (simp_all add: GDALCopyWordsT_def GDALCopyWordsGenericT_1 GDALCopyWordsT_8atatime_1
        GDALCopyWordsByteTo16Bit_def
        GDALCopyWordsByteTo32Bit_def GDALCopyWordsT_Byte_float_def GDALCopyWordsT_Byte_double_def
        GDALCopyWordsT_UInt16_Byte_def GDALCopyWordsT_UInt16_Int16_def GDALCopyWordsT_UInt16_float_def
        GDALCopyWordsT_UInt16_double_def)

lemma GDALCopyWordsComplexOutT_1_app:
  "GDALCopyWordsComplexOutT E Tin Tout src p ss dst q ds 1 =
     store dst q (GDALCopyWord E Tin Tout (load src p (sizeof Tin)) @ tOutZero Tout)"
  by (simp add: GDALCopyWordsComplexOutT_1 store_append)

lemma GDALCopyWordsComplexT_1_app:
  "GDALCopyWordsComplexT E Tin Tout src p ss dst q ds 1 =
     store dst q (GDALCopyWord E Tin Tout (load src p (sizeof Tin)) @
                  GDALCopyWord E Tin Tout (load src (p + int (sizeof Tin)) (sizeof Tin)))"
  by (simp add: GDALCopyWordsComplexT_1 store_append)

lemma single_word_conversion:
  assumes "eSrcType \<noteq> GDT_Unknown"
  shows "GDALCopyWords E src p eSrcType 0 dst q eDstType 0 1
           = store dst q (converted_word E src p eSrcType eDstType)
         \<and> length (converted_word E src p eSrcType eDstType) = nat (GDALGetDataTypeSizeBytes eDstType)"
  using assms unfolding converted_word_def
  by (cases eSrcType; cases eDstType)
     (simp_all add: GDALCopyWords.simps GDALFastCopy_1 memcpy_def GDALCopyWordsT_strides0
        GDALCopyWordsComplexOutT_1_app GDALCopyWordsComplexT_1_app load_store_same'
        signed_modulo_int_def)

lemma store_seq_nil: "snd (store_seq [] dS k (p, d)) = d"
  by (induction k arbitrary: p) (simp_all add: store_seq_Suc)

lemma store_replicate_seq:
  "store m a (replicate k b) = snd (store_seq [b] 1 k (a, m))"
  by (induction k arbitrary: a m) (simp_all add: store_seq_Suc)

lemma memset_seq: "memset m a b k = snd (store_seq [b] 1 k (a, m))"
  by (simp add: memset_def store_replicate_seq)

lemma repeat_upd_seq:
  "repeat k (\<lambda>(p, d). (p + dS, d(p := b))) = store_seq [b] dS k"
  by (simp add: store_seq_def)

lemma repeat_store_seq:
  "repeat k (\<lambda>(p, d). (p + dS, store d p W)) = store_seq W dS k"
  by (simp add: store_seq_def)

lemma GDALReplicateWordT_seq:
  assumes "length W = sizeof T"
  shows "GDALReplicateWordT T (store dst q W) q dS k
         = snd (store_seq W dS k (q + dS, store dst q W))"
proof -
  have v: "load (store dst q W) q (sizeof T) = W"
    using assms by (simp add: load_store_same')
  show ?thesis
  proof (cases "dS = int (sizeof T)")
    case False
    then show ?thesis
      by (simp add: GDALReplicateWordT_def v repeat_store_seq)
  next
    case True
    have "k = 4 * (k div 4) + k mod 4" by simp
    then have "store_seq W dS k (q + dS, store dst q W)
       = store_seq W dS (k mod 4) (store_seq W dS (4 * (k div 4)) (q + dS, store dst q W))"
      using store_seq_add[of W dS "4 * (k div 4)" "k mod 4"] by simp
    moreover have "GDALReplicateWordT T (store dst q W) q dS k =
       snd (store_seq W dS (k mod 4) (store_seq W dS (4 * (k div 4)) (q + dS, store dst q W)))"
      using True
      by (simp add: GDALReplicateWordT_def v replicate_by4_store_seq repeat_store_seq
            split: prod.splits)
    ultimately show ?thesis by simp
  qed
qed

lemma CASE_DUPLICATE_COMPLEX_seq:
  assumes "length W = 2 * sizeof T"
  shows "CASE_DUPLICATE_COMPLEX T (store dst q W) q dS k
         = snd (store_seq W dS k (q + dS, store dst q W))"
proof -
  have W: "W = take (sizeof T) W @ drop (sizeof T) W" by simp
  have l1: "length (take (sizeof T) W) = sizeof T" using assms by simp
  have l2: "length (drop (sizeof T) W) = sizeof T" using assms by simp
  have s: "store dst q W = store (store dst q (take (sizeof T) W)) (q + int (sizeof T)) (drop (sizeof T) W)"
    using store_append[of dst q "take (sizeof T) W" "drop (sizeof T) W"] l1 by simp
  have v2: "load (store dst q W) (q + int (sizeof T)) (sizeof T) = drop (sizeof T) W"
    unfolding s using l2 by (simp add: load_store_same')
  have v1: "load (store dst q W) q (sizeof T) = take (sizeof T) W"
    unfolding s using l1 l2
    by (simp add: load_store_disjoint load_store_same')
  have body: "(\<lambda>(pabyDstWord, dst).
                   let dst = store dst pabyDstWord (take (sizeof T) W);
                       dst = store dst (pabyDstWord + int (sizeof T)) (drop (sizeof T) W)
                   in (pabyDstWord + dS, dst)) = (\<lambda>(p, d). (p + dS, store d p W))"
  proof (intro ext)
    fix x :: "int \<times> mem"
    obtain p d where x: "x = (p, d)" by (cases x)
    have "store d p W = store (store d p (take (sizeof T) W)) (p + int (sizeof T)) (drop (sizeof T) W)"
      using store_append[of d p "take (sizeof T) W" "drop (sizeof T) W"] l1 by simp
    then show "(case x of (pabyDstWord, dst) \<Rightarrow>
                   let dst = store dst pabyDstWord (take (sizeof T) W);
                       dst = store dst (pabyDstWord + int (sizeof T)) (drop (sizeof T) W)
                   in (pabyDstWord + dS, dst)) = (case x of (p, d) \<Rightarrow> (p + dS, store d p W))"
      by (simp add: x Let_def)
  qed
  show ?thesis
    unfolding CASE_DUPLICATE_COMPLEX_def v1 v2 Let_def
    using body by (simp add: store_seq_def Let_def)
qed

lemma store_one: "length W = 1 \<Longrightarrow> W = [W ! 0]"
  by (cases W) simp_all

lemma GDALReplicateWord_seq:
  assumes "eSrcType \<noteq> GDT_Unknown"
  shows "GDALReplicateWord E src p eSrcType dst q eDstType dS (Suc k)
         = snd (store_seq (converted_word E src p eSrcType eDstType) dS (Suc k) (q, dst))"
proof -
  let ?W = "converted_word E src p eSrcType eDstType"
  note A = single_word_conversion[OF assms, of E src p _ _ eDstType]
  have c: "GDALCopyWords E src p eSrcType 0 dst q eDstType 0 1 = store dst q ?W"
    using A by simp
  have len: "length ?W = nat (GDALGetDataTypeSizeBytes eDstType)" using A by simp
  have goal: "snd (store_seq ?W dS (Suc k) (q, dst)) = snd (store_seq ?W dS k (q + dS, store dst q ?W))"
    by (simp add: store_seq_Suc)
  show ?thesis
  proof (cases eDstType)
    case GDT_Unknown
    then have "?W = []" using len by simp
    then show ?thesis
      using GDT_Unknown c by (simp add: GDALReplicateWord.simps store_seq_nil)
  next
    case GDT_Byte
    then have l1: "length ?W = 1" using len by simp
    then have W1: "?W = [?W ! 0]" by (rule store_one)
    have v: "store dst q ?W q = ?W ! 0"
      using l1 by (simp add: store_apply)
    show ?thesis
      unfolding goal
      using GDT_Byte c v W1
      by (simp add: GDALReplicateWord.simps memset_seq repeat_upd_seq Let_def)
  next
    case GDT_UInt16
    then show ?thesis unfolding goal using c len
      by (simp add: GDALReplicateWord.simps GDALReplicateWordT_seq)
  next
    case GDT_Int16
    then show ?thesis unfolding goal using c len
      by (simp add: GDALReplicateWord.simps GDALReplicateWordT_seq)
  next
    case GDT_UInt32
    then show ?thesis unfolding goal using c len
      by (simp add: GDALReplicateWord.simps GDALReplicateWordT_seq)
  next
    case GDT_Int32
    then show ?thesis unfolding goal using c len
      by (simp add: GDALReplicateWord.simps GDALReplicateWordT_seq)
  next
    case GDT_Float32
    then show ?thesis unfolding goal using c len
      by (simp add: GDALReplicateWord.simps GDALReplicateWordT_seq)
  next
    case GDT_Float64
    then show ?thesis unfolding goal using c len
      by (simp add: GDALReplicateWord.simps GDALReplicateWordT_seq)
  next
    case GDT_CInt16
    then show ?thesis unfolding goal using c len
      by (simp add: GDALReplicateWord.simps CASE_DUPLICATE_COMPLEX_seq)
  next
    case GDT_CInt32
    then show ?thesis unfolding goal using c len
      by (simp add: GDALReplicateWord.simps CASE_DUPLICATE_COMPLEX_seq)
  next
    case GDT_CFloat32
    then show ?thesis unfolding goal using c len
      by (simp add: GDALReplicateWord.simps CASE_DUPLICATE_COMPLEX_seq)
  next
    case GDT_CFloat64
    then show ?thesis unfolding goal using c len
      by (simp add: GDALReplicateWord.simps CASE_DUPLICATE_COMPLEX_seq)
  qed
qed

lemma for_loop_cong_body:
  "(\<And>i s. body i s = body' i s) \<Longrightarrow> for_loop n hi body s = for_loop n hi body' s"
proof -
  assume "\<And>i s. body i s = body' i s"
  then have "body = body'" by (intro ext)
  then show ?thesis by simp
qed


section \<open>Facts about the overview scan\<close>

lemma scan_overviews_spec:
  "scan_overviews X Y r ovs i (pB, nB, dB) = (pBest, lvl, best) \<Longrightarrow>
    (pBest = pB \<and> lvl = nB \<and> best = dB \<and>
       (\<forall>j<length ovs. qualifies X Y r (ovs ! j) \<longrightarrow> ov_res X Y (ovs ! j) \<le> dB))
  \<or> (\<exists>k<length ovs. lvl = i + int k \<and> pBest = ovs ! k \<and> qualifies X Y r (ovs ! k) \<and>
         best = ov_res X Y (ovs ! k) \<and> dB < best \<and>
         (\<forall>j<length ovs. qualifies X Y r (ovs ! j) \<longrightarrow> ov_res X Y (ovs ! j) \<le> best) \<and>
         (\<forall>j<k. qualifies X Y r (ovs ! j) \<longrightarrow> ov_res X Y (ovs ! j) < best))"
proof (induction ovs arbitrary: i pB nB dB)
  case Nil
  then show ?case by simp
next
  case (Cons ov ovs)
  let ?take = "\<exists>v. ov = Some v \<and> \<not> (overview_resolution X Y v \<ge> to_double (r * double_1_2) \<or> overview_resolution X Y v \<le> dB)
        \<and> rasterio_safe v"
  show ?case
  proof (cases ?take)
    case False
    then have step: "scan_overviews X Y r (ov # ovs) i (pB, nB, dB) = scan_overviews X Y r ovs (i + 1) (pB, nB, dB)"
      by (auto simp: rasterio_safe_def Let_def split: option.splits)
    have head: "qualifies X Y r ov \<longrightarrow> ov_res X Y ov \<le> dB"
      using False by (auto simp: qualifies_def ov_res_def split: option.splits)
    from Cons.IH[of "i + 1" pB nB dB] Cons.prems step
    consider (a) "pBest = pB" "lvl = nB" "best = dB"
        "\<forall>j<length ovs. qualifies X Y r (ovs ! j) \<longrightarrow> ov_res X Y (ovs ! j) \<le> dB"
      | (b) k where "k < length ovs" "lvl = i + 1 + int k" "pBest = ovs ! k" "qualifies X Y r (ovs ! k)"
         "best = ov_res X Y (ovs ! k)" "dB < best"
         "\<forall>j<length ovs. qualifies X Y r (ovs ! j) \<longrightarrow> ov_res X Y (ovs ! j) \<le> best"
         "\<forall>j<k. qualifies X Y r (ovs ! j) \<longrightarrow> ov_res X Y (ovs ! j) < best"
      by auto
    then show ?thesis
    proof cases
      case a
      have "\<forall>j<length (ov # ovs). qualifies X Y r ((ov # ovs) ! j) \<longrightarrow> ov_res X Y ((ov # ovs) ! j) \<le> dB"
        using a(4) head by (auto simp: nth_Cons split: nat.splits)
      with a show ?thesis by blast
    next
      case b
      have 1: "\<forall>j<length (ov # ovs). qualifies X Y r ((ov # ovs) ! j) \<longrightarrow> ov_res X Y ((ov # ovs) ! j) \<le> best"
        using b(6,7) head by (auto simp: nth_Cons split: nat.splits)
      have 2: "\<forall>j<Suc k. qualifies X Y r ((ov # ovs) ! j) \<longrightarrow> ov_res X Y ((ov # ovs) ! j) < best"
        using b(6,8) head by (auto simp: nth_Cons split: nat.splits)
      have "Suc k < length (ov # ovs)" "lvl = i + int (Suc k)" "pBest = (ov # ovs) ! Suc k"
        "qualifies X Y r ((ov # ovs) ! Suc k)" "best = ov_res X Y ((ov # ovs) ! Suc k)"
        using b by simp_all
      with 1 2 b(6) show ?thesis by blast
    qed
  next
    case True
    then obtain v where v: "ov = Some v" "overview_resolution X Y v < to_double (r * double_1_2)"
       "dB < overview_resolution X Y v" "rasterio_safe v"
      by auto
    then have step: "scan_overviews X Y r (ov # ovs) i (pB, nB, dB)
        = scan_overviews X Y r ovs (i + 1) (Some v, i, overview_resolution X Y v)"
      by (auto simp: rasterio_safe_def Let_def split: option.splits)
    have q: "qualifies X Y r ov" "ov_res X Y ov = overview_resolution X Y v"
      using v by (simp_all add: qualifies_def ov_res_def)
    from Cons.IH[of "i + 1" "Some v" i "overview_resolution X Y v"] Cons.prems step
    consider (a) "pBest = Some v" "lvl = i" "best = overview_resolution X Y v"
        "\<forall>j<length ovs. qualifies X Y r (ovs ! j) \<longrightarrow> ov_res X Y (ovs ! j) \<le> overview_resolution X Y v"
      | (b) k where "k < length ovs" "lvl = i + 1 + int k" "pBest = ovs ! k" "qualifies X Y r (ovs ! k)"
         "best = ov_res X Y (ovs ! k)" "overview_resolution X Y v < best"
         "\<forall>j<length ovs. qualifies X Y r (ovs ! j) \<longrightarrow> ov_res X Y (ovs ! j) \<le> best"
         "\<forall>j<k. qualifies X Y r (ovs ! j) \<longrightarrow> ov_res X Y (ovs ! j) < best"
      by auto
    then show ?thesis
    proof cases
      case a
      have 1: "\<forall>j<length (ov # ovs). qualifies X Y r ((ov # ovs) ! j) \<longrightarrow> ov_res X Y ((ov # ovs) ! j) \<le> best"
        using a(3,4) q by (auto simp: nth_Cons split: nat.splits)
      have "(0::nat) < length (ov # ovs)" "lvl = i + int 0" "pBest = (ov # ovs) ! 0"
        "qualifies X Y r ((ov # ovs) ! 0)" "best = ov_res X Y ((ov # ovs) ! 0)" "dB < best"
        using a q v by simp_all
      with 1 show ?thesis by blast
    next
      case b
      have 1: "\<forall>j<length (ov # ovs). qualifies X Y r ((ov # ovs) ! j) \<longrightarrow> ov_res X Y ((ov # ovs) ! j) \<le> best"
        using b(6,7) q by (auto simp: nth_Cons split: nat.splits)
      have 2: "\<forall>j<Suc k. qualifies X Y r ((ov # ovs) ! j) \<longrightarrow> ov_res X Y ((ov # ovs) ! j) < best"
        using b(6,8) q by (auto simp: nth_Cons split: nat.splits)
      have "Suc k < length (ov # ovs)" "lvl = i + int (Suc k)" "pBest = (ov # ovs) ! Suc k"
        "qualifies X Y r ((ov # ovs) ! Suc k)" "best = ov_res X Y ((ov # ovs) ! Suc k)" "dB < best"
        using b v(3) by simp_all
      with 1 2 show ?thesis by blast
    qed
  qed
qed

lemma overview_resolution_pos:
  "0 < X \<Longrightarrow> 0 < Y \<Longrightarrow> 0 < ovXSize v \<Longrightarrow> 0 < ovYSize v \<Longrightarrow> 0 < overview_resolution X Y v"
  by (simp add: overview_resolution_def int_div_double_def to_double_pos)

lemma qualifies_pos:
  assumes "0 < X" "0 < Y" "overviews_positive ovs" "j < length ovs" "qualifies X Y r (ovs ! j)"
  shows "0 < ov_res X Y (ovs ! j)"
proof -
  from assms(5) obtain v where v: "ovs ! j = Some v"
    by (auto simp: qualifies_def split: option.splits)
  have "ovs ! j \<in> set ovs" using assms(4) by simp
  with assms(3) v have "0 < ovXSize v \<and> 0 < ovYSize v"
    by (auto simp: overviews_positive_def list_all_iff)
  then show ?thesis using v assms(1,2) by (simp add: ov_res_def overview_resolution_pos)
qed

lemma fst_GDALBandGetBestOverviewLevel2:
  assumes "scan_overviews X Y (desired_resolution winXSize winYSize bufXSize bufYSize) ovs 0 (None, - 1, 0)
            = (pBest, lvl, best)"
    and "lvl < 0 \<or> pBest \<noteq> None"
  shows "fst (GDALBandGetBestOverviewLevel2 X Y ovs (winXOff, winYOff, winXSize, winYSize) bufXSize bufYSize extra)
         = (if lvl < 0 then - 1 else lvl)"
  using assms by (auto simp: GDALBandGetBestOverviewLevel2_def Let_def split: option.splits)


section \<open>Lemmas about block locks in the 1:1 paths\<close>

lemma Interrupted_locks [simp]:
  "nLocks (snd (Interrupted b)) = nLocks b" "nMaxLocks (snd (Interrupted b)) = nMaxLocks b"
  by (simp_all add: Interrupted_def split: option.splits)

lemma Interrupted_unlocked [simp]: "unlocked M (snd (Interrupted b)) = unlocked M b"
  by (simp add: unlocked_def)

lemma GetLockedBlockRef_locks:
  assumes "unlocked M b" "1 \<le> M" "GetLockedBlockRef b x y j = (ok, b')"
  shows "if ok then one_locked M b' else unlocked M b'"
  using assms
  by (auto simp: GetLockedBlockRef_def lock_block_def unlocked_def one_locked_def
           split: option.splits if_splits)

lemma DropLock_unlocked [simp]: "one_locked M b \<Longrightarrow> unlocked M (DropLock b)"
  by (simp add: DropLock_def unlocked_def one_locked_def)

lemma DropLock_if_unlocked [simp]: "lock_state M poBlock b \<Longrightarrow> unlocked M (DropLock_if poBlock b)"
  by (auto simp: DropLock_if_def lock_state_def split: option.splits)

lemma MarkDirty_locks [simp]:
  "one_locked M (MarkDirty b blk) = one_locked M b" "unlocked M (MarkDirty b blk) = unlocked M b"
  by (simp_all add: MarkDirty_def unlocked_def one_locked_def)

lemma set_block_data_locks [simp]:
  "one_locked M (set_block_data b blk d) = one_locked M b"
  "unlocked M (set_block_data b blk d) = unlocked M b"
  by (simp_all add: set_block_data_def unlocked_def one_locked_def)

lemma transfer_span_locks [simp]:
  "one_locked M (fst (transfer_span E b r plain blk so bo n nb pData)) = one_locked M b"
  by (simp add: transfer_span_def Let_def)

lemma packed_fetch_locks:
  assumes "lock_state M poBlock b" "1 \<le> M"
  shows "case packed_fetch r iSrcY nLBlockY poBlock b of
           Inl (eErr, b') \<Rightarrow> unlocked M b'
         | Inr (y, poBlock', b') \<Rightarrow> lock_state M poBlock' b'"
proof (cases "iSrcY < nLBlockY * nBlockYSize b \<or> iSrcY - nBlockYSize b \<ge> nLBlockY * nBlockYSize b")
  case False
  then show ?thesis using assms by (simp add: packed_fetch_def)
next
  case True
  let ?b1 = "DropLock_if poBlock b"
  have u1: "unlocked M ?b1" using assms by simp
  obtain i b2 where ib: "Interrupted ?b1 = (i, b2)" by (cases "Interrupted ?b1")
  then have u2: "unlocked M b2" using u1 Interrupted_unlocked[of M ?b1] by simp
  show ?thesis
  proof (cases i)
    case True
    then show ?thesis using \<open>iSrcY < nLBlockY * nBlockYSize b \<or> iSrcY - nBlockYSize b \<ge> nLBlockY * nBlockYSize b\<close> ib u2
      by (simp add: packed_fetch_def Let_def)
  next
    case False
    show ?thesis
      using \<open>iSrcY < nLBlockY * nBlockYSize b \<or> iSrcY - nBlockYSize b \<ge> nLBlockY * nBlockYSize b\<close> ib False
        GetLockedBlockRef_locks[OF u2 assms(2)]
      by (auto simp: packed_fetch_def Let_def lock_state_def split: prod.splits bool.splits)
  qed
qed

lemma transfer_span_one_locked:
  "transfer_span E b r plain blk so bo n nb pData = (b2, p2) \<Longrightarrow> one_locked M b \<Longrightarrow> one_locked M b2"
  using transfer_span_locks[of M E b r plain blk so bo n nb pData] by simp

lemma packed_rows_locks:
  assumes "lock_state M poBlock b" "1 \<le> M"
  shows "unlocked M (fst (snd (packed_rows E r iBufYOff nLBlockY poBlock b pData)))"
  using assms
proof (induction E r iBufYOff nLBlockY poBlock b pData rule: packed_rows.induct)
  case (1 E r iBufYOff nLBlockY poBlock b pData)
  note F = packed_fetch_locks[OF "1.prems", of r "iBufYOff + nYOff r" nLBlockY]
  show ?case
    apply (subst packed_rows.simps)
    using F "1.prems"
    apply (auto simp: Let_def lock_state_def split: sum.splits prod.splits option.splits
                dest: transfer_span_one_locked)
    subgoal by (rule "1.IH") (auto simp: lock_state_def dest: transfer_span_one_locked)
    subgoal by (rule "1.IH") (auto simp: lock_state_def dest: transfer_span_one_locked)
    done
qed

lemma for_loop_invariant:
  "P s \<Longrightarrow> (\<And>k s. P s \<Longrightarrow> P (body k s)) \<Longrightarrow> P (for_loop n hi body s)"
proof (induction n hi body s rule: for_loop.induct)
  case (1 n hi body s)
  show ?case
  proof (cases "n < hi")
    case True
    have "P (for_loop (n + 1) hi body (body n s))"
      using True "1.prems" by (intro "1.IH") auto
    then show ?thesis using True by (simp add: for_loop_step)
  next
    case False
    then show ?thesis using "1.prems" by simp
  qed
qed

lemma same_blocking_refl [simp]: "same_blocking b b"
  by (simp add: same_blocking_def)

lemma same_blocking_transfer_span [simp]:
  "same_blocking b (fst (transfer_span E b r plain blk so bo n nb pData))"
  by (simp add: transfer_span_def Let_def same_blocking_def set_block_data_def)

lemma same_blocking_trans: "same_blocking a b \<Longrightarrow> same_blocking b c \<Longrightarrow> same_blocking a c"
  by (simp add: same_blocking_def)

lemma same_blocking_case2_copy_rows [simp]:
  "same_blocking b (fst (case2_copy_rows E r blk kmax so bo n nb b pData))"
proof -
  let ?P = "\<lambda>s :: int \<times> GDALRasterBand \<times> mem. same_blocking b (fst (snd s))"
  have "?P (for_loop 0 kmax
                (\<lambda>k (iSrcOffset, b', pData).
                   (iSrcOffset + nBlockXSize b' * sz,
                    transfer_span E b' r (plain b') blk iSrcOffset (bo + k * nLineSpace r) n nb pData))
                (so, b, pData))" for sz plain
  proof (rule for_loop_invariant)
    show "?P (so, b, pData)" by simp
  next
    fix k and s :: "int \<times> GDALRasterBand \<times> mem" assume "?P s"
    then show "?P ((\<lambda>(iSrcOffset, b', pData).
                   (iSrcOffset + nBlockXSize b' * sz,
                    transfer_span E b' r (plain b') blk iSrcOffset (bo + k * nLineSpace r) n nb pData)) s)"
      using same_blocking_trans[OF _ same_blocking_transfer_span]
      by (cases s) (auto simp: split_def)
  qed
  then show ?thesis by (simp add: case2_copy_rows_def Let_def split_def)
qed

lemma Interrupted_block_size [simp]:
  "nBlockXSize (snd (Interrupted b)) = nBlockXSize b"
  "nBlockYSize (snd (Interrupted b)) = nBlockYSize b"
  by (simp_all add: Interrupted_def split: option.splits)

lemma GetLockedBlockRef_fields [simp]:
  "nBlockXSize (snd (GetLockedBlockRef b x y j)) = nBlockXSize b"
  "nBlockYSize (snd (GetLockedBlockRef b x y j)) = nBlockYSize b"
  "nLocks (snd (GetLockedBlockRef b x y j)) =
     (if fst (GetLockedBlockRef b x y j) then nLocks b + 1 else nLocks b)"
  "nMaxLocks (snd (GetLockedBlockRef b x y j)) =
     (if fst (GetLockedBlockRef b x y j) then max (nMaxLocks b) (nLocks b + 1) else nMaxLocks b)"
  by (simp_all add: GetLockedBlockRef_def lock_block_def split: option.splits)

lemma MarkDirty_fields [simp]:
  "nBlockXSize (MarkDirty b blk) = nBlockXSize b" "nBlockYSize (MarkDirty b blk) = nBlockYSize b"
  "nLocks (MarkDirty b blk) = nLocks b" "nMaxLocks (MarkDirty b blk) = nMaxLocks b"
  by (simp_all add: MarkDirty_def)

lemma set_block_data_fields [simp]:
  "nBlockXSize (set_block_data b blk d) = nBlockXSize b"
  "nBlockYSize (set_block_data b blk d) = nBlockYSize b"
  "nLocks (set_block_data b blk d) = nLocks b" "nMaxLocks (set_block_data b blk d) = nMaxLocks b"
  by (simp_all add: set_block_data_def)

lemma DropLock_fields [simp]:
  "nBlockXSize (DropLock b) = nBlockXSize b" "nBlockYSize (DropLock b) = nBlockYSize b"
  "nLocks (DropLock b) = nLocks b - 1" "nMaxLocks (DropLock b) = nMaxLocks b"
  by (simp_all add: DropLock_def)

lemma case2_copy_rows_fields [simp]:
  "nBlockXSize (fst (case2_copy_rows E r blk kmax so bo n nb b pData)) = nBlockXSize b"
  "nBlockYSize (fst (case2_copy_rows E r blk kmax so bo n nb b pData)) = nBlockYSize b"
  "nLocks (fst (case2_copy_rows E r blk kmax so bo n nb b pData)) = nLocks b"
  "nMaxLocks (fst (case2_copy_rows E r blk kmax so bo n nb b pData)) = nMaxLocks b"
  using same_blocking_case2_copy_rows[of b E r blk kmax so bo n nb pData]
  by (simp_all add: same_blocking_def)

lemma returns_released_Some [simp]:
  "returns_released M b (Some (eErr, b', pData')) = released M b b'"
  by (simp add: returns_released_def)

lemma returns_released_cong:
  "released M b b1 \<Longrightarrow> returns_released M b1 res \<Longrightarrow> returns_released M b res"
  by (auto simp: returns_released_def released_def split: option.splits)

lemma if3_cases:
  "(A \<Longrightarrow> P x) \<Longrightarrow> (\<not> A \<Longrightarrow> \<not> G \<Longrightarrow> P y) \<Longrightarrow> (\<not> A \<Longrightarrow> G \<Longrightarrow> P z) \<Longrightarrow>
   P (if A then x else if \<not> G then y else z)"
  by simp

lemma span_positive:
  fixes BW :: int
  assumes "0 < BW" "iSrcX < e" "e \<le> INT_MAX" "iSrcX < (L + 1) * BW"
  shows "0 < (if (if L * BW < INT_MAX - BW then L * BW + BW else INT_MAX) < e
              then (if L * BW < INT_MAX - BW then L * BW + BW else INT_MAX) else e) - iSrcX"
  using assms by (auto simp: algebra_simps)

lemma span_next_block:
  fixes BW :: int
  assumes "0 < BW" "iSrcX < e" "e \<le> INT_MAX" "iSrcX < (L + 1) * BW" "BW' = BW"
  shows "iSrcX + ((if (if L * BW < INT_MAX - BW then L * BW + BW else INT_MAX) < e
              then (if L * BW < INT_MAX - BW then L * BW + BW else INT_MAX) else e) - iSrcX)
         < (L + 1 + 1) * BW'"
  using assms by (auto simp: algebra_simps)

lemma fetch_use_drop:
  assumes "fst (GetLockedBlockRef (snd (Interrupted b)) x y j)" "released M b b" "1 \<le> M"
  shows "released M b
           (DropLock (fst (case2_copy_rows E r blk k so bo n nb
              (if z then set_block_data
                           (if w then MarkDirty (snd (GetLockedBlockRef (snd (Interrupted b)) x y j)) blk1
                            else snd (GetLockedBlockRef (snd (Interrupted b)) x y j)) blk2 d
               else (if w then MarkDirty (snd (GetLockedBlockRef (snd (Interrupted b)) x y j)) blk1
                     else snd (GetLockedBlockRef (snd (Interrupted b)) x y j))) p)))"
  using assms by (cases z; cases w) (simp_all add: released_def)

lemma rec_step:
  assumes "released M b b'"
    and "released M b' b' \<Longrightarrow> nBlockXSize b' = nBlockXSize b \<Longrightarrow> nBlockYSize b' = nBlockYSize b
         \<Longrightarrow> returns_released M b' res"
  shows "returns_released M b res"
  using assms by (auto simp: returns_released_def released_def split: option.splits)

lemma interrupted_released:
  "released M b b \<Longrightarrow> returns_released M b (Some (eErr, snd (Interrupted b), pData))"
  by (simp add: released_def)

lemma failed_fetch_released:
  "released M b b \<Longrightarrow> \<not> fst (GetLockedBlockRef (snd (Interrupted b)) x y j) \<Longrightarrow>
   returns_released M b (Some (eErr, snd (GetLockedBlockRef (snd (Interrupted b)) x y j), pData))"
  by (simp add: released_def)

lemma span_decreases:
  "0 < X \<Longrightarrow> iSrcX < e \<Longrightarrow> nat (e - (iSrcX + X)) < nat (e - (iSrcX :: int))"
  by simp

lemma case2_blocks_locks:
  assumes "released M b b" "1 \<le> M" "0 < nBlockXSize b"
    "nBufXSize r + nXOff r \<le> INT_MAX" "iSrcX < (nLBlockX + 1) * nBlockXSize b"
  shows "returns_released M b
           (case2_blocks E r iBufYOff iSrcY nLBlockY iSrcX nLBlockX iBufOffset b pData)"
  using assms
proof (induction "nat (nBufXSize r + nXOff r - iSrcX)"
         arbitrary: iSrcX nLBlockX iBufOffset b pData rule: less_induct)
  case less
  show ?case
  proof (cases "iSrcX < nBufXSize r + nXOff r")
    case False
    then show ?thesis using less.prems by (subst case2_blocks.simps) (simp add: Let_def)
  next
    case True
    note pos = span_positive[OF less.prems(3) True less.prems(4,5)]
    note nxt = span_next_block[OF less.prems(3) True less.prems(4,5)]
    show ?thesis
      apply (subst case2_blocks.simps)
      apply (simp only: Let_def True if_True)
      apply (rule if3_cases[where P = "returns_released M b"])
      subgoal by (rule interrupted_released[OF less.prems(1)])
      subgoal by (rule failed_fetch_released[OF less.prems(1)])
      subgoal
        apply (rule rec_step)
         apply (rule fetch_use_drop)
           apply assumption
          apply (rule less.prems(1))
         apply (rule less.prems(2))
        apply (rule less.hyps)
        subgoal by (rule span_decreases[OF pos True])
        subgoal by assumption
        subgoal by (rule less.prems(2))
        subgoal by (erule ssubst, rule less.prems(3))
        subgoal by (rule less.prems(4))
        subgoal by (rule nxt)
        done
      done
  qed
qed

lemma sdiv_nonneg: "0 \<le> a \<Longrightarrow> 0 < b \<Longrightarrow> (a :: int) sdiv b = a div b"
  by (simp add: signed_divide_int_def sgn_if)

lemma smod_nonneg: "0 \<le> a \<Longrightarrow> 0 < b \<Longrightarrow> (a :: int) smod b = a mod b"
  by (simp add: signed_modulo_int_def sgn_if)

lemma block_of_offset:
  assumes "0 \<le> (a :: int)" "0 < b"
  shows "a < (a sdiv b + 1) * b"
proof -
  have "a = (a div b) * b + a mod b" by simp
  moreover have "a mod b < b" using assms(2) by simp
  ultimately have "a < (a div b) * b + b" by linarith
  then show ?thesis using assms by (simp add: sdiv_nonneg algebra_simps)
qed

lemma rows_to_block_end:
  assumes "0 \<le> (a :: int)" "0 < b"
  shows "0 < b - (a smod b)"
  using assms by (simp add: smod_nonneg)

lemma case2_rows_locks:
  assumes "released M b b" "1 \<le> M" "0 < nBlockXSize b" "0 < nBlockYSize b"
    "nBufXSize r + nXOff r \<le> INT_MAX" "0 \<le> nXOff r" "0 \<le> iSrcY"
  shows "returns_released M b (case2_rows E r iBufYOff iSrcY b pData)"
  using assms
proof (induction "nat (nBufYSize r - iBufYOff)" arbitrary: iBufYOff iSrcY b pData rule: less_induct)
  case less
  show ?case
  proof (cases "iBufYOff < nBufYSize r")
    case False
    then show ?thesis using less.prems(1) by (subst case2_rows.simps) simp
  next
    case True
    let ?res = "case2_blocks E r iBufYOff iSrcY (iSrcY sdiv nBlockYSize b) (nXOff r)
                  (nXOff r sdiv nBlockXSize b) (iBufYOff * nLineSpace r) b pData"
    have "returns_released M b ?res"
      using less.prems block_of_offset[of "nXOff r" "nBlockXSize b"]
      by (intro case2_blocks_locks) auto
    then obtain eErr b1 p1 where res: "?res = Some (eErr, b1, p1)" and rel: "released M b b1"
      by (auto simp: returns_released_def split: option.splits)
    have rel1: "released M b1 b1" and bw: "nBlockXSize b1 = nBlockXSize b"
      and bh: "nBlockYSize b1 = nBlockYSize b"
      using rel by (simp_all add: released_def)
    define nYInc where "nYInc = nBlockYSize b1 - (iSrcY smod nBlockYSize b1)"
    have inc: "0 < nYInc"
      unfolding nYInc_def bh using less.prems(4,7) by (rule rows_to_block_end[rotated])
    show ?thesis
    proof (cases "eErr \<noteq> CE_None")
      case True
      then show ?thesis using \<open>iBufYOff < nBufYSize r\<close> res rel
        by (subst case2_rows.simps) (simp add: Let_def)
    next
      case False
      show ?thesis
      proof (cases "progress_stops r
                     (of_int (min (nBufYSize r) (iBufYOff + nYInc)) / of_int (nBufYSize r))")
        case True
        then show ?thesis using \<open>iBufYOff < nBufYSize r\<close> res rel False
          by (subst case2_rows.simps) (simp add: Let_def nYInc_def)
      next
        case stop: False
        have "returns_released M b1 (case2_rows E r (iBufYOff + nYInc) (iSrcY + nYInc) b1 p1)"
          using inc \<open>iBufYOff < nBufYSize r\<close> rel1 less.prems bw bh
          by (intro less.hyps) auto
        then have "returns_released M b (case2_rows E r (iBufYOff + nYInc) (iSrcY + nYInc) b1 p1)"
          by (rule returns_released_cong[OF rel])
        then show ?thesis using \<open>iBufYOff < nBufYSize r\<close> res False stop
          by (subst case2_rows.simps) (simp add: Let_def nYInc_def)
      qed
    qed
  qed
qed

section \<open>Writes on a 3 by 3 raster with partial edge blocks\<close>







section \<open>Theorems about GDALCopyWords\<close>

text \<open>
  Claim C10.  Calling \<open>GDALCopyWords\<close> with a word count of 0 writes nothing: for
  every pair of pixel types and every pair of strides the destination buffer is
  returned unchanged, whichever fast path or loop the dispatch reaches.
\<close>

theorem copyWords_zero_count_no_write:
  "GDALCopyWords E src pSrcData eSrcType nSrcPixelStride dst pDstData eDstType nDstPixelStride 0 = dst"
  by (cases eSrcType)
     (simp_all add: GDALCopyWords.simps GDALFastCopy_0 GDALCopyWordsFromT_0 Let_def)

text \<open>
  Claim C6.  One word is converted by \<open>GDALCopyWords\<close> (any strides).  From a
  non-complex source type to a complex destination type, the destination receives the
  scalar conversion of the source word as its real part and the zero of the destination
  component type as its imaginary part, and nothing else is written.  From a complex
  source type to a non-complex destination type, the destination receives the scalar
  conversion of the real component of the source; the imaginary component of the source
  is not read.
\<close>

theorem complex_conversion_rules:
  assumes "component_type eSrcType = Some Tin" and "component_type eDstType = Some Tout"
  shows "(\<not> is_complex eSrcType \<and> is_complex eDstType \<longrightarrow>
            (let dst' = GDALCopyWords E src p eSrcType ss dst q eDstType ds 1 in
             dst' = store (store dst q (GDALCopyWord E Tin Tout (load src p (sizeof Tin))))
                      (q + int (sizeof Tout)) (tOutZero Tout) \<and>
             load dst' q (sizeof Tout) = GDALCopyWord E Tin Tout (load src p (sizeof Tin)) \<and>
             load dst' (q + int (sizeof Tout)) (sizeof Tout) = replicate (sizeof Tout) 0)) \<and>
         (is_complex eSrcType \<and> \<not> is_complex eDstType \<longrightarrow>
            (let dst' = GDALCopyWords E src p eSrcType ss dst q eDstType ds 1 in
             dst' = store dst q (GDALCopyWord E Tin Tout (load src p (sizeof Tin))) \<and>
             load dst' q (sizeof Tout) = GDALCopyWord E Tin Tout (load src p (sizeof Tin))))"
proof (intro conjI impI)
  assume c: "\<not> is_complex eSrcType \<and> is_complex eDstType"
  let ?w = "GDALCopyWord E Tin Tout (load src p (sizeof Tin))"
  have eq: "GDALCopyWords E src p eSrcType ss dst q eDstType ds 1
            = store (store dst q ?w) (q + int (sizeof Tout)) (tOutZero Tout)"
    using real_to_complex_1[OF assms] c by simp
  have im: "load (store (store dst q ?w) (q + int (sizeof Tout)) (tOutZero Tout))
              (q + int (sizeof Tout)) (sizeof Tout) = tOutZero Tout"
    using load_store_same[of "store dst q ?w" "q + int (sizeof Tout)" "tOutZero Tout"] by simp
  have re: "load (store (store dst q ?w) (q + int (sizeof Tout)) (tOutZero Tout)) q (sizeof Tout) = ?w"
    using load_store_disjoint[of q "sizeof Tout" "q + int (sizeof Tout)" "tOutZero Tout" "store dst q ?w"]
      load_store_same[of dst q ?w] by simp
  show "let dst' = GDALCopyWords E src p eSrcType ss dst q eDstType ds 1 in
        dst' = store (store dst q ?w) (q + int (sizeof Tout)) (tOutZero Tout) \<and>
        load dst' q (sizeof Tout) = ?w \<and>
        load dst' (q + int (sizeof Tout)) (sizeof Tout) = replicate (sizeof Tout) 0"
    using eq im re by (simp add: tOutZero_def)
next
  assume c: "is_complex eSrcType \<and> \<not> is_complex eDstType"
  let ?w = "GDALCopyWord E Tin Tout (load src p (sizeof Tin))"
  have eq: "GDALCopyWords E src p eSrcType ss dst q eDstType ds 1 = store dst q ?w"
    using complex_to_real_1[OF assms] c by simp
  show "let dst' = GDALCopyWords E src p eSrcType ss dst q eDstType ds 1 in
        dst' = store dst q ?w \<and> load dst' q (sizeof Tout) = ?w"
    using eq load_store_same[of dst q ?w] by simp
qed

text \<open>
  With the integer converter: the real value 5 becomes the complex value (5, 0), and the
  complex value (3, 7) becomes the real value 3.
\<close>

theorem complex_conversion_rules_witness:
  "load (GDALCopyWords spec_env (mem_of [5, 0]) 0 GDT_Int16 2 (mem_of []) 0 GDT_CInt16 4 1) 0 4
     = [5, 0, 0, 0]
   \<and> load (GDALCopyWords spec_env (mem_of [3, 0, 7, 0]) 0 GDT_CInt16 4 (mem_of [9, 9]) 0 GDT_Byte 1 1) 0 2
     = [3, 9]"
proof -
  have a: "component_type GDT_Int16 = Some C_short" "component_type GDT_CInt16 = Some C_short"
    "component_type GDT_Byte = Some C_uchar"
    by simp_all
  have c: "\<not> is_complex GDT_Int16 \<and> is_complex GDT_CInt16"
    "is_complex GDT_CInt16 \<and> \<not> is_complex GDT_Byte"
    by simp_all
  have e1: "load (store (store (mem_of []) 0
                (GDALCopyWord spec_env C_short C_short (load (mem_of [5, 0]) 0 (sizeof C_short))))
              (0 + int (sizeof C_short)) (tOutZero C_short)) 0 4 = [5, 0, 0, 0]"
    by code_simp
  have e2: "load (store (mem_of [9, 9]) 0
                (GDALCopyWord spec_env C_short C_uchar (load (mem_of [3, 0, 7, 0]) 0 (sizeof C_short)))) 0 2
              = [3, 9]"
    by code_simp
  have r1: "GDALCopyWords spec_env (mem_of [5, 0]) 0 GDT_Int16 2 (mem_of []) 0 GDT_CInt16 4 1
      = store (store (mem_of []) 0
                (GDALCopyWord spec_env C_short C_short (load (mem_of [5, 0]) 0 (sizeof C_short))))
              (0 + int (sizeof C_short)) (tOutZero C_short)"
    using complex_conversion_rules[OF a(1) a(2), of spec_env "mem_of [5, 0]" 0 2 "mem_of []" 0 4] c(1)
    by (simp only: Let_def simp_thms)
  have r2: "GDALCopyWords spec_env (mem_of [3, 0, 7, 0]) 0 GDT_CInt16 4 (mem_of [9, 9]) 0 GDT_Byte 1 1
      = store (mem_of [9, 9]) 0
          (GDALCopyWord spec_env C_short C_uchar (load (mem_of [3, 0, 7, 0]) 0 (sizeof C_short)))"
    using complex_conversion_rules[OF a(2) a(3), of spec_env "mem_of [3, 0, 7, 0]" 0 4 "mem_of [9, 9]" 0 1] c(2)
    by (simp only: Let_def simp_thms)
  show ?thesis unfolding r1 r2 using e1 e2 by (simp only: simp_thms)
qed

text \<open>
  Claim C5.  For a source type other than \<open>GDT_Unknown\<close>, any destination type and
  destination stride, and a count above 1, \<open>GDALCopyWords\<close> with source stride 0
  converts once and copies the converted destination word \<open>n - 1\<close> further times, and
  the destination buffer is the one that \<open>n\<close> sequential single-word conversions of the
  same source word produce.
\<close>

theorem replicate_equals_sequential:
  assumes "eSrcType \<noteq> GDT_Unknown" and "1 < nWordCount"
  shows "GDALCopyWords E src pSrcData eSrcType 0 dst pDstData eDstType nDstPixelStride nWordCount
           = convert_once_and_replicate E src pSrcData eSrcType dst pDstData eDstType
               nDstPixelStride nWordCount
       \<and> GDALCopyWords E src pSrcData eSrcType 0 dst pDstData eDstType nDstPixelStride nWordCount
           = sequential_conversions E src pSrcData eSrcType dst pDstData eDstType
               nDstPixelStride nWordCount"
proof -
  let ?W = "converted_word E src pSrcData eSrcType eDstType"
  define k where "k = nat nWordCount - 2"
  have k: "nat nWordCount = Suc (Suc k)"
    using assms(2) by (simp add: k_def)
  have n: "nWordCount = 0 + int (Suc (Suc k))" "nWordCount = 1 + int (Suc k)"
    using k assms(2) by linarith+
  note A = single_word_conversion[OF assms(1), of E src pSrcData _ _ eDstType]
  have lhs: "GDALCopyWords E src pSrcData eSrcType 0 dst pDstData eDstType nDstPixelStride nWordCount
        = snd (store_seq ?W nDstPixelStride (Suc (Suc k)) (pDstData, dst))"
    using assms(2) GDALReplicateWord_seq[OF assms(1), of E src pSrcData dst pDstData eDstType nDstPixelStride "Suc k"]
    by (subst GDALCopyWords.simps) (simp add: k)
  have seq: "sequential_conversions E src pSrcData eSrcType dst pDstData eDstType nDstPixelStride nWordCount
        = for_loop 0 (0 + int (Suc (Suc k))) (\<lambda>i d. store d (pDstData + i * nDstPixelStride) ?W) dst"
    unfolding sequential_conversions_def n(1)[symmetric]
    by (rule for_loop_cong_body) (simp add: A)
  have seq': "\<dots> = snd (store_seq ?W nDstPixelStride (Suc (Suc k)) (pDstData, dst))"
    by (subst for_loop_store_seq) simp
  have w: "load (store dst pDstData ?W) pDstData (nat (GDALGetDataTypeSizeBytes eDstType)) = ?W"
    using A by (simp add: load_store_same')
  have rep: "convert_once_and_replicate E src pSrcData eSrcType dst pDstData eDstType nDstPixelStride nWordCount
        = for_loop 1 (1 + int (Suc k)) (\<lambda>i d. store d (pDstData + i * nDstPixelStride) ?W) (store dst pDstData ?W)"
    unfolding convert_once_and_replicate_def n(2)[symmetric]
    using A w by (simp add: Let_def)
  have rep': "\<dots> = snd (store_seq ?W nDstPixelStride (Suc (Suc k)) (pDstData, dst))"
    by (subst for_loop_store_seq) (simp add: store_seq_Suc)
  show ?thesis using lhs seq seq' rep rep' by simp
qed

text \<open>
  The 16-bit value 300 replicated into five bytes: every byte is the saturated value 255.
\<close>

theorem replicate_equals_sequential_witness:
  "load (GDALCopyWords spec_env (mem_of [44, 1]) 0 GDT_Int16 0 (mem_of []) 0 GDT_Byte 1 5) 0 6
      = [255, 255, 255, 255, 255, 0]
   \<and> load (sequential_conversions spec_env (mem_of [44, 1]) 0 GDT_Int16 (mem_of []) 0 GDT_Byte 1 5) 0 6
      = [255, 255, 255, 255, 255, 0]
   \<and> load (convert_once_and_replicate spec_env (mem_of [44, 1]) 0 GDT_Int16 (mem_of []) 0 GDT_Byte 1 5) 0 6
      = [255, 255, 255, 255, 255, 0]"
proof -
  have h1: "GDT_Int16 \<noteq> GDT_Unknown" by simp
  have h2: "(1::int) < 5" by simp
  have e: "load (sequential_conversions spec_env (mem_of [44, 1]) 0 GDT_Int16 (mem_of []) 0 GDT_Byte 1 5) 0 6
      = [255, 255, 255, 255, 255, 0]"
    by code_simp
  note T = replicate_equals_sequential[OF h1 h2, of spec_env "mem_of [44, 1]" 0 "mem_of []" 0 GDT_Byte 1]
  have ab: "GDALCopyWords spec_env (mem_of [44, 1]) 0 GDT_Int16 0 (mem_of []) 0 GDT_Byte 1 5
      = convert_once_and_replicate spec_env (mem_of [44, 1]) 0 GDT_Int16 (mem_of []) 0 GDT_Byte 1 5"
    using T by (rule conjunct1)
  have ac: "GDALCopyWords spec_env (mem_of [44, 1]) 0 GDT_Int16 0 (mem_of []) 0 GDT_Byte 1 5
      = sequential_conversions spec_env (mem_of [44, 1]) 0 GDT_Int16 (mem_of []) 0 GDT_Byte 1 5"
    using T by (rule conjunct2)
  show ?thesis unfolding ab[symmetric] unfolding ac using e by (simp only: simp_thms)
qed

section \<open>Theorems about overview selection\<close>

text \<open>
  Claim C3, as stated: the selected overview is the one whose ratio is the largest value
  that is at most 1.2 times the desired ratio.  It fails on the boundary: a 12 by 12
  band with one overview of 2 by 2 (ratio 6) and a 10 by 10 window read into a 2 by 2
  buffer (desired ratio 5, and 6 = 1.2 * 5).  The overview meets the stated bound, and
  the selection returns -1, because the loop skips an overview whose resolution is
  greater than or equal to the product of the desired one and 1.2 (the product of 5 and
  the \<open>double\<close> 1.2 rounds to 6).
\<close>

theorem best_overview_boundary_counterexample:
  "overview_resolution 12 12 \<lparr>ovXSize = 2, ovYSize = 2, ovResampling = None\<rparr> = 6
   \<and> desired_resolution 10 10 2 2 = 5
   \<and> (6 :: rat) \<le> (6 / 5) * 5
   \<and> to_double (5 * double_1_2) = 6
   \<and> fst (GDALBandGetBestOverviewLevel2 12 12
            [Some \<lparr>ovXSize = 2, ovYSize = 2, ovResampling = None\<rparr>] (0, 0, 10, 10) 2 2 None) = - 1"
  by code_simp

text \<open>
  Claim C3, amended.  For a band and overviews of positive size and a buffer of positive
  size, let \<open>r\<close> be the desired resolution as the code computes it (the ratio of the
  X axis when it is the smaller one or when the buffer has one line, the ratio of the Y
  axis otherwise; a quotient in \<open>double\<close>).  An overview qualifies when it is not null,
  its resolution (the smaller of its two ratios, quotients in \<open>double\<close>) is strictly
  below the product of \<open>r\<close> and 1.2 formed in \<open>double\<close>, and it is not tagged
  \<open>AVERAGE_BIT2\<close>.  If no overview qualifies, the selection returns -1.  Otherwise it
  returns the index of a qualifying overview whose resolution is the largest among the
  qualifying ones, and the first such index.
\<close>

theorem best_overview_level:
  assumes "0 < rasterX" and "0 < rasterY" and "0 < bufXSize" and "0 < bufYSize"
    and "overviews_positive ovs"
  shows "let r = desired_resolution winXSize winYSize bufXSize bufYSize;
             lvl = fst (GDALBandGetBestOverviewLevel2 rasterX rasterY ovs
                          (winXOff, winYOff, winXSize, winYSize) bufXSize bufYSize extra)
         in if \<forall>j<length ovs. \<not> qualifies rasterX rasterY r (ovs ! j)
            then lvl = - 1
            else 0 \<le> lvl \<and> nat lvl < length ovs
               \<and> qualifies rasterX rasterY r (ovs ! nat lvl)
               \<and> (\<forall>j<length ovs. qualifies rasterX rasterY r (ovs ! j) \<longrightarrow>
                      ov_res rasterX rasterY (ovs ! j)
                        \<le> ov_res rasterX rasterY (ovs ! nat lvl))
               \<and> (\<forall>j<nat lvl. qualifies rasterX rasterY r (ovs ! j) \<longrightarrow>
                      ov_res rasterX rasterY (ovs ! j)
                        < ov_res rasterX rasterY (ovs ! nat lvl))"
proof -
  let ?X = rasterX and ?Y = rasterY
  let ?r = "desired_resolution winXSize winYSize bufXSize bufYSize"
  obtain pBest lvl best where s: "scan_overviews ?X ?Y ?r ovs 0 (None, - 1, 0) = (pBest, lvl, best)"
    by (metis prod_cases3)
  from scan_overviews_spec[OF s]
  consider (none) "pBest = None" "lvl = - 1" "best = 0"
      "\<forall>j<length ovs. qualifies ?X ?Y ?r (ovs ! j) \<longrightarrow> ov_res ?X ?Y (ovs ! j) \<le> 0"
    | (some) k where "k < length ovs" "lvl = 0 + int k" "pBest = ovs ! k"
      "qualifies ?X ?Y ?r (ovs ! k)" "best = ov_res ?X ?Y (ovs ! k)"
      "\<forall>j<length ovs. qualifies ?X ?Y ?r (ovs ! j) \<longrightarrow> ov_res ?X ?Y (ovs ! j) \<le> best"
      "\<forall>j<k. qualifies ?X ?Y ?r (ovs ! j) \<longrightarrow> ov_res ?X ?Y (ovs ! j) < best"
    by blast
  then show ?thesis
  proof cases
    case none
    have nq: "\<forall>j<length ovs. \<not> qualifies ?X ?Y ?r (ovs ! j)"
    proof (intro allI impI notI)
      fix j assume j: "j < length ovs" and q: "qualifies ?X ?Y ?r (ovs ! j)"
      from qualifies_pos[OF assms(1,2,5) j q] none(4) j q show False by fastforce
    qed
    have "fst (GDALBandGetBestOverviewLevel2 ?X ?Y ovs (winXOff, winYOff, winXSize, winYSize)
                 bufXSize bufYSize extra) = - 1"
      using fst_GDALBandGetBestOverviewLevel2[OF s] none(2) by simp
    with nq show ?thesis by (simp add: Let_def)
  next
    case some
    have pb: "pBest \<noteq> None"
      using some(3,4) by (auto simp: qualifies_def split: option.splits)
    have l: "fst (GDALBandGetBestOverviewLevel2 ?X ?Y ovs (winXOff, winYOff, winXSize, winYSize)
                 bufXSize bufYSize extra) = int k"
      using fst_GDALBandGetBestOverviewLevel2[OF s] pb some(2) by simp
    have ex: "\<not> (\<forall>j<length ovs. \<not> qualifies ?X ?Y ?r (ovs ! j))"
      using some(1,4) by blast
    show ?thesis
      unfolding Let_def l using ex some by simp
  qed
qed

text \<open>
  The example of the specification: overviews at the ratios 1, 2, 4, 8 and a desired
  ratio of 3 (a 6 by 6 window read into a 2 by 2 buffer) select the overview of ratio 2,
  at index 1.  The rounding decides a selection: for a 7 by 7 band with an overview of 5
  by 5 and a 7 by 7 window read into a 6 by 6 buffer, the ratio 7/5 of the overview is
  1.2 times 7/6, and the overview is selected, because the product formed in \<open>double\<close>
  is above the quotient 7/5 formed in \<open>double\<close>.
\<close>

theorem best_overview_level_witness:
  "desired_resolution 6 6 2 2 = 3
   \<and> map (ov_res 8 8) ov_1_2_4_8 = [1, 2, 4, 8]
   \<and> fst (GDALBandGetBestOverviewLevel2 8 8 ov_1_2_4_8 (0, 0, 6, 6) 2 2 None) = 1
   \<and> qualifies 8 8 3 (ov_1_2_4_8 ! 1)
   \<and> fst (GDALBandGetBestOverviewLevel2 7 7
            [Some \<lparr>ovXSize = 5, ovYSize = 5, ovResampling = None\<rparr>] (0, 0, 7, 7) 6 6 None) = 0"
proof -
  have h: "(0::int) < 8" "(0::int) < 2" by simp_all
  have p: "overviews_positive ov_1_2_4_8" by code_simp
  have e: "map (ov_res 8 8) ov_1_2_4_8 = [1, 2, 4, 8]" "desired_resolution 6 6 2 2 = 3"
    "fst (GDALBandGetBestOverviewLevel2 8 8 ov_1_2_4_8 (0, 0, 6, 6) 2 2 None) = 1"
    "fst (GDALBandGetBestOverviewLevel2 7 7
            [Some \<lparr>ovXSize = 5, ovYSize = 5, ovResampling = None\<rparr>] (0, 0, 7, 7) 6 6 None) = 0"
    by code_simp+
  have "qualifies 8 8 3 (ov_1_2_4_8 ! 1)"
    using best_overview_level[OF h(1) h(1) h(2) h(2) p, of 6 6 0 0 None]
    by (simp add: Let_def e split: if_splits)
  with e show ?thesis by simp
qed

section \<open>Theorems about IRasterIO\<close>

text \<open>
  Claim C1, as stated, covers reads.  A read on a band with a stored flush error
  (a 1 by 1 byte band, one block) succeeds: the status is \<open>CE_None\<close>, the block is read
  from storage, the pixel is copied to the buffer and the stored error stays.
\<close>

theorem deferred_flush_error_read_counterexample:
  "rio_summary
     (IRasterIO spec_env ((byte_band 1 1 1 1 px0)\<lparr> eFlushBlockErr := CE_Failure \<rparr>)
        (request GF_Read (0, 0, 1, 1) (1, 1)) (mem_of [0])) 1
   = Some (CE_None, [11], [(0, 0)], 0, 1, 0, CE_Failure)"
  by code_simp

text \<open>
  Claim C1, amended to writes.  A write on a band with a stored flush error returns
  the stored error and clears it; the band is otherwise unchanged (no block is fetched
  or locked, nothing is read from storage, the dataset is not polled) and no byte of
  the buffer is touched.  The error is returned once: it is \<open>CE_None\<close> afterwards.
\<close>

theorem deferred_flush_error_on_write:
  assumes "eRWFlag r = GF_Write" and "eFlushBlockErr b \<noteq> CE_None"
  shows "IRasterIO E b r pData = Some (eFlushBlockErr b, b\<lparr> eFlushBlockErr := CE_None \<rparr>, pData)
         \<and> eFlushBlockErr (b\<lparr> eFlushBlockErr := CE_None \<rparr>) = CE_None"
  using assms by (simp add: IRasterIO_def)

theorem deferred_flush_error_on_write_witness:
  "rio_summary
     (IRasterIO spec_env ((byte_band 1 1 1 1 px0)\<lparr> eFlushBlockErr := CE_Failure \<rparr>)
        (request GF_Write (0, 0, 1, 1) (1, 1)) (mem_of [7])) 1
   = Some (CE_Failure, [7], [], 0, 0, 0, CE_None)"
proof -
  have w: "eRWFlag (request GF_Write (0, 0, 1, 1) (1, 1)) = GF_Write"
    by (simp add: request_def)
  have e: "eFlushBlockErr ((byte_band 1 1 1 1 px0)\<lparr> eFlushBlockErr := CE_Failure \<rparr>) \<noteq> CE_None"
    by simp
  have s: "rio_summary
     (Some (eFlushBlockErr ((byte_band 1 1 1 1 px0)\<lparr> eFlushBlockErr := CE_Failure \<rparr>),
            (byte_band 1 1 1 1 px0)\<lparr> eFlushBlockErr := CE_Failure \<rparr>\<lparr> eFlushBlockErr := CE_None \<rparr>,
            mem_of [7])) 1
     = Some (CE_Failure, [7], [], 0, 0, 0, CE_None)"
    by code_simp
  from deferred_flush_error_on_write[OF w e, of spec_env "mem_of [7]"] s
  show ?thesis by (simp only:)
qed

text \<open>
  Claim C2, as stated, names the source pixels (0,0), (2,0), (0,2), (2,2).  The model
  of the code, run on a 4 by 4 byte raster with 2 by 2 blocks whose pixel \<open>(x, y)\<close>
  holds \<open>10 * (y + 1) + x + 1\<close>, returns 22, 24, 42, 44, the pixels (1,1), (3,1),
  (1,3), (3,3), and not 11, 13, 31, 33: the sampling rule itself gives the coordinate
  \<open>(0 + 0.5) * 2 + 0 = 1\<close> for the destination index 0.
\<close>

theorem decimation_by_2_counterexample:
  "rio_summary
     (IRasterIO spec_env (byte_band 4 4 2 2 px0) (request GF_Read (0, 0, 4, 4) (2, 2)) (mem_of [])) 4
   = Some (CE_None, [22, 24, 42, 44], [(0, 0), (1, 0), (0, 1), (1, 1)], 0, 1, 0, CE_None)
   \<and> [px0 0 0, px0 2 0, px0 0 2, px0 2 2] = [11, 13, 31, 33]"
  by code_simp

text \<open>
  Claim C2, amended.  For every contents \<open>px\<close> of a 4 by 4 byte raster (blocks of 2 by
  2), every converter and every buffer, the read of the full window into a packed 2 by
  2 byte buffer with nearest-neighbour resampling succeeds and returns the source pixels
  at (1,1), (3,1), (1,3), (3,3).  The source coordinate of a destination index is
  \<open>(index + 0.5) * ratio + origin + 1e-10\<close>, truncated and clamped to the extent of the
  block: 1 for the index 0 (block 0) and 3 for the index 1 (block 1).
\<close>

theorem decimation_by_2_samples_pixel_centres:
  "rio_summary
     (IRasterIO E (byte_band 4 4 2 2 px) (request GF_Read (0, 0, 4, 4) (2, 2)) pData) 4
   = Some (CE_None, [px 1 1, px 3 1, px 1 3, px 3 3], [(0, 0), (1, 0), (0, 1), (1, 1)], 0, 1, 0, CE_None)
   \<and> nearest_source 0 2 0 0 2 = 1 \<and> nearest_source 1 2 0 1 2 = 3"
  by code_simp

text \<open>With the pixel values \<open>px0\<close>: the bytes 22, 24, 42, 44.\<close>

theorem decimation_by_2_samples_pixel_centres_witness:
  "rio_summary
     (IRasterIO spec_env (byte_band 4 4 2 2 px0) (request GF_Read (0, 0, 4, 4) (2, 2)) (mem_of [])) 4
   = Some (CE_None, [22, 24, 42, 44], [(0, 0), (1, 0), (0, 1), (1, 1)], 0, 1, 0, CE_None)"
proof -
  have v: "[px0 1 1, px0 3 1, px0 1 3, px0 3 3] = [22, 24, 42, 44]"
    by (simp add: px0_def)
  from decimation_by_2_samples_pixel_centres[of spec_env px0 "mem_of []"]
  have "rio_summary
     (IRasterIO spec_env (byte_band 4 4 2 2 px0) (request GF_Read (0, 0, 4, 4) (2, 2)) (mem_of [])) 4
   = Some (CE_None, [px0 1 1, px0 3 1, px0 1 3, px0 3 3], [(0, 0), (1, 0), (0, 1), (1, 1)], 0, 1, 0, CE_None)"
    by (rule conjunct1)
  then show ?thesis unfolding v .
qed

text \<open>
  Claim C7.  The packed case, the 1:1 case and the general read poll the dataset before
  each block fetch.  The general write does not: on a 2 by 2 byte band whose dataset
  answers every poll with ``interrupted'', a 1:1 write of the whole raster returns
  \<open>CE_Interrupted\<close> after one poll and without locking a block, while a write of the
  same window from a 1 by 1 buffer (the general case) locks the block, never polls and
  returns \<open>CE_None\<close>.
\<close>

theorem general_write_never_polls_interruption:
  "rio_summary
     (IRasterIO spec_env ((byte_band 2 2 2 2 px0)\<lparr> poDS := Some (\<lambda>k. True) \<rparr>)
        (request GF_Write (0, 0, 2, 2) (2, 2)) (mem_of [5, 6, 7, 8])) 4
   = Some (CE_Interrupted, [5, 6, 7, 8], [], 0, 0, 1, CE_None)
   \<and> rio_summary
     (IRasterIO spec_env ((byte_band 2 2 2 2 px0)\<lparr> poDS := Some (\<lambda>k. True) \<rparr>)
        (request GF_Write (0, 0, 2, 2) (1, 1)) (mem_of [5])) 1
   = Some (CE_None, [5], [], 0, 1, 0, CE_None)
   \<and> CE_Interrupted \<noteq> CE_Failure"
  by code_simp

theorem general_write_never_polls_interruption_witness:
  "rio_summary
     (IRasterIO spec_env ((byte_band 2 2 2 2 px0)\<lparr> poDS := Some (\<lambda>k. True) \<rparr>)
        (request GF_Write (0, 0, 2, 2) (1, 1)) (mem_of [5])) 1
   = Some (CE_None, [5], [], 0, 1, 0, CE_None)"
  using general_write_never_polls_interruption by (rule conjunct2 [THEN conjunct1])

text \<open>
  Claim C8.  A call whose buffer has the size of the window, with integer window
  coordinates, a window offset that is not negative and a right edge within the range of
  \<open>int\<close>, on a band that holds no lock, returns (the loops of the 1:1 paths end), on
  success, failure and interruption alike; the band then holds no lock, and at no point
  of the call were more blocks locked at once than one (or than were ever locked at
  once before the call): every fetch of a block happens when no lock is held.
\<close>

theorem one_to_one_paths_lock_one_block:
  assumes "one_to_one r" "0 \<le> nXOff r" "0 \<le> nYOff r" "nXOff r + nXSize r \<le> INT_MAX"
    "nLocks b = 0"
  shows "\<exists>eErr b' pData'. IRasterIO E b r pData = Some (eErr, b', pData') \<and>
           nLocks b' = 0 \<and> nMaxLocks b' \<le> max 1 (nMaxLocks b)"
proof -
  let ?M = "max 1 (nMaxLocks b)"
  define Q where "Q res = (case res of None \<Rightarrow> False
                           | Some (eErr :: CPLErr, b', pData' :: mem) \<Rightarrow> unlocked ?M b')" for res
  have sizes: "nXSize r = nBufXSize r" "nYSize r = nBufYSize r"
    using assms(1) by (simp_all add: one_to_one_def)
  have coords: "\<not> bFloatingPointWindowValidity (psExtraArg r) \<or>
       (of_int (nXOff r) = dfXOff (psExtraArg r) \<and> of_int (nYOff r) = dfYOff (psExtraArg r) \<and>
        of_int (nBufXSize r) = dfXSize (psExtraArg r) \<and> of_int (nBufYSize r) = dfYSize (psExtraArg r))"
    using assms(1) by (auto simp: one_to_one_def Let_def)
  have Q0: "Q (Some (e, b, p))" "Q (Some (e, b\<lparr> eFlushBlockErr := CE_None \<rparr>, p))" for e p
    using assms(5) by (simp_all add: Q_def unlocked_def)
  have "unlocked ?M (fst (snd (packed_rows E r 0 (- 1) None b pData)))"
    using assms(5) by (intro packed_rows_locks) (simp_all add: lock_state_def unlocked_def)
  then have Qp: "Q (Some (packed_rows E r 0 (- 1) None b pData))"
    by (cases "packed_rows E r 0 (- 1) None b pData") (simp add: Q_def)
  have Qc: "Q (case2_rows E r 0 (nYOff r) b pData)" if "0 < nBlockXSize b" "0 < nBlockYSize b"
  proof -
    have "returns_released ?M b (case2_rows E r 0 (nYOff r) b pData)"
      using assms that sizes by (intro case2_rows_locks) (simp_all add: released_def)
    then show ?thesis
      by (auto simp: Q_def returns_released_def released_def unlocked_def split: option.splits)
  qed
  have "Q (IRasterIO E b r pData)"
    unfolding IRasterIO_def
    using sizes coords Q0 Qp Qc by (simp add: Let_def)
  then show ?thesis
    by (auto simp: Q_def unlocked_def split: option.splits)
qed

text \<open>
  A read of the window (1, 1, 3, 3) of a 4 by 4 byte raster with 2 by 2 blocks: four
  blocks are fetched one after the other, and one lock at most is held at a time.
\<close>

theorem one_to_one_paths_lock_one_block_witness:
  "one_to_one (request GF_Read (1, 1, 3, 3) (3, 3))
   \<and> nLocks (byte_band 4 4 2 2 px0) = 0
   \<and> (\<exists>eErr b' pData'.
         IRasterIO spec_env (byte_band 4 4 2 2 px0) (request GF_Read (1, 1, 3, 3) (3, 3)) (mem_of [])
           = Some (eErr, b', pData')
         \<and> nLocks b' = 0 \<and> nMaxLocks b' \<le> 1)
   \<and> rio_summary
        (IRasterIO spec_env (byte_band 4 4 2 2 px0) (request GF_Read (1, 1, 3, 3) (3, 3)) (mem_of [])) 9
      = Some (CE_None, [22, 23, 24, 32, 33, 34, 42, 43, 44], [(0, 0), (1, 0), (0, 1), (1, 1)],
              0, 1, 0, CE_None)"
proof -
  have a: "one_to_one (request GF_Read (1, 1, 3, 3) (3, 3))"
    by (simp add: one_to_one_def request_def no_extra_def)
  have b: "0 \<le> nXOff (request GF_Read (1, 1, 3, 3) (3, 3))"
    "0 \<le> nYOff (request GF_Read (1, 1, 3, 3) (3, 3))"
    "nXOff (request GF_Read (1, 1, 3, 3) (3, 3)) + nXSize (request GF_Read (1, 1, 3, 3) (3, 3))
       \<le> INT_MAX"
    by (simp_all add: request_def INT_MAX_def)
  have c: "nLocks (byte_band 4 4 2 2 px0) = 0" "max 1 (nMaxLocks (byte_band 4 4 2 2 px0)) = 1"
    by (simp_all add: byte_band_def)
  have d: "rio_summary
        (IRasterIO spec_env (byte_band 4 4 2 2 px0) (request GF_Read (1, 1, 3, 3) (3, 3)) (mem_of [])) 9
      = Some (CE_None, [22, 23, 24, 32, 33, 34, 42, 43, 44], [(0, 0), (1, 0), (0, 1), (1, 1)],
              0, 1, 0, CE_None)"
    by code_simp
  from one_to_one_paths_lock_one_block[OF a b c(1), of spec_env "mem_of []"]
  have "\<exists>eErr b' pData'.
         IRasterIO spec_env (byte_band 4 4 2 2 px0) (request GF_Read (1, 1, 3, 3) (3, 3)) (mem_of [])
           = Some (eErr, b', pData')
         \<and> nLocks b' = 0 \<and> nMaxLocks b' \<le> 1"
    by (simp only: c(2))
  with a c(1) d show ?thesis by (intro conjI)
qed




end
